theory Spec2Isabelle
  imports Complex_Main "HOL-Library.Word"
begin

unbundle bit_operations_syntax

section \<open>FOVE Python bindings: the glue code of \<open>bindings.cpp\<close>\<close>

subsection \<open>Flag enums: \<open>Fove_ClientCapabilities\<close>\<close>

text \<open>
  \<open>Fove_ClientCapabilities\<close> is an \<open>enum class\<close> over \<open>int\<close>; the operators
  cast to \<open>int\<close>, work bitwise and cast back, so a value is a 32-bit word.
\<close>

type_synonym Fove_ClientCapabilities = "32 word"

definition ClientCapabilities_None :: Fove_ClientCapabilities where
  "ClientCapabilities_None = 0"

definition ClientCapabilities_operator_or ::
    "Fove_ClientCapabilities \<Rightarrow> Fove_ClientCapabilities \<Rightarrow> Fove_ClientCapabilities" where
  "ClientCapabilities_operator_or a b = a OR b"

definition ClientCapabilities_operator_and ::
    "Fove_ClientCapabilities \<Rightarrow> Fove_ClientCapabilities \<Rightarrow> Fove_ClientCapabilities" where
  "ClientCapabilities_operator_and a b = a AND b"

definition ClientCapabilities_operator_not ::
    "Fove_ClientCapabilities \<Rightarrow> Fove_ClientCapabilities" where
  "ClientCapabilities_operator_not a = NOT a"

text \<open>The methods that \<open>defenum_ClientCapabilities\<close> attaches to the Python enum.\<close>

definition ClientCapabilities_eq ::
    "Fove_ClientCapabilities \<Rightarrow> Fove_ClientCapabilities \<Rightarrow> bool" where
  "ClientCapabilities_eq cap1 cap2 = (cap1 = cap2)"

definition ClientCapabilities_bool :: "Fove_ClientCapabilities \<Rightarrow> bool" where
  "ClientCapabilities_bool cap = (cap \<noteq> ClientCapabilities_None)"

definition ClientCapabilities_and ::
    "Fove_ClientCapabilities \<Rightarrow> Fove_ClientCapabilities \<Rightarrow> Fove_ClientCapabilities" where
  "ClientCapabilities_and cap1 cap2 = ClientCapabilities_operator_and cap1 cap2"

definition ClientCapabilities_or ::
    "Fove_ClientCapabilities \<Rightarrow> Fove_ClientCapabilities \<Rightarrow> Fove_ClientCapabilities" where
  "ClientCapabilities_or cap1 cap2 = ClientCapabilities_operator_or cap1 cap2"

definition ClientCapabilities_add ::
    "Fove_ClientCapabilities \<Rightarrow> Fove_ClientCapabilities \<Rightarrow> Fove_ClientCapabilities" where
  "ClientCapabilities_add cap1 cap2 = ClientCapabilities_operator_or cap1 cap2"

definition ClientCapabilities_sub ::
    "Fove_ClientCapabilities \<Rightarrow> Fove_ClientCapabilities \<Rightarrow> Fove_ClientCapabilities" where
  "ClientCapabilities_sub cap1 cap2 =
     ClientCapabilities_operator_and cap1 (ClientCapabilities_operator_not cap2)"

definition ClientCapabilities_contains ::
    "Fove_ClientCapabilities \<Rightarrow> Fove_ClientCapabilities \<Rightarrow> bool" where
  "ClientCapabilities_contains cap1 cap2 =
     (ClientCapabilities_operator_and cap1 cap2 = cap2)"

subsection \<open>Value structs\<close>

text \<open>
  The structs of \<open>FoveAPI.h\<close> are aggregates of \<open>float\<close> fields. The carrier of a
  \<open>float\<close> field is a type parameter: the operators below use only the syntactic
  operations \<open>+\<close>, \<open>-\<close>, \<open>*\<close>, \<open>/\<close> of the carrier, so whatever is proved of them
  for every carrier holds for IEEE arithmetic as well. An aggregate initialisation
  \<open>Fove_Vec3{a, b, c}\<close> is the record with the fields in that order.
\<close>

record 'a Fove_Quaternion =
  Quaternion_x :: 'a
  Quaternion_y :: 'a
  Quaternion_z :: 'a
  Quaternion_w :: 'a

record 'a Fove_Vec3 =
  Vec3_x :: 'a
  Vec3_y :: 'a
  Vec3_z :: 'a

record 'a Fove_Vec2 =
  Vec2_x :: 'a
  Vec2_y :: 'a

text \<open>\<open>Fove_Vec2i\<close> has \<open>int\<close> fields: 32-bit words.\<close>

record Fove_Vec2i =
  Vec2i_x :: "32 word"
  Vec2i_y :: "32 word"

record 'a Fove_Ray =
  Ray_origin :: "'a Fove_Vec3"
  Ray_direction :: "'a Fove_Vec3"

record 'a Fove_BoundingBox =
  BoundingBox_center :: "'a Fove_Vec3"
  BoundingBox_extend :: "'a Fove_Vec3"

record 'a Fove_ObjectPose =
  ObjectPose_scale :: "'a Fove_Vec3"
  ObjectPose_rotation :: "'a Fove_Quaternion"
  ObjectPose_position :: "'a Fove_Vec3"
  ObjectPose_velocity :: "'a Fove_Vec3"

record 'a Fove_ColliderCube =
  ColliderCube_size :: "'a Fove_Vec3"

record 'a Fove_ColliderSphere =
  ColliderSphere_radius :: 'a

text \<open>Pointers are addresses; \<open>unsigned int\<close> counts are 32-bit words.\<close>

type_synonym pointer = nat

record 'a Fove_ColliderMesh =
  ColliderMesh_vertices :: pointer
  ColliderMesh_vertexCount :: "32 word"
  ColliderMesh_indices :: pointer
  ColliderMesh_triangleCount :: "32 word"
  ColliderMesh_boundingBox :: "'a Fove_BoundingBox"

record 'a Fove_Pose =
  Pose_id :: "64 word"
  Pose_timestamp :: "64 word"
  Pose_orientation :: "'a Fove_Quaternion"
  Pose_angularVelocity :: "'a Fove_Vec3"
  Pose_angularAcceleration :: "'a Fove_Vec3"
  Pose_position :: "'a Fove_Vec3"
  Pose_standingPosition :: "'a Fove_Vec3"
  Pose_velocity :: "'a Fove_Vec3"
  Pose_acceleration :: "'a Fove_Vec3"

record 'a Fove_ProjectionParams =
  ProjectionParams_left :: 'a
  ProjectionParams_right :: 'a
  ProjectionParams_top :: 'a
  ProjectionParams_bottom :: 'a

record 'a Fove_TextureBounds =
  TextureBounds_left :: 'a
  TextureBounds_top :: 'a
  TextureBounds_right :: 'a
  TextureBounds_bottom :: 'a

record 'a Fove_CalibrationTarget =
  CalibrationTarget_position :: "'a Fove_Vec3"
  CalibrationTarget_recommendedSize :: 'a

subsection \<open>The \<open>default_*\<close> helpers\<close>

definition default_Quaternion :: "('a::{zero,one}) Fove_Quaternion" where
  "default_Quaternion =
     \<lparr>Quaternion_x = 0, Quaternion_y = 0, Quaternion_z = 0, Quaternion_w = 1\<rparr>"

definition default_Vec3 :: "('a::zero) Fove_Vec3" where
  "default_Vec3 = \<lparr>Vec3_x = 0, Vec3_y = 0, Vec3_z = 0\<rparr>"

definition default_Vec2 :: "('a::zero) Fove_Vec2" where
  "default_Vec2 = \<lparr>Vec2_x = 0, Vec2_y = 0\<rparr>"

definition default_Vec2i :: Fove_Vec2i where
  "default_Vec2i = \<lparr>Vec2i_x = 0, Vec2i_y = 0\<rparr>"

definition default_ObjectPose :: "('a::{zero,one}) Fove_ObjectPose" where
  "default_ObjectPose =
     \<lparr>ObjectPose_scale = \<lparr>Vec3_x = 1, Vec3_y = 1, Vec3_z = 1\<rparr>,
      ObjectPose_rotation = default_Quaternion,
      ObjectPose_position = default_Vec3,
      ObjectPose_velocity = default_Vec3\<rparr>"

definition default_Pose :: "('a::{zero,one}) Fove_Pose" where
  "default_Pose =
     \<lparr>Pose_id = 0, Pose_timestamp = 0, Pose_orientation = default_Quaternion,
      Pose_angularVelocity = default_Vec3, Pose_angularAcceleration = default_Vec3,
      Pose_position = default_Vec3, Pose_standingPosition = default_Vec3,
      Pose_velocity = default_Vec3, Pose_acceleration = default_Vec3\<rparr>"

definition default_TextureBounds :: "('a::zero) Fove_TextureBounds" where
  "default_TextureBounds =
     \<lparr>TextureBounds_left = 0, TextureBounds_top = 0,
      TextureBounds_right = 0, TextureBounds_bottom = 0\<rparr>"

definition default_CalibrationTarget :: "('a::zero) Fove_CalibrationTarget" where
  "default_CalibrationTarget =
     \<lparr>CalibrationTarget_position = \<lparr>Vec3_x = 0, Vec3_y = 0, Vec3_z = 0\<rparr>,
      CalibrationTarget_recommendedSize = 0\<rparr>"

subsection \<open>Constructors with default arguments\<close>

text \<open>
  A \<open>py::init<...>\<close> with \<open>py::arg(...) = v\<close> builds the aggregate from its arguments;
  an argument the caller omits (\<open>None\<close> here) takes the declared default \<open>v\<close>.
\<close>

definition arg :: "'a option \<Rightarrow> 'a \<Rightarrow> 'a" where
  "arg given dflt = (case given of None \<Rightarrow> dflt | Some v \<Rightarrow> v)"

definition Quaternion_init ::
    "('a::{zero,one}) option \<Rightarrow> 'a option \<Rightarrow> 'a option \<Rightarrow> 'a option \<Rightarrow> 'a Fove_Quaternion" where
  "Quaternion_init x y z w =
     \<lparr>Quaternion_x = arg x 0, Quaternion_y = arg y 0,
      Quaternion_z = arg z 0, Quaternion_w = arg w 1\<rparr>"

definition Vec3_init ::
    "('a::zero) option \<Rightarrow> 'a option \<Rightarrow> 'a option \<Rightarrow> 'a Fove_Vec3" where
  "Vec3_init x y z = \<lparr>Vec3_x = arg x 0, Vec3_y = arg y 0, Vec3_z = arg z 0\<rparr>"

definition Vec2_init :: "('a::zero) option \<Rightarrow> 'a option \<Rightarrow> 'a Fove_Vec2" where
  "Vec2_init x y = \<lparr>Vec2_x = arg x 0, Vec2_y = arg y 0\<rparr>"

definition Vec2i_init :: "32 word option \<Rightarrow> 32 word option \<Rightarrow> Fove_Vec2i" where
  "Vec2i_init x y = \<lparr>Vec2i_x = arg x 0, Vec2i_y = arg y 0\<rparr>"

definition Ray_init ::
    "('a::{zero,one}) Fove_Vec3 option \<Rightarrow> 'a Fove_Vec3 option \<Rightarrow> 'a Fove_Ray" where
  "Ray_init origin direction =
     \<lparr>Ray_origin = arg origin \<lparr>Vec3_x = 0, Vec3_y = 0, Vec3_z = 0\<rparr>,
      Ray_direction = arg direction \<lparr>Vec3_x = 0, Vec3_y = 0, Vec3_z = 1\<rparr>\<rparr>"

definition BoundingBox_init ::
    "('a::zero) Fove_Vec3 option \<Rightarrow> 'a Fove_Vec3 option \<Rightarrow> 'a Fove_BoundingBox" where
  "BoundingBox_init center extnd =
     \<lparr>BoundingBox_center = arg center default_Vec3,
      BoundingBox_extend = arg extnd default_Vec3\<rparr>"

definition ObjectPose_init ::
    "('a::{zero,one}) Fove_Vec3 option \<Rightarrow> 'a Fove_Quaternion option \<Rightarrow>
     'a Fove_Vec3 option \<Rightarrow> 'a Fove_Vec3 option \<Rightarrow> 'a Fove_ObjectPose" where
  "ObjectPose_init scale rotation position velocity =
     \<lparr>ObjectPose_scale = arg scale \<lparr>Vec3_x = 1, Vec3_y = 1, Vec3_z = 1\<rparr>,
      ObjectPose_rotation = arg rotation default_Quaternion,
      ObjectPose_position = arg position default_Vec3,
      ObjectPose_velocity = arg velocity default_Vec3\<rparr>"

definition ColliderCube_init ::
    "('a::one) Fove_Vec3 option \<Rightarrow> 'a Fove_ColliderCube" where
  "ColliderCube_init sz = \<lparr>ColliderCube_size = arg sz \<lparr>Vec3_x = 1, Vec3_y = 1, Vec3_z = 1\<rparr>\<rparr>"

definition Pose_init ::
    "64 word option \<Rightarrow> 64 word option \<Rightarrow> ('a::{zero,one}) Fove_Quaternion option \<Rightarrow>
     'a Fove_Vec3 option \<Rightarrow> 'a Fove_Vec3 option \<Rightarrow> 'a Fove_Vec3 option \<Rightarrow>
     'a Fove_Vec3 option \<Rightarrow> 'a Fove_Vec3 option \<Rightarrow> 'a Fove_Vec3 option \<Rightarrow> 'a Fove_Pose" where
  "Pose_init ident timestamp orientation angularVelocity angularAcceleration position
       standingPosition velocity acceleration =
     \<lparr>Pose_id = arg ident 0,
      Pose_timestamp = arg timestamp 0,
      Pose_orientation = arg orientation default_Quaternion,
      Pose_angularVelocity = arg angularVelocity default_Vec3,
      Pose_angularAcceleration = arg angularAcceleration default_Vec3,
      Pose_position = arg position default_Vec3,
      Pose_standingPosition = arg standingPosition default_Vec3,
      Pose_velocity = arg velocity default_Vec3,
      Pose_acceleration = arg acceleration default_Vec3\<rparr>"

definition ProjectionParams_init ::
    "('a::{one,uminus}) option \<Rightarrow> 'a option \<Rightarrow> 'a option \<Rightarrow> 'a option \<Rightarrow>
     'a Fove_ProjectionParams" where
  "ProjectionParams_init left_arg right_arg top_arg bottom_arg =
     \<lparr>ProjectionParams_left = arg left_arg (- 1),
      ProjectionParams_right = arg right_arg 1,
      ProjectionParams_top = arg top_arg 1,
      ProjectionParams_bottom = arg bottom_arg (- 1)\<rparr>"

definition TextureBounds_init ::
    "('a::zero) option \<Rightarrow> 'a option \<Rightarrow> 'a option \<Rightarrow> 'a option \<Rightarrow> 'a Fove_TextureBounds" where
  "TextureBounds_init left_arg top_arg right_arg bottom_arg =
     \<lparr>TextureBounds_left = arg left_arg 0, TextureBounds_top = arg top_arg 0,
      TextureBounds_right = arg right_arg 0, TextureBounds_bottom = arg bottom_arg 0\<rparr>"

definition CalibrationTarget_init ::
    "('a::zero) Fove_Vec3 option \<Rightarrow> 'a option \<Rightarrow> 'a Fove_CalibrationTarget" where
  "CalibrationTarget_init position scale =
     \<lparr>CalibrationTarget_position = arg position default_Vec3,
      CalibrationTarget_recommendedSize = arg scale 0\<rparr>"

text \<open>
  The literal \<open>0.5f\<close> is the real number one half, which binary32 represents exactly;
  this constructor is stated for the carrier \<open>real\<close>.
\<close>

definition ColliderSphere_init :: "real option \<Rightarrow> real Fove_ColliderSphere" where
  "ColliderSphere_init radius = \<lparr>ColliderSphere_radius = arg radius 0.5\<rparr>"

subsection \<open>\<open>Fove_ObjectCollider\<close>: a tag and a union\<close>

datatype Fove_ColliderType = Cube | Sphere | Mesh

text \<open>
  \<open>shapeDefinition\<close> is a C union of the three shapes. The model keeps the member that
  was stored last; reading a member is defined only when it is that one.
\<close>

datatype 'a shapeDefinition_union =
    cube_member "'a Fove_ColliderCube"
  | sphere_member "'a Fove_ColliderSphere"
  | mesh_member "'a Fove_ColliderMesh"

fun union_cube :: "'a shapeDefinition_union \<Rightarrow> 'a Fove_ColliderCube option" where
  "union_cube (cube_member c) = Some c"
| "union_cube (sphere_member s) = None"
| "union_cube (mesh_member m) = None"

fun union_sphere :: "'a shapeDefinition_union \<Rightarrow> 'a Fove_ColliderSphere option" where
  "union_sphere (cube_member c) = None"
| "union_sphere (sphere_member s) = Some s"
| "union_sphere (mesh_member m) = None"

fun union_mesh :: "'a shapeDefinition_union \<Rightarrow> 'a Fove_ColliderMesh option" where
  "union_mesh (cube_member c) = None"
| "union_mesh (sphere_member s) = None"
| "union_mesh (mesh_member m) = Some m"

record 'a Fove_ObjectCollider =
  ObjectCollider_center :: "'a Fove_Vec3"
  ObjectCollider_shapeType :: Fove_ColliderType
  ObjectCollider_shapeDefinition :: "'a shapeDefinition_union"

text \<open>A C++ exception thrown to the caller: \<open>std::runtime_error\<close> with its message.\<close>

datatype exn = runtime_error string

text \<open>
  The getters and setters of the properties \<open>cubeDefinition\<close>, \<open>sphereDefinition\<close> and
  \<open>meshDefinition\<close>. A getter either throws or returns the member of the union.
\<close>

definition get_cubeDefinition ::
    "'a Fove_ObjectCollider \<Rightarrow> exn + 'a Fove_ColliderCube option" where
  "get_cubeDefinition self =
     (if ObjectCollider_shapeType self \<noteq> Cube
      then Inl (runtime_error ''Error the collider is not of cube type'')
      else Inr (union_cube (ObjectCollider_shapeDefinition self)))"

definition set_cubeDefinition ::
    "'a Fove_ObjectCollider \<Rightarrow> 'a Fove_ColliderCube \<Rightarrow> 'a Fove_ObjectCollider" where
  "set_cubeDefinition self v =
     self\<lparr>ObjectCollider_shapeType := Cube,
          ObjectCollider_shapeDefinition := cube_member v\<rparr>"

definition get_sphereDefinition ::
    "'a Fove_ObjectCollider \<Rightarrow> exn + 'a Fove_ColliderSphere option" where
  "get_sphereDefinition self =
     (if ObjectCollider_shapeType self \<noteq> Sphere
      then Inl (runtime_error ''Error the collider is not of sphere type'')
      else Inr (union_sphere (ObjectCollider_shapeDefinition self)))"

definition set_sphereDefinition ::
    "'a Fove_ObjectCollider \<Rightarrow> 'a Fove_ColliderSphere \<Rightarrow> 'a Fove_ObjectCollider" where
  "set_sphereDefinition self v =
     self\<lparr>ObjectCollider_shapeType := Sphere,
          ObjectCollider_shapeDefinition := sphere_member v\<rparr>"

definition get_meshDefinition ::
    "'a Fove_ObjectCollider \<Rightarrow> exn + 'a Fove_ColliderMesh option" where
  "get_meshDefinition self =
     (if ObjectCollider_shapeType self \<noteq> Mesh
      then Inl (runtime_error ''Error the collider is not of mesh type'')
      else Inr (union_mesh (ObjectCollider_shapeDefinition self)))"

definition set_meshDefinition ::
    "'a Fove_ObjectCollider \<Rightarrow> 'a Fove_ColliderMesh \<Rightarrow> 'a Fove_ObjectCollider" where
  "set_meshDefinition self v =
     self\<lparr>ObjectCollider_shapeType := Mesh,
          ObjectCollider_shapeDefinition := mesh_member v\<rparr>"

subsection \<open>Buffer descriptors\<close>

text \<open>
  \<open>py::buffer_info\<close>: the address of the first element, the size of one element in
  bytes, the format string of the element type, the number of dimensions and, per
  dimension, the extent and the stride in bytes (\<open>py::ssize_t\<close> values). pybind11 keeps
  \<open>shape\<close> and \<open>strides\<close> at \<open>ndim\<close> entries each.
\<close>

record buffer_info =
  ptr :: pointer
  itemsize :: int
  format :: string
  ndim :: int
  shape :: "int list"
  strides :: "int list"

text \<open>
  The templates take the element type \<open>Elem\<close> as \<open>sizeof(Elem)\<close> and
  \<open>py::format_descriptor<Elem>::format()\<close>, and the array as its address and extents.
\<close>

definition define_1D_buffer_protocol ::
    "nat \<Rightarrow> string \<Rightarrow> nat \<Rightarrow> pointer \<Rightarrow> buffer_info" where
  "define_1D_buffer_protocol sizeof_Elem format_Elem Size data =
     \<lparr>ptr = data,
      itemsize = int sizeof_Elem,
      format = format_Elem,
      ndim = 1,
      shape = [int Size],
      strides = [int sizeof_Elem]\<rparr>"

definition define_2D_buffer_protocol ::
    "nat \<Rightarrow> string \<Rightarrow> nat \<Rightarrow> nat \<Rightarrow> pointer \<Rightarrow> buffer_info" where
  "define_2D_buffer_protocol sizeof_Elem format_Elem Rows Cols data =
     \<lparr>ptr = data,
      itemsize = int sizeof_Elem,
      format = format_Elem,
      ndim = 2,
      shape = [int Rows, int Cols],
      strides = [int (sizeof_Elem * Cols), int sizeof_Elem]\<rparr>"

text \<open>
  How a consumer of the buffer protocol addresses the element with a given index
  vector: the byte offset from \<open>ptr\<close> is the sum of index times stride.
\<close>

definition buffer_offset :: "buffer_info \<Rightarrow> int list \<Rightarrow> int" where
  "buffer_offset info idx = sum_list (map2 (*) idx (strides info))"

text \<open>
  All offsets of a one- or two-dimensional buffer, in index order (the last index runs
  fastest).
\<close>

definition offsets_1D :: "buffer_info \<Rightarrow> int list" where
  "offsets_1D info =
     map (\<lambda>i. buffer_offset info [int i]) [0 ..< nat (shape info ! 0)]"

definition offsets_2D :: "buffer_info \<Rightarrow> int list" where
  "offsets_2D info =
     concat (map (\<lambda>i. map (\<lambda>j. buffer_offset info [int i, int j])
                          [0 ..< nat (shape info ! 1)])
                 [0 ..< nat (shape info ! 0)])"

text \<open>
  The native layout of a C array: element \<open>k\<close> of \<open>n\<close> contiguous elements of
  \<open>sizeof_Elem\<close> bytes starts at byte \<open>k * sizeof_Elem\<close>, and \<open>Elem[Rows][Cols]\<close> is
  \<open>Rows * Cols\<close> contiguous elements, row after row.
\<close>

definition native_layout :: "nat \<Rightarrow> nat \<Rightarrow> int list" where
  "native_layout sizeof_Elem n = map (\<lambda>k. int (k * sizeof_Elem)) [0 ..< n]"

subsection \<open>Mesh buffers\<close>

text \<open>
  Platform constants of the element types: \<open>float\<close> and \<open>unsigned int\<close> have four bytes,
  and pybind11's format strings for them are \<open>f\<close> and \<open>I\<close>.
\<close>

definition sizeof_float :: int where "sizeof_float = 4"
definition sizeof_unsigned_int :: int where "sizeof_unsigned_int = 4"
definition format_float :: string where "format_float = ''f''"
definition format_unsigned_int :: string where "format_unsigned_int = ''I''"

record VertexBuffer =
  VertexBuffer_vertices :: pointer
  VertexBuffer_vertexCount :: "32 word"

record IndexBuffer =
  IndexBuffer_indices :: pointer
  IndexBuffer_triangleCount :: "32 word"

text \<open>
  The constructors take the descriptor \<open>b.request()\<close> of the Python buffer. The checks
  run in the order of the source, each throwing on failure; the counts are cast to
  \<open>unsigned int\<close>.
\<close>

definition VertexBuffer_init :: "buffer_info \<Rightarrow> exn + VertexBuffer" where
  "VertexBuffer_init info =
     (if format info \<noteq> format_float
      then Inl (runtime_error
             (''Incompatible format: expected a float array! received:'' @ format info))
      else if ndim info \<noteq> 2
      then Inl (runtime_error ''Incompatible buffer dimension!'')
      else if shape info ! 1 \<noteq> 3
      then Inl (runtime_error ''Vertex should be composed of 3 components (x,y,z)!'')
      else if strides info ! 0 \<noteq> 3 * sizeof_float
      then Inl (runtime_error ''Row stride should be 3 floats'')
      else if strides info ! 1 \<noteq> sizeof_float
      then Inl (runtime_error ''Col stride should be 1 float'')
      else Inr \<lparr>VertexBuffer_vertices = ptr info,
                VertexBuffer_vertexCount = word_of_int (shape info ! 0 * 3)\<rparr>)"

definition IndexBuffer_init :: "buffer_info \<Rightarrow> exn + IndexBuffer" where
  "IndexBuffer_init info =
     (if ndim info \<noteq> 1
      then Inl (runtime_error ''Incompatible buffer dimension!'')
      else if strides info ! 0 \<noteq> sizeof_unsigned_int
      then Inl (runtime_error ''Row stride should be 1 unsigned int'')
      else if shape info ! 0 mod 3 \<noteq> 0
      then Inl (runtime_error
             ''Index buffer index count should be a multiple of 3 as it represent triangles'')
      else Inr \<lparr>IndexBuffer_indices = ptr info,
                IndexBuffer_triangleCount = word_of_int (shape info ! 0 div 3)\<rparr>)"

subsection \<open>Arithmetic operators of the value structs\<close>
















subsection \<open>Calls into the native library\<close>

text \<open>
  The \<open>fove_*\<close> entry points belong to the native SDK, so every wrapper takes the entry
  point it calls as a parameter: a function from its arguments and the state of the
  native world to its results and the new state. An out-parameter is passed as the
  value it holds and comes back in the result. The environment also logs the name of
  each entry point as it is invoked.
\<close>

type_synonym Headset = pointer

type_synonym Fove_ErrorCode = "32 word"

definition ErrorCode_None :: Fove_ErrorCode where
  "ErrorCode_None = 0"

definition ErrorCode_UnknownError :: Fove_ErrorCode where
  "ErrorCode_UnknownError = 9000"

datatype Fove_Eye = Eye_Left | Eye_Right

record 'w env =
  world :: 'w
  calls :: "string list"

definition invoke :: "string \<Rightarrow> ('w \<Rightarrow> 'r \<times> 'w) \<Rightarrow> 'w env \<Rightarrow> 'r \<times> 'w env" where
  "invoke name entry_point s =
     (case entry_point (world s) of
        (r, w) \<Rightarrow> (r, \<lparr>world = w, calls = calls s @ [name]\<rparr>))"

text \<open>
  A native \<open>char\<close> array is the list of its bytes, bytes past the end of the list being
  zero. \<open>std::string(const char*)\<close> copies the bytes before the first zero.
\<close>

type_synonym char_array = "char list"

definition std_string :: "char_array \<Rightarrow> string" where
  "std_string a = takeWhile (\<lambda>c. c \<noteq> CHR 0x00) a"

text \<open>A wrapper that returns what the entry point returns.\<close>

definition Headset_getGazeVector ::
    "(Headset \<Rightarrow> Fove_Eye \<Rightarrow> 'a Fove_Vec3 \<Rightarrow> 'w \<Rightarrow> (Fove_ErrorCode \<times> 'a Fove_Vec3) \<times> 'w) \<Rightarrow>
     Headset \<Rightarrow> Fove_Eye \<Rightarrow> 'a Fove_Vec3 \<Rightarrow> 'w env \<Rightarrow> (Fove_ErrorCode \<times> 'a Fove_Vec3) \<times> 'w env" where
  "Headset_getGazeVector fove_Headset_getGazeVector headset eye out =
     invoke ''fove_Headset_getGazeVector'' (fove_Headset_getGazeVector headset eye out)"

text \<open>An entry point exported as it is (\<open>m.def("Config_clearValue", &fove_Config_clearValue)\<close>).\<close>

definition Config_clearValue ::
    "(string \<Rightarrow> 'w \<Rightarrow> Fove_ErrorCode \<times> 'w) \<Rightarrow> string \<Rightarrow> 'w env \<Rightarrow> Fove_ErrorCode \<times> 'w env" where
  "Config_clearValue fove_Config_clearValue key =
     invoke ''fove_Config_clearValue'' (fove_Config_clearValue key)"

text \<open>\<open>Headset_queryHardwareInfo\<close> copies the three strings of the native struct.\<close>

record Fove_HeadsetHardwareInfo =
  native_serialNumber :: char_array
  native_manufacturer :: char_array
  native_modelName :: char_array

record Python_HeadsetHardwareInfo =
  serialNumber :: string
  manufacturer :: string
  modelName :: string

definition Headset_queryHardwareInfo ::
    "(Headset \<Rightarrow> 'w \<Rightarrow> (Fove_ErrorCode \<times> Fove_HeadsetHardwareInfo) \<times> 'w) \<Rightarrow>
     Headset \<Rightarrow> Python_HeadsetHardwareInfo \<Rightarrow> 'w env \<Rightarrow>
     (Fove_ErrorCode \<times> Python_HeadsetHardwareInfo) \<times> 'w env" where
  "Headset_queryHardwareInfo fove_Headset_queryHardwareInfo headset outHardwareInfo s =
     (case invoke ''fove_Headset_queryHardwareInfo'' (fove_Headset_queryHardwareInfo headset) s of
        ((ret, info), s') \<Rightarrow>
          ((ret, outHardwareInfo
                   \<lparr>serialNumber := std_string (native_serialNumber info),
                    manufacturer := std_string (native_manufacturer info),
                    modelName := std_string (native_modelName info)\<rparr>), s'))"

text \<open>
  \<open>Headset_listProfiles\<close> hands the entry point a callback that appends to the result
  vector; the entry point's result lists the strings it passes to the callback, in
  order. The error code goes to the \<open>err\<close> out-parameter.
\<close>

definition Headset_listProfiles ::
    "(Headset \<Rightarrow> 'w \<Rightarrow> (Fove_ErrorCode \<times> char_array list) \<times> 'w) \<Rightarrow>
     Headset \<Rightarrow> Fove_ErrorCode \<Rightarrow> 'w env \<Rightarrow> (string list \<times> Fove_ErrorCode) \<times> 'w env" where
  "Headset_listProfiles fove_Headset_listProfiles headset err s =
     (case invoke ''fove_Headset_listProfiles'' (fove_Headset_listProfiles headset) s of
        ((err', vals), s') \<Rightarrow>
          ((foldl (\<lambda>ret val. ret @ [std_string val]) [] vals, err'), s'))"

text \<open>
  \<open>Config_getValue_string\<close> hands the entry point a callback that assigns its argument
  to the string inside \<open>outValue\<close>; every invocation of the callback overwrites it.
\<close>

definition Config_getValue_string ::
    "(string \<Rightarrow> 'w \<Rightarrow> (Fove_ErrorCode \<times> char_array list) \<times> 'w) \<Rightarrow>
     string \<Rightarrow> string \<Rightarrow> 'w env \<Rightarrow> (Fove_ErrorCode \<times> string) \<times> 'w env" where
  "Config_getValue_string fove_Config_getValue_string key outValue s =
     (case invoke ''fove_Config_getValue_string'' (fove_Config_getValue_string key) s of
        ((ret, vals), s') \<Rightarrow>
          ((ret, foldl (\<lambda>valuePtr val. std_string val) outValue vals), s'))"

text \<open>\<open>Headset_queryLicenses\<close>: the count is asked for first, then the licenses.\<close>

record Fove_LicenseInfo =
  native_uuid :: "8 word list"
  native_expirationYear :: "32 word"
  native_expirationMonth :: "32 word"
  native_expirationDay :: "32 word"
  native_licenseType :: char_array
  native_licensee :: char_array

record Python_LicenseInfo =
  uuid :: string
  expirationYear :: "32 word"
  expirationMonth :: "32 word"
  expirationDay :: "32 word"
  licenseType :: string
  licensee :: string

text \<open>\<open>make_unique<Fove_LicenseInfo[]>(n)\<close> zeroes its elements.\<close>

definition zero_LicenseInfo :: Fove_LicenseInfo where
  "zero_LicenseInfo =
     \<lparr>native_uuid = replicate 16 0, native_expirationYear = 0, native_expirationMonth = 0,
      native_expirationDay = 0, native_licenseType = [], native_licensee = []\<rparr>"

text \<open>
  One round of the copy loop: \<open>out\<close> starts as a default \<open>Python_LicenseInfo\<close> and five
  of its fields are assigned (the \<open>uuid\<close> is left empty).
\<close>

definition copy_license :: "Fove_LicenseInfo \<Rightarrow> Python_LicenseInfo" where
  "copy_license inp =
     \<lparr>uuid = [],
      expirationYear = native_expirationYear inp,
      expirationMonth = native_expirationMonth inp,
      expirationDay = native_expirationDay inp,
      licenseType = std_string (native_licenseType inp),
      licensee = std_string (native_licensee inp)\<rparr>"

text \<open>
  The loop \<open>for (i = 0; i < numLicenses; ++i)\<close> over the array; reading past the end of
  the array has no defined result (\<open>None\<close>).
\<close>

fun license_loop :: "Fove_LicenseInfo list \<Rightarrow> nat \<Rightarrow> Python_LicenseInfo list option" where
  "license_loop licenses 0 = Some []"
| "license_loop [] (Suc n) = None"
| "license_loop (l # ls) (Suc n) = map_option ((#) (copy_license l)) (license_loop ls n)"

text \<open>
  The entry point receives the array (\<open>None\<close> for \<open>nullptr\<close>) and the count behind the
  pointer, and returns the error code, the array as it leaves it and the count as it
  leaves it. The wrapper returns the list and the content of \<open>error\<close>.
\<close>

definition Headset_queryLicenses ::
    "(Headset \<Rightarrow> Fove_LicenseInfo list option \<Rightarrow> nat \<Rightarrow> 'w \<Rightarrow>
        (Fove_ErrorCode \<times> Fove_LicenseInfo list \<times> nat) \<times> 'w) \<Rightarrow>
     Headset \<Rightarrow> Fove_ErrorCode \<Rightarrow> 'w env \<Rightarrow>
     (Python_LicenseInfo list option \<times> Fove_ErrorCode) \<times> 'w env" where
  "Headset_queryLicenses fove_Headset_queryLicenses headset error s =
     (case invoke ''fove_Headset_queryLicenses''
             (fove_Headset_queryLicenses headset None 0) s of
        ((error1, unused, numLicenses), s1) \<Rightarrow>
          if error1 \<noteq> ErrorCode_None then ((Some [], error1), s1)
          else if numLicenses > 0 then
            (case invoke ''fove_Headset_queryLicenses''
                    (fove_Headset_queryLicenses headset
                       (Some (replicate numLicenses zero_LicenseInfo)) numLicenses) s1 of
               ((error2, licenses, numLicenses2), s2) \<Rightarrow>
                 if error2 \<noteq> ErrorCode_None then ((Some [], error2), s2)
                 else ((license_loop licenses numLicenses2, error2), s2))
          else ((license_loop [] numLicenses, error1), s1))"



definition native_failing_fetch ::
    "Headset \<Rightarrow> Fove_LicenseInfo list option \<Rightarrow> nat \<Rightarrow> unit \<Rightarrow>
     (Fove_ErrorCode \<times> Fove_LicenseInfo list \<times> nat) \<times> unit" where
  "native_failing_fetch headset outLicenses n w =
     (case outLicenses of
        None \<Rightarrow> ((ErrorCode_None, [], 1), w)
      | Some a \<Rightarrow> ((ErrorCode_UnknownError, a, n), w))"

subsection \<open>The remaining enums and structs\<close>

text \<open>
  The enums with the values the module registers, in the order of the \<open>defenum_*\<close>
  functions. \<open>Fove_ObjectGroup\<close> is a flag enum over \<open>int\<close>, like the capabilities.
\<close>

datatype Fove_LogLevel = LogLevel_Debug | LogLevel_Warning | LogLevel_Error

datatype Fove_EyeState = EyeState_NotDetected | EyeState_Opened | EyeState_Closed

datatype Fove_CompositorLayerType =
  CompositorLayerType_Base | CompositorLayerType_Overlay | CompositorLayerType_Diagnostic

datatype Fove_GraphicsAPI = GraphicsAPI_DirectX | GraphicsAPI_OpenGL | GraphicsAPI_Metal

datatype Fove_AlphaMode = AlphaMode_Auto | AlphaMode_One | AlphaMode_Sample

datatype Fove_CalibrationState =
    CalibrationState_NotStarted
  | CalibrationState_HeadsetAdjustment
  | CalibrationState_WaitingForUser
  | CalibrationState_CollectingData
  | CalibrationState_ProcessingData
  | CalibrationState_Successful_HighQuality
  | CalibrationState_Successful_MediumQuality
  | CalibrationState_Successful_LowQuality
  | CalibrationState_Failed_Unknown
  | CalibrationState_Failed_InaccurateData
  | CalibrationState_Failed_NoRenderer
  | CalibrationState_Failed_NoUser
  | CalibrationState_Failed_Aborted

datatype Fove_CalibrationMethod =
    CalibrationMethod_Default
  | CalibrationMethod_OnePoint
  | CalibrationMethod_Spiral
  | CalibrationMethod_OnePointWithNoGlassesSpiralWithGlasses
  | CalibrationMethod_ZeroPoint
  | CalibrationMethod_DefaultCalibration

datatype Fove_EyeByEyeCalibration =
  EyeByEyeCalibration_Default | EyeByEyeCalibration_Disabled | EyeByEyeCalibration_Enabled

datatype Fove_EyeTorsionCalibration =
  EyeTorsionCalibration_Default | EyeTorsionCalibration_IfEnabled | EyeTorsionCalibration_Always

type_synonym Fove_ObjectGroup = "32 word"

type_synonym Compositor = pointer

definition nullptr :: pointer where
  "nullptr = 0"

text \<open>
  The structs, with the fields in the order of their aggregate initialisations. \<open>int\<close>
  and \<open>uint32_t\<close> fields are 32-bit words, \<open>uint64_t\<close> fields 64-bit words, a
  \<open>size_t\<close> a natural number, a C array a list.
\<close>

record Python_Versions =
  Versions_clientMajor :: "32 word"
  Versions_clientMinor :: "32 word"
  Versions_clientBuild :: "32 word"
  Versions_clientProtocol :: "32 word"
  Versions_clientHash :: string
  Versions_runtimeMajor :: "32 word"
  Versions_runtimeMinor :: "32 word"
  Versions_runtimeBuild :: "32 word"
  Versions_runtimeHash :: string
  Versions_firmware :: "32 word"
  Versions_maxFirmware :: "32 word"
  Versions_minFirmware :: "32 word"
  Versions_tooOldHeadsetConnected :: bool

record Fove_Versions =
  native_clientMajor :: "32 word"
  native_clientMinor :: "32 word"
  native_clientBuild :: "32 word"
  native_clientProtocol :: "32 word"
  native_clientHash :: char_array
  native_runtimeMajor :: "32 word"
  native_runtimeMinor :: "32 word"
  native_runtimeBuild :: "32 word"
  native_runtimeHash :: char_array
  native_firmware :: "32 word"
  native_maxFirmware :: "32 word"
  native_minFirmware :: "32 word"
  native_tooOldHeadsetConnected :: bool

record Fove_FrameTimestamp =
  FrameTimestamp_id :: "64 word"
  FrameTimestamp_timestamp :: "64 word"

record 'a Fove_Matrix44 =
  Matrix44_mat :: "'a list list"

record 'a ColliderArray =
  ColliderArray_colliders :: "'a Fove_ObjectCollider list"

record 'a Fove_GazableObject =
  GazableObject_id :: "32 word"
  GazableObject_pose :: "'a Fove_ObjectPose"
  GazableObject_group :: Fove_ObjectGroup
  GazableObject_colliderCount :: "32 word"
  GazableObject_colliders :: pointer

record 'a Fove_CameraObject =
  CameraObject_id :: "32 word"
  CameraObject_pose :: "'a Fove_ObjectPose"
  CameraObject_groupMask :: Fove_ObjectGroup

record Fove_CompositorLayerCreateInfo =
  CompositorLayerCreateInfo_type :: Fove_CompositorLayerType
  CompositorLayerCreateInfo_disableTimeWarp :: bool
  CompositorLayerCreateInfo_alphaMode :: Fove_AlphaMode
  CompositorLayerCreateInfo_disableFading :: bool
  CompositorLayerCreateInfo_disableDistortion :: bool

record Fove_CompositorLayer =
  CompositorLayer_layerId :: "32 word"
  CompositorLayer_idealResolutionPerEye :: Fove_Vec2i

record Fove_CompositorTexture =
  CompositorTexture_graphicsAPI :: Fove_GraphicsAPI

record Fove_DX11Texture =
  DX11Texture_parent :: Fove_CompositorTexture
  DX11Texture_texture :: pointer

record Fove_GLTexture =
  GLTexture_parent :: Fove_CompositorTexture
  GLTexture_textureId :: "32 word"
  GLTexture_context :: pointer

record Fove_MetalTexture =
  MetalTexture_parent :: Fove_CompositorTexture
  MetalTexture_texture :: pointer

record 'a Fove_CompositorLayerEyeSubmitInfo =
  CompositorLayerEyeSubmitInfo_texInfo :: pointer
  CompositorLayerEyeSubmitInfo_bounds :: "'a Fove_TextureBounds"

record 'a Fove_CompositorLayerSubmitInfo =
  CompositorLayerSubmitInfo_layerId :: "32 word"
  CompositorLayerSubmitInfo_pose :: "'a Fove_Pose"
  CompositorLayerSubmitInfo_left :: "'a Fove_CompositorLayerEyeSubmitInfo"
  CompositorLayerSubmitInfo_right :: "'a Fove_CompositorLayerEyeSubmitInfo"

record Fove_AdapterId =
  AdapterId_lowPart :: "32 word"
  AdapterId_highPart :: "32 word"

record Fove_Buffer =
  Buffer_data :: pointer
  Buffer_length :: nat

record 'a Fove_EyeShape =
  EyeShape_outline :: "'a Fove_Vec2 list"

record 'a Fove_PupilShape =
  PupilShape_center :: "'a Fove_Vec2"
  PupilShape_size :: "'a Fove_Vec2"
  PupilShape_angle :: 'a

record Fove_BitmapImage =
  BitmapImage_timestamp :: "64 word"
  BitmapImage_image :: Fove_Buffer

text \<open>
  \<open>CalibrationData\<close> is the binding's copy of the native \<open>Fove_CalibrationData\<close>, with
  the state text as a \<open>std::string\<close>.
\<close>

record 'a CalibrationData =
  CalibrationData_method :: Fove_CalibrationMethod
  CalibrationData_state :: Fove_CalibrationState
  CalibrationData_stateInfo :: string
  CalibrationData_targetL :: "'a Fove_CalibrationTarget"
  CalibrationData_targetR :: "'a Fove_CalibrationTarget"

record 'a Fove_CalibrationData =
  native_method :: Fove_CalibrationMethod
  native_state :: Fove_CalibrationState
  native_stateInfo :: char_array
  native_targetL :: "'a Fove_CalibrationTarget"
  native_targetR :: "'a Fove_CalibrationTarget"

record 'a Fove_HmdAdjustmentData =
  HmdAdjustmentData_translation :: "'a Fove_Vec2"
  HmdAdjustmentData_rotation :: 'a
  HmdAdjustmentData_adjustmentNeeded :: bool
  HmdAdjustmentData_hasTimeout :: bool
  HmdAdjustmentData_idealPositionL :: "'a Fove_Vec2"
  HmdAdjustmentData_idealPositionR :: "'a Fove_Vec2"
  HmdAdjustmentData_idealPositionSpanL :: 'a
  HmdAdjustmentData_idealPositionSpanR :: 'a
  HmdAdjustmentData_estimatedPositionL :: "'a Fove_Vec2"
  HmdAdjustmentData_estimatedPositionR :: "'a Fove_Vec2"

record Fove_CalibrationOptions =
  CalibrationOptions_lazy :: bool
  CalibrationOptions_restart :: bool
  CalibrationOptions_eyeByEye :: Fove_EyeByEyeCalibration
  CalibrationOptions_method :: Fove_CalibrationMethod
  CalibrationOptions_eyeTorsion :: Fove_EyeTorsionCalibration

subsection \<open>The remaining constructors\<close>

definition default_CompositorLayerEyeSubmitInfo ::
    "('a::zero) Fove_CompositorLayerEyeSubmitInfo" where
  "default_CompositorLayerEyeSubmitInfo =
     \<lparr>CompositorLayerEyeSubmitInfo_texInfo = nullptr,
      CompositorLayerEyeSubmitInfo_bounds = default_TextureBounds\<rparr>"

definition default_Buffer :: Fove_Buffer where
  "default_Buffer = \<lparr>Buffer_data = nullptr, Buffer_length = 0\<rparr>"

text \<open>
  A class declared with \<open>py::init<>()\<close> is built by value-initialisation: members with
  an initialiser in the struct take it, all others are zero. The structs of \<open>FoveAPI.h\<close>
  have no initialisers in this build: \<open>bindings.cpp\<close> defines
  \<open>FOVE_STRUCT_VAL(memberName, defaultVal)\<close> as \<open>memberName\<close> alone before including the
  header. The structs declared in \<open>bindings.cpp\<close> have the initialisers written there.
\<close>

definition Headset_init :: Headset where
  "Headset_init = nullptr"

definition Compositor_init :: Compositor where
  "Compositor_init = nullptr"

definition LicenseInfo_init :: Python_LicenseInfo where
  "LicenseInfo_init =
     \<lparr>uuid = [], expirationYear = 0, expirationMonth = 0, expirationDay = 0,
      licenseType = [], licensee = []\<rparr>"

definition HeadsetHardwareInfo_init :: Python_HeadsetHardwareInfo where
  "HeadsetHardwareInfo_init = \<lparr>serialNumber = [], manufacturer = [], modelName = []\<rparr>"

definition Matrix44_init :: "('a::zero) Fove_Matrix44" where
  "Matrix44_init = \<lparr>Matrix44_mat = replicate 4 (replicate 4 0)\<rparr>"

definition ColliderMesh_init :: "('a::zero) Fove_ColliderMesh" where
  "ColliderMesh_init =
     \<lparr>ColliderMesh_vertices = nullptr, ColliderMesh_vertexCount = 0,
      ColliderMesh_indices = nullptr, ColliderMesh_triangleCount = 0,
      ColliderMesh_boundingBox =
        \<lparr>BoundingBox_center = \<lparr>Vec3_x = 0, Vec3_y = 0, Vec3_z = 0\<rparr>,
         BoundingBox_extend = \<lparr>Vec3_x = 0, Vec3_y = 0, Vec3_z = 0\<rparr>\<rparr>\<rparr>"

definition ColliderArray_init :: "'a ColliderArray" where
  "ColliderArray_init = \<lparr>ColliderArray_colliders = []\<rparr>"

definition EyeShape_init :: "('a::zero) Fove_EyeShape" where
  "EyeShape_init = \<lparr>EyeShape_outline = replicate 12 \<lparr>Vec2_x = 0, Vec2_y = 0\<rparr>\<rparr>"

text \<open>The three texture classes are built by a lambda without parameters.\<close>

definition DX11Texture_init :: Fove_DX11Texture where
  "DX11Texture_init =
     \<lparr>DX11Texture_parent = \<lparr>CompositorTexture_graphicsAPI = GraphicsAPI_DirectX\<rparr>,
      DX11Texture_texture = nullptr\<rparr>"

definition GLTexture_init :: Fove_GLTexture where
  "GLTexture_init =
     \<lparr>GLTexture_parent = \<lparr>CompositorTexture_graphicsAPI = GraphicsAPI_OpenGL\<rparr>,
      GLTexture_textureId = 0,
      GLTexture_context = nullptr\<rparr>"

definition MetalTexture_init :: Fove_MetalTexture where
  "MetalTexture_init =
     \<lparr>MetalTexture_parent = \<lparr>CompositorTexture_graphicsAPI = GraphicsAPI_Metal\<rparr>,
      MetalTexture_texture = nullptr\<rparr>"

text \<open>Constructors with a default for every argument.\<close>

definition Versions_init ::
    "32 word option \<Rightarrow> 32 word option \<Rightarrow> 32 word option \<Rightarrow> 32 word option \<Rightarrow>
     string option \<Rightarrow> 32 word option \<Rightarrow> 32 word option \<Rightarrow> 32 word option \<Rightarrow>
     string option \<Rightarrow> 32 word option \<Rightarrow> 32 word option \<Rightarrow> 32 word option \<Rightarrow>
     bool option \<Rightarrow> Python_Versions" where
  "Versions_init clientMajor clientMinor clientBuild clientProtocol clientHash runtimeMajor
       runtimeMinor runtimeBuild runtimeHash firmware maxFirmware minFirmware
       tooOldHeadsetConnected =
     \<lparr>Versions_clientMajor = arg clientMajor (- 1),
      Versions_clientMinor = arg clientMinor (- 1),
      Versions_clientBuild = arg clientBuild (- 1),
      Versions_clientProtocol = arg clientProtocol (- 1),
      Versions_clientHash = arg clientHash [],
      Versions_runtimeMajor = arg runtimeMajor (- 1),
      Versions_runtimeMinor = arg runtimeMinor (- 1),
      Versions_runtimeBuild = arg runtimeBuild (- 1),
      Versions_runtimeHash = arg runtimeHash [],
      Versions_firmware = arg firmware (- 1),
      Versions_maxFirmware = arg maxFirmware (- 1),
      Versions_minFirmware = arg minFirmware (- 1),
      Versions_tooOldHeadsetConnected = arg tooOldHeadsetConnected False\<rparr>"

definition FrameTimestamp_init ::
    "64 word option \<Rightarrow> 64 word option \<Rightarrow> Fove_FrameTimestamp" where
  "FrameTimestamp_init ident timestamp =
     \<lparr>FrameTimestamp_id = arg ident 0, FrameTimestamp_timestamp = arg timestamp 0\<rparr>"

text \<open>
  \<open>ObjectCollider\<close> is built from its centre alone; the tag and the union are
  value-initialised, to the enumerator with value 0 and the zeroed first member that
  \<open>FoveAPI.h\<close> declares (parameters here).
\<close>

definition ObjectCollider_init ::
    "Fove_ColliderType \<Rightarrow> 'a shapeDefinition_union \<Rightarrow> ('a::zero) Fove_Vec3 option \<Rightarrow>
     'a Fove_ObjectCollider" where
  "ObjectCollider_init zero_shapeType zero_shapeDefinition center =
     \<lparr>ObjectCollider_center = arg center default_Vec3,
      ObjectCollider_shapeType = zero_shapeType,
      ObjectCollider_shapeDefinition = zero_shapeDefinition\<rparr>"

text \<open>
  \<open>fove_ObjectIdInvalid\<close> and the value of \<open>Fove_ObjectGroup::Group0\<close> are constants of
  \<open>FoveAPI.h\<close> (parameters here). The members after \<open>group\<close> are value-initialised.
\<close>

definition GazableObject_init ::
    "32 word \<Rightarrow> Fove_ObjectGroup \<Rightarrow> 32 word option \<Rightarrow> ('a::{zero,one}) Fove_ObjectPose option \<Rightarrow>
     Fove_ObjectGroup option \<Rightarrow> 'a Fove_GazableObject" where
  "GazableObject_init fove_ObjectIdInvalid ObjectGroup_Group0 ident pose grp =
     \<lparr>GazableObject_id = arg ident fove_ObjectIdInvalid,
      GazableObject_pose = arg pose default_ObjectPose,
      GazableObject_group = arg grp ObjectGroup_Group0,
      GazableObject_colliderCount = 0,
      GazableObject_colliders = nullptr\<rparr>"

definition CameraObject_init ::
    "32 word \<Rightarrow> 32 word option \<Rightarrow> ('a::{zero,one}) Fove_ObjectPose option \<Rightarrow>
     Fove_ObjectGroup option \<Rightarrow> 'a Fove_CameraObject" where
  "CameraObject_init fove_ObjectIdInvalid ident pose groupMask =
     \<lparr>CameraObject_id = arg ident fove_ObjectIdInvalid,
      CameraObject_pose = arg pose default_ObjectPose,
      CameraObject_groupMask = arg groupMask 0xffffffff\<rparr>"

definition CompositorLayerCreateInfo_init ::
    "Fove_CompositorLayerType option \<Rightarrow> bool option \<Rightarrow> Fove_AlphaMode option \<Rightarrow>
     bool option \<Rightarrow> bool option \<Rightarrow> Fove_CompositorLayerCreateInfo" where
  "CompositorLayerCreateInfo_init layer_type disableTimeWarp alphaMode disableFading
       disableDistortion =
     \<lparr>CompositorLayerCreateInfo_type = arg layer_type CompositorLayerType_Base,
      CompositorLayerCreateInfo_disableTimeWarp = arg disableTimeWarp False,
      CompositorLayerCreateInfo_alphaMode = arg alphaMode AlphaMode_Auto,
      CompositorLayerCreateInfo_disableFading = arg disableFading False,
      CompositorLayerCreateInfo_disableDistortion = arg disableDistortion False\<rparr>"

definition CompositorLayer_init ::
    "32 word option \<Rightarrow> Fove_Vec2i option \<Rightarrow> Fove_CompositorLayer" where
  "CompositorLayer_init layerId idealResolutionPerEye =
     \<lparr>CompositorLayer_layerId = arg layerId 0,
      CompositorLayer_idealResolutionPerEye = arg idealResolutionPerEye default_Vec2i\<rparr>"

definition CompositorTexture_init :: "Fove_GraphicsAPI option \<Rightarrow> Fove_CompositorTexture" where
  "CompositorTexture_init graphicsAPI =
     \<lparr>CompositorTexture_graphicsAPI = arg graphicsAPI GraphicsAPI_DirectX\<rparr>"

definition CompositorLayerEyeSubmitInfo_init ::
    "pointer option \<Rightarrow> ('a::zero) Fove_TextureBounds option \<Rightarrow>
     'a Fove_CompositorLayerEyeSubmitInfo" where
  "CompositorLayerEyeSubmitInfo_init texInfo bounds =
     \<lparr>CompositorLayerEyeSubmitInfo_texInfo = arg texInfo nullptr,
      CompositorLayerEyeSubmitInfo_bounds = arg bounds default_TextureBounds\<rparr>"

definition CompositorLayerSubmitInfo_init ::
    "32 word option \<Rightarrow> ('a::{zero,one}) Fove_Pose option \<Rightarrow>
     'a Fove_CompositorLayerEyeSubmitInfo option \<Rightarrow>
     'a Fove_CompositorLayerEyeSubmitInfo option \<Rightarrow> 'a Fove_CompositorLayerSubmitInfo" where
  "CompositorLayerSubmitInfo_init layerId pose left_arg right_arg =
     \<lparr>CompositorLayerSubmitInfo_layerId = arg layerId 0,
      CompositorLayerSubmitInfo_pose = arg pose default_Pose,
      CompositorLayerSubmitInfo_left = arg left_arg default_CompositorLayerEyeSubmitInfo,
      CompositorLayerSubmitInfo_right = arg right_arg default_CompositorLayerEyeSubmitInfo\<rparr>"

definition Buffer_init :: "pointer option \<Rightarrow> nat option \<Rightarrow> Fove_Buffer" where
  "Buffer_init data len = \<lparr>Buffer_data = arg data nullptr, Buffer_length = arg len 0\<rparr>"

definition PupilShape_init ::
    "('a::zero) Fove_Vec2 option \<Rightarrow> 'a Fove_Vec2 option \<Rightarrow> 'a option \<Rightarrow> 'a Fove_PupilShape" where
  "PupilShape_init center sz angle =
     \<lparr>PupilShape_center = arg center default_Vec2,
      PupilShape_size = arg sz default_Vec2,
      PupilShape_angle = arg angle 0\<rparr>"

definition BitmapImage_init :: "64 word option \<Rightarrow> Fove_Buffer option \<Rightarrow> Fove_BitmapImage" where
  "BitmapImage_init timestamp img =
     \<lparr>BitmapImage_timestamp = arg timestamp 0, BitmapImage_image = arg img default_Buffer\<rparr>"

definition CalibrationData_init ::
    "Fove_CalibrationMethod option \<Rightarrow> Fove_CalibrationState option \<Rightarrow> string option \<Rightarrow>
     ('a::zero) Fove_CalibrationTarget option \<Rightarrow> 'a Fove_CalibrationTarget option \<Rightarrow>
     'a CalibrationData" where
  "CalibrationData_init method state stateInfo targetL targetR =
     \<lparr>CalibrationData_method = arg method CalibrationMethod_Spiral,
      CalibrationData_state = arg state CalibrationState_NotStarted,
      CalibrationData_stateInfo = arg stateInfo [],
      CalibrationData_targetL = arg targetL default_CalibrationTarget,
      CalibrationData_targetR = arg targetR default_CalibrationTarget\<rparr>"

definition HmdAdjustmentData_init ::
    "('a::zero) Fove_Vec2 option \<Rightarrow> 'a option \<Rightarrow> bool option \<Rightarrow> bool option \<Rightarrow>
     'a Fove_Vec2 option \<Rightarrow> 'a Fove_Vec2 option \<Rightarrow> 'a option \<Rightarrow> 'a option \<Rightarrow>
     'a Fove_Vec2 option \<Rightarrow> 'a Fove_Vec2 option \<Rightarrow> 'a Fove_HmdAdjustmentData" where
  "HmdAdjustmentData_init translation rotation adjustmentNeeded hasTimeout idealPositionL
       idealPositionR idealPositionSpanL idealPositionSpanR estimatedPositionL
       estimatedPositionR =
     \<lparr>HmdAdjustmentData_translation = arg translation default_Vec2,
      HmdAdjustmentData_rotation = arg rotation 0,
      HmdAdjustmentData_adjustmentNeeded = arg adjustmentNeeded False,
      HmdAdjustmentData_hasTimeout = arg hasTimeout False,
      HmdAdjustmentData_idealPositionL = arg idealPositionL default_Vec2,
      HmdAdjustmentData_idealPositionR = arg idealPositionR default_Vec2,
      HmdAdjustmentData_idealPositionSpanL = arg idealPositionSpanL 0,
      HmdAdjustmentData_idealPositionSpanR = arg idealPositionSpanR 0,
      HmdAdjustmentData_estimatedPositionL = arg estimatedPositionL default_Vec2,
      HmdAdjustmentData_estimatedPositionR = arg estimatedPositionR default_Vec2\<rparr>"

definition CalibrationOptions_init ::
    "bool option \<Rightarrow> bool option \<Rightarrow> Fove_EyeByEyeCalibration option \<Rightarrow>
     Fove_CalibrationMethod option \<Rightarrow> Fove_EyeTorsionCalibration option \<Rightarrow>
     Fove_CalibrationOptions" where
  "CalibrationOptions_init lazy restart eyeByEye method eyeTorsion =
     \<lparr>CalibrationOptions_lazy = arg lazy False,
      CalibrationOptions_restart = arg restart False,
      CalibrationOptions_eyeByEye = arg eyeByEye EyeByEyeCalibration_Default,
      CalibrationOptions_method = arg method CalibrationMethod_Default,
      CalibrationOptions_eyeTorsion = arg eyeTorsion EyeTorsionCalibration_Default\<rparr>"

text \<open>
  The wrapper classes \<open>Bool\<close>, \<open>Int\<close>, \<open>Float\<close>, \<open>String\<close>, \<open>EyeStateObj\<close> and
  \<open>CalibrationStateObj\<close> are \<open>Obj<T>\<close>; an \<open>Obj<T>\<close> is the value it holds.
\<close>

definition Bool_init :: "bool option \<Rightarrow> bool" where
  "Bool_init v = arg v False"

definition Int_init :: "32 word option \<Rightarrow> 32 word" where
  "Int_init v = arg v 0"

definition Float_init :: "('a::zero) option \<Rightarrow> 'a" where
  "Float_init v = arg v 0"

definition String_init :: "string option \<Rightarrow> string" where
  "String_init v = arg v []"

definition EyeStateObj_init :: "Fove_EyeState option \<Rightarrow> Fove_EyeState" where
  "EyeStateObj_init v = arg v EyeState_NotDetected"

definition CalibrationStateObj_init :: "Fove_CalibrationState option \<Rightarrow> Fove_CalibrationState" where
  "CalibrationStateObj_init v = arg v CalibrationState_NotStarted"

text \<open>
  A constructor whose argument has no default cannot be called without it: pybind11
  finds no matching overload and raises \<open>TypeError\<close>. \<open>VertexBuffer\<close> and \<open>IndexBuffer\<close>
  take a buffer; \<open>AdapterId\<close> has a constructor only when compiled for Windows.
\<close>

datatype 'a py_call = TypeError | Returned 'a

definition VertexBuffer_new :: "buffer_info option \<Rightarrow> (exn + VertexBuffer) py_call" where
  "VertexBuffer_new b = (case b of None \<Rightarrow> TypeError | Some info \<Rightarrow> Returned (VertexBuffer_init info))"

definition IndexBuffer_new :: "buffer_info option \<Rightarrow> (exn + IndexBuffer) py_call" where
  "IndexBuffer_new b = (case b of None \<Rightarrow> TypeError | Some info \<Rightarrow> Returned (IndexBuffer_init info))"

definition AdapterId_new ::
    "bool \<Rightarrow> 32 word option \<Rightarrow> 32 word option \<Rightarrow> Fove_AdapterId py_call" where
  "AdapterId_new WIN32 lowPart highPart =
     (if WIN32
      then Returned \<lparr>AdapterId_lowPart = arg lowPart 0, AdapterId_highPart = arg highPart 0\<rparr>
      else TypeError)"

subsection \<open>The remaining functions of \<open>bind_CAPIs\<close>\<close>

text \<open>
  The wrappers whose body is \<open>return fove_X(...)\<close>, and the entry points exported as
  they are (\<open>logText\<close> and \<open>Config_setValue_*\<close>, with the parameters their
  documentation names). An argument the entry point may write through (a non-const
  reference or pointer) is an out-parameter: its value goes in and its new value comes
  back with the error code. A \<open>Fove_FrameTimestamp*\<close> may be null (\<open>None\<close>).
\<close>

definition logText ::
    "(Fove_LogLevel \<Rightarrow> string \<Rightarrow> 'w \<Rightarrow> Fove_ErrorCode \<times> 'w) \<Rightarrow>
     Fove_LogLevel \<Rightarrow> string \<Rightarrow> 'w env \<Rightarrow> Fove_ErrorCode \<times> 'w env" where
  "logText fove_logText level utf8Text =
     invoke ''fove_logText'' (fove_logText level utf8Text)"

definition createHeadset ::
    "(Fove_ClientCapabilities \<Rightarrow> Headset \<Rightarrow> 'w \<Rightarrow> (Fove_ErrorCode \<times> Headset) \<times> 'w) \<Rightarrow>
     Fove_ClientCapabilities \<Rightarrow> Headset \<Rightarrow> 'w env \<Rightarrow> (Fove_ErrorCode \<times> Headset) \<times> 'w env" where
  "createHeadset fove_createHeadset capabilities outHeadset =
     invoke ''fove_createHeadset'' (fove_createHeadset capabilities outHeadset)"

definition Headset_destroy ::
    "(Headset \<Rightarrow> 'w \<Rightarrow> Fove_ErrorCode \<times> 'w) \<Rightarrow>
     Headset \<Rightarrow> 'w env \<Rightarrow> Fove_ErrorCode \<times> 'w env" where
  "Headset_destroy fove_Headset_destroy headset =
     invoke ''fove_Headset_destroy'' (fove_Headset_destroy headset)"

definition Headset_isHardwareConnected ::
    "(Headset \<Rightarrow> bool \<Rightarrow> 'w \<Rightarrow> (Fove_ErrorCode \<times> bool) \<times> 'w) \<Rightarrow>
     Headset \<Rightarrow> bool \<Rightarrow> 'w env \<Rightarrow> (Fove_ErrorCode \<times> bool) \<times> 'w env" where
  "Headset_isHardwareConnected fove_Headset_isHardwareConnected headset outConnected =
     invoke ''fove_Headset_isHardwareConnected'' (fove_Headset_isHardwareConnected headset outConnected)"

definition Headset_isMotionReady ::
    "(Headset \<Rightarrow> bool \<Rightarrow> 'w \<Rightarrow> (Fove_ErrorCode \<times> bool) \<times> 'w) \<Rightarrow>
     Headset \<Rightarrow> bool \<Rightarrow> 'w env \<Rightarrow> (Fove_ErrorCode \<times> bool) \<times> 'w env" where
  "Headset_isMotionReady fove_Headset_isMotionReady headset outMotionReady =
     invoke ''fove_Headset_isMotionReady'' (fove_Headset_isMotionReady headset outMotionReady)"

definition Headset_checkSoftwareVersions ::
    "(Headset \<Rightarrow> 'w \<Rightarrow> Fove_ErrorCode \<times> 'w) \<Rightarrow>
     Headset \<Rightarrow> 'w env \<Rightarrow> Fove_ErrorCode \<times> 'w env" where
  "Headset_checkSoftwareVersions fove_Headset_checkSoftwareVersions headset =
     invoke ''fove_Headset_checkSoftwareVersions'' (fove_Headset_checkSoftwareVersions headset)"

definition Headset_registerCapabilities ::
    "(Headset \<Rightarrow> Fove_ClientCapabilities \<Rightarrow> 'w \<Rightarrow> Fove_ErrorCode \<times> 'w) \<Rightarrow>
     Headset \<Rightarrow> Fove_ClientCapabilities \<Rightarrow> 'w env \<Rightarrow> Fove_ErrorCode \<times> 'w env" where
  "Headset_registerCapabilities fove_Headset_registerCapabilities headset caps =
     invoke ''fove_Headset_registerCapabilities'' (fove_Headset_registerCapabilities headset caps)"

definition Headset_registerPassiveCapabilities ::
    "(Headset \<Rightarrow> Fove_ClientCapabilities \<Rightarrow> 'w \<Rightarrow> Fove_ErrorCode \<times> 'w) \<Rightarrow>
     Headset \<Rightarrow> Fove_ClientCapabilities \<Rightarrow> 'w env \<Rightarrow> Fove_ErrorCode \<times> 'w env" where
  "Headset_registerPassiveCapabilities fove_Headset_registerPassiveCapabilities headset caps =
     invoke ''fove_Headset_registerPassiveCapabilities'' (fove_Headset_registerPassiveCapabilities headset caps)"

definition Headset_unregisterCapabilities ::
    "(Headset \<Rightarrow> Fove_ClientCapabilities \<Rightarrow> 'w \<Rightarrow> Fove_ErrorCode \<times> 'w) \<Rightarrow>
     Headset \<Rightarrow> Fove_ClientCapabilities \<Rightarrow> 'w env \<Rightarrow> Fove_ErrorCode \<times> 'w env" where
  "Headset_unregisterCapabilities fove_Headset_unregisterCapabilities headset caps =
     invoke ''fove_Headset_unregisterCapabilities'' (fove_Headset_unregisterCapabilities headset caps)"

definition Headset_unregisterPassiveCapabilities ::
    "(Headset \<Rightarrow> Fove_ClientCapabilities \<Rightarrow> 'w \<Rightarrow> Fove_ErrorCode \<times> 'w) \<Rightarrow>
     Headset \<Rightarrow> Fove_ClientCapabilities \<Rightarrow> 'w env \<Rightarrow> Fove_ErrorCode \<times> 'w env" where
  "Headset_unregisterPassiveCapabilities fove_Headset_unregisterPassiveCapabilities headset caps =
     invoke ''fove_Headset_unregisterPassiveCapabilities'' (fove_Headset_unregisterPassiveCapabilities headset caps)"

definition Headset_waitForProcessedEyeFrame ::
    "(Headset \<Rightarrow> 'w \<Rightarrow> Fove_ErrorCode \<times> 'w) \<Rightarrow>
     Headset \<Rightarrow> 'w env \<Rightarrow> Fove_ErrorCode \<times> 'w env" where
  "Headset_waitForProcessedEyeFrame fove_Headset_waitForProcessedEyeFrame headset =
     invoke ''fove_Headset_waitForProcessedEyeFrame'' (fove_Headset_waitForProcessedEyeFrame headset)"

definition Headset_fetchEyeTrackingData ::
    "(Headset \<Rightarrow> Fove_FrameTimestamp option \<Rightarrow> 'w \<Rightarrow> (Fove_ErrorCode \<times> (Fove_FrameTimestamp option)) \<times> 'w) \<Rightarrow>
     Headset \<Rightarrow> Fove_FrameTimestamp option \<Rightarrow> 'w env \<Rightarrow> (Fove_ErrorCode \<times> (Fove_FrameTimestamp option)) \<times> 'w env" where
  "Headset_fetchEyeTrackingData fove_Headset_fetchEyeTrackingData headset out =
     invoke ''fove_Headset_fetchEyeTrackingData'' (fove_Headset_fetchEyeTrackingData headset out)"

definition Headset_fetchEyesImage ::
    "(Headset \<Rightarrow> Fove_FrameTimestamp option \<Rightarrow> 'w \<Rightarrow> (Fove_ErrorCode \<times> (Fove_FrameTimestamp option)) \<times> 'w) \<Rightarrow>
     Headset \<Rightarrow> Fove_FrameTimestamp option \<Rightarrow> 'w env \<Rightarrow> (Fove_ErrorCode \<times> (Fove_FrameTimestamp option)) \<times> 'w env" where
  "Headset_fetchEyesImage fove_Headset_fetchEyesImage headset out =
     invoke ''fove_Headset_fetchEyesImage'' (fove_Headset_fetchEyesImage headset out)"

definition Headset_getEyeTrackingDataTimestamp ::
    "(Headset \<Rightarrow> Fove_FrameTimestamp option \<Rightarrow> 'w \<Rightarrow> (Fove_ErrorCode \<times> (Fove_FrameTimestamp option)) \<times> 'w) \<Rightarrow>
     Headset \<Rightarrow> Fove_FrameTimestamp option \<Rightarrow> 'w env \<Rightarrow> (Fove_ErrorCode \<times> (Fove_FrameTimestamp option)) \<times> 'w env" where
  "Headset_getEyeTrackingDataTimestamp fove_Headset_getEyeTrackingDataTimestamp headset out =
     invoke ''fove_Headset_getEyeTrackingDataTimestamp'' (fove_Headset_getEyeTrackingDataTimestamp headset out)"

definition Headset_getEyesImageTimestamp ::
    "(Headset \<Rightarrow> Fove_FrameTimestamp option \<Rightarrow> 'w \<Rightarrow> (Fove_ErrorCode \<times> (Fove_FrameTimestamp option)) \<times> 'w) \<Rightarrow>
     Headset \<Rightarrow> Fove_FrameTimestamp option \<Rightarrow> 'w env \<Rightarrow> (Fove_ErrorCode \<times> (Fove_FrameTimestamp option)) \<times> 'w env" where
  "Headset_getEyesImageTimestamp fove_Headset_getEyesImageTimestamp headset out =
     invoke ''fove_Headset_getEyesImageTimestamp'' (fove_Headset_getEyesImageTimestamp headset out)"

definition Headset_getGazeVectorRaw ::
    "(Headset \<Rightarrow> Fove_Eye \<Rightarrow> 'a Fove_Vec3 \<Rightarrow> 'w \<Rightarrow> (Fove_ErrorCode \<times> 'a Fove_Vec3) \<times> 'w) \<Rightarrow>
     Headset \<Rightarrow> Fove_Eye \<Rightarrow> 'a Fove_Vec3 \<Rightarrow> 'w env \<Rightarrow> (Fove_ErrorCode \<times> 'a Fove_Vec3) \<times> 'w env" where
  "Headset_getGazeVectorRaw fove_Headset_getGazeVectorRaw headset eye out =
     invoke ''fove_Headset_getGazeVectorRaw'' (fove_Headset_getGazeVectorRaw headset eye out)"

definition Headset_getGazeScreenPosition ::
    "(Headset \<Rightarrow> Fove_Eye \<Rightarrow> 'a Fove_Vec2 \<Rightarrow> 'w \<Rightarrow> (Fove_ErrorCode \<times> 'a Fove_Vec2) \<times> 'w) \<Rightarrow>
     Headset \<Rightarrow> Fove_Eye \<Rightarrow> 'a Fove_Vec2 \<Rightarrow> 'w env \<Rightarrow> (Fove_ErrorCode \<times> 'a Fove_Vec2) \<times> 'w env" where
  "Headset_getGazeScreenPosition fove_Headset_getGazeScreenPosition headset eye out =
     invoke ''fove_Headset_getGazeScreenPosition'' (fove_Headset_getGazeScreenPosition headset eye out)"

definition Headset_getGazeScreenPositionCombined ::
    "(Headset \<Rightarrow> 'a Fove_Vec2 \<Rightarrow> 'w \<Rightarrow> (Fove_ErrorCode \<times> 'a Fove_Vec2) \<times> 'w) \<Rightarrow>
     Headset \<Rightarrow> 'a Fove_Vec2 \<Rightarrow> 'w env \<Rightarrow> (Fove_ErrorCode \<times> 'a Fove_Vec2) \<times> 'w env" where
  "Headset_getGazeScreenPositionCombined fove_Headset_getGazeScreenPositionCombined headset out =
     invoke ''fove_Headset_getGazeScreenPositionCombined'' (fove_Headset_getGazeScreenPositionCombined headset out)"

definition Headset_getCombinedGazeRay ::
    "(Headset \<Rightarrow> 'a Fove_Ray \<Rightarrow> 'w \<Rightarrow> (Fove_ErrorCode \<times> 'a Fove_Ray) \<times> 'w) \<Rightarrow>
     Headset \<Rightarrow> 'a Fove_Ray \<Rightarrow> 'w env \<Rightarrow> (Fove_ErrorCode \<times> 'a Fove_Ray) \<times> 'w env" where
  "Headset_getCombinedGazeRay fove_Headset_getCombinedGazeRay headset out =
     invoke ''fove_Headset_getCombinedGazeRay'' (fove_Headset_getCombinedGazeRay headset out)"

definition Headset_getCombinedGazeDepth ::
    "(Headset \<Rightarrow> 'a \<Rightarrow> 'w \<Rightarrow> (Fove_ErrorCode \<times> 'a) \<times> 'w) \<Rightarrow>
     Headset \<Rightarrow> 'a \<Rightarrow> 'w env \<Rightarrow> (Fove_ErrorCode \<times> 'a) \<times> 'w env" where
  "Headset_getCombinedGazeDepth fove_Headset_getCombinedGazeDepth headset out =
     invoke ''fove_Headset_getCombinedGazeDepth'' (fove_Headset_getCombinedGazeDepth headset out)"

definition Headset_isUserShiftingAttention ::
    "(Headset \<Rightarrow> bool \<Rightarrow> 'w \<Rightarrow> (Fove_ErrorCode \<times> bool) \<times> 'w) \<Rightarrow>
     Headset \<Rightarrow> bool \<Rightarrow> 'w env \<Rightarrow> (Fove_ErrorCode \<times> bool) \<times> 'w env" where
  "Headset_isUserShiftingAttention fove_Headset_isUserShiftingAttention headset out =
     invoke ''fove_Headset_isUserShiftingAttention'' (fove_Headset_isUserShiftingAttention headset out)"

definition Headset_getEyeState ::
    "(Headset \<Rightarrow> Fove_Eye \<Rightarrow> Fove_EyeState \<Rightarrow> 'w \<Rightarrow> (Fove_ErrorCode \<times> Fove_EyeState) \<times> 'w) \<Rightarrow>
     Headset \<Rightarrow> Fove_Eye \<Rightarrow> Fove_EyeState \<Rightarrow> 'w env \<Rightarrow> (Fove_ErrorCode \<times> Fove_EyeState) \<times> 'w env" where
  "Headset_getEyeState fove_Headset_getEyeState headset eye out =
     invoke ''fove_Headset_getEyeState'' (fove_Headset_getEyeState headset eye out)"

definition Headset_isEyeBlinking ::
    "(Headset \<Rightarrow> Fove_Eye \<Rightarrow> bool \<Rightarrow> 'w \<Rightarrow> (Fove_ErrorCode \<times> bool) \<times> 'w) \<Rightarrow>
     Headset \<Rightarrow> Fove_Eye \<Rightarrow> bool \<Rightarrow> 'w env \<Rightarrow> (Fove_ErrorCode \<times> bool) \<times> 'w env" where
  "Headset_isEyeBlinking fove_Headset_isEyeBlinking headset eye out =
     invoke ''fove_Headset_isEyeBlinking'' (fove_Headset_isEyeBlinking headset eye out)"

definition Headset_getEyeBlinkCount ::
    "(Headset \<Rightarrow> Fove_Eye \<Rightarrow> 32 word \<Rightarrow> 'w \<Rightarrow> (Fove_ErrorCode \<times> 32 word) \<times> 'w) \<Rightarrow>
     Headset \<Rightarrow> Fove_Eye \<Rightarrow> 32 word \<Rightarrow> 'w env \<Rightarrow> (Fove_ErrorCode \<times> 32 word) \<times> 'w env" where
  "Headset_getEyeBlinkCount fove_Headset_getEyeBlinkCount headset eye out =
     invoke ''fove_Headset_getEyeBlinkCount'' (fove_Headset_getEyeBlinkCount headset eye out)"

definition Headset_isEyeTrackingEnabled ::
    "(Headset \<Rightarrow> bool \<Rightarrow> 'w \<Rightarrow> (Fove_ErrorCode \<times> bool) \<times> 'w) \<Rightarrow>
     Headset \<Rightarrow> bool \<Rightarrow> 'w env \<Rightarrow> (Fove_ErrorCode \<times> bool) \<times> 'w env" where
  "Headset_isEyeTrackingEnabled fove_Headset_isEyeTrackingEnabled headset outEyeTrackingEnabled =
     invoke ''fove_Headset_isEyeTrackingEnabled'' (fove_Headset_isEyeTrackingEnabled headset outEyeTrackingEnabled)"

definition Headset_isEyeTrackingCalibrated ::
    "(Headset \<Rightarrow> bool \<Rightarrow> 'w \<Rightarrow> (Fove_ErrorCode \<times> bool) \<times> 'w) \<Rightarrow>
     Headset \<Rightarrow> bool \<Rightarrow> 'w env \<Rightarrow> (Fove_ErrorCode \<times> bool) \<times> 'w env" where
  "Headset_isEyeTrackingCalibrated fove_Headset_isEyeTrackingCalibrated headset outEyeTrackingCalibrated =
     invoke ''fove_Headset_isEyeTrackingCalibrated'' (fove_Headset_isEyeTrackingCalibrated headset outEyeTrackingCalibrated)"

definition Headset_isEyeTrackingCalibrating ::
    "(Headset \<Rightarrow> bool \<Rightarrow> 'w \<Rightarrow> (Fove_ErrorCode \<times> bool) \<times> 'w) \<Rightarrow>
     Headset \<Rightarrow> bool \<Rightarrow> 'w env \<Rightarrow> (Fove_ErrorCode \<times> bool) \<times> 'w env" where
  "Headset_isEyeTrackingCalibrating fove_Headset_isEyeTrackingCalibrating headset outEyeTrackingCalibrating =
     invoke ''fove_Headset_isEyeTrackingCalibrating'' (fove_Headset_isEyeTrackingCalibrating headset outEyeTrackingCalibrating)"

definition Headset_isEyeTrackingCalibratedForGlasses ::
    "(Headset \<Rightarrow> bool \<Rightarrow> 'w \<Rightarrow> (Fove_ErrorCode \<times> bool) \<times> 'w) \<Rightarrow>
     Headset \<Rightarrow> bool \<Rightarrow> 'w env \<Rightarrow> (Fove_ErrorCode \<times> bool) \<times> 'w env" where
  "Headset_isEyeTrackingCalibratedForGlasses fove_Headset_isEyeTrackingCalibratedForGlasses headset out =
     invoke ''fove_Headset_isEyeTrackingCalibratedForGlasses'' (fove_Headset_isEyeTrackingCalibratedForGlasses headset out)"

definition Headset_isHmdAdjustmentGuiVisible ::
    "(Headset \<Rightarrow> bool \<Rightarrow> 'w \<Rightarrow> (Fove_ErrorCode \<times> bool) \<times> 'w) \<Rightarrow>
     Headset \<Rightarrow> bool \<Rightarrow> 'w env \<Rightarrow> (Fove_ErrorCode \<times> bool) \<times> 'w env" where
  "Headset_isHmdAdjustmentGuiVisible fove_Headset_isHmdAdjustmentGuiVisible headset outVisible =
     invoke ''fove_Headset_isHmdAdjustmentGuiVisible'' (fove_Headset_isHmdAdjustmentGuiVisible headset outVisible)"

definition Headset_hasHmdAdjustmentGuiTimeout ::
    "(Headset \<Rightarrow> bool \<Rightarrow> 'w \<Rightarrow> (Fove_ErrorCode \<times> bool) \<times> 'w) \<Rightarrow>
     Headset \<Rightarrow> bool \<Rightarrow> 'w env \<Rightarrow> (Fove_ErrorCode \<times> bool) \<times> 'w env" where
  "Headset_hasHmdAdjustmentGuiTimeout fove_Headset_hasHmdAdjustmentGuiTimeout headset out =
     invoke ''fove_Headset_hasHmdAdjustmentGuiTimeout'' (fove_Headset_hasHmdAdjustmentGuiTimeout headset out)"

definition Headset_isEyeTrackingReady ::
    "(Headset \<Rightarrow> bool \<Rightarrow> 'w \<Rightarrow> (Fove_ErrorCode \<times> bool) \<times> 'w) \<Rightarrow>
     Headset \<Rightarrow> bool \<Rightarrow> 'w env \<Rightarrow> (Fove_ErrorCode \<times> bool) \<times> 'w env" where
  "Headset_isEyeTrackingReady fove_Headset_isEyeTrackingReady headset outEyeTrackingReady =
     invoke ''fove_Headset_isEyeTrackingReady'' (fove_Headset_isEyeTrackingReady headset outEyeTrackingReady)"

definition Headset_isUserPresent ::
    "(Headset \<Rightarrow> bool \<Rightarrow> 'w \<Rightarrow> (Fove_ErrorCode \<times> bool) \<times> 'w) \<Rightarrow>
     Headset \<Rightarrow> bool \<Rightarrow> 'w env \<Rightarrow> (Fove_ErrorCode \<times> bool) \<times> 'w env" where
  "Headset_isUserPresent fove_Headset_isUserPresent headset out =
     invoke ''fove_Headset_isUserPresent'' (fove_Headset_isUserPresent headset out)"

definition Headset_getEyesImage ::
    "(Headset \<Rightarrow> Fove_BitmapImage \<Rightarrow> 'w \<Rightarrow> (Fove_ErrorCode \<times> Fove_BitmapImage) \<times> 'w) \<Rightarrow>
     Headset \<Rightarrow> Fove_BitmapImage \<Rightarrow> 'w env \<Rightarrow> (Fove_ErrorCode \<times> Fove_BitmapImage) \<times> 'w env" where
  "Headset_getEyesImage fove_Headset_getEyesImage headset outImage =
     invoke ''fove_Headset_getEyesImage'' (fove_Headset_getEyesImage headset outImage)"

definition Headset_getUserIPD ::
    "(Headset \<Rightarrow> 'a \<Rightarrow> 'w \<Rightarrow> (Fove_ErrorCode \<times> 'a) \<times> 'w) \<Rightarrow>
     Headset \<Rightarrow> 'a \<Rightarrow> 'w env \<Rightarrow> (Fove_ErrorCode \<times> 'a) \<times> 'w env" where
  "Headset_getUserIPD fove_Headset_getUserIPD headset out =
     invoke ''fove_Headset_getUserIPD'' (fove_Headset_getUserIPD headset out)"

definition Headset_getUserIOD ::
    "(Headset \<Rightarrow> 'a \<Rightarrow> 'w \<Rightarrow> (Fove_ErrorCode \<times> 'a) \<times> 'w) \<Rightarrow>
     Headset \<Rightarrow> 'a \<Rightarrow> 'w env \<Rightarrow> (Fove_ErrorCode \<times> 'a) \<times> 'w env" where
  "Headset_getUserIOD fove_Headset_getUserIOD headset out =
     invoke ''fove_Headset_getUserIOD'' (fove_Headset_getUserIOD headset out)"

definition Headset_getPupilRadius ::
    "(Headset \<Rightarrow> Fove_Eye \<Rightarrow> 'a \<Rightarrow> 'w \<Rightarrow> (Fove_ErrorCode \<times> 'a) \<times> 'w) \<Rightarrow>
     Headset \<Rightarrow> Fove_Eye \<Rightarrow> 'a \<Rightarrow> 'w env \<Rightarrow> (Fove_ErrorCode \<times> 'a) \<times> 'w env" where
  "Headset_getPupilRadius fove_Headset_getPupilRadius headset eye out =
     invoke ''fove_Headset_getPupilRadius'' (fove_Headset_getPupilRadius headset eye out)"

definition Headset_getIrisRadius ::
    "(Headset \<Rightarrow> Fove_Eye \<Rightarrow> 'a \<Rightarrow> 'w \<Rightarrow> (Fove_ErrorCode \<times> 'a) \<times> 'w) \<Rightarrow>
     Headset \<Rightarrow> Fove_Eye \<Rightarrow> 'a \<Rightarrow> 'w env \<Rightarrow> (Fove_ErrorCode \<times> 'a) \<times> 'w env" where
  "Headset_getIrisRadius fove_Headset_getIrisRadius headset eye out =
     invoke ''fove_Headset_getIrisRadius'' (fove_Headset_getIrisRadius headset eye out)"

definition Headset_getEyeballRadius ::
    "(Headset \<Rightarrow> Fove_Eye \<Rightarrow> 'a \<Rightarrow> 'w \<Rightarrow> (Fove_ErrorCode \<times> 'a) \<times> 'w) \<Rightarrow>
     Headset \<Rightarrow> Fove_Eye \<Rightarrow> 'a \<Rightarrow> 'w env \<Rightarrow> (Fove_ErrorCode \<times> 'a) \<times> 'w env" where
  "Headset_getEyeballRadius fove_Headset_getEyeballRadius headset eye out =
     invoke ''fove_Headset_getEyeballRadius'' (fove_Headset_getEyeballRadius headset eye out)"

definition Headset_getEyeTorsion ::
    "(Headset \<Rightarrow> Fove_Eye \<Rightarrow> 'a \<Rightarrow> 'w \<Rightarrow> (Fove_ErrorCode \<times> 'a) \<times> 'w) \<Rightarrow>
     Headset \<Rightarrow> Fove_Eye \<Rightarrow> 'a \<Rightarrow> 'w env \<Rightarrow> (Fove_ErrorCode \<times> 'a) \<times> 'w env" where
  "Headset_getEyeTorsion fove_Headset_getEyeTorsion headset eye out =
     invoke ''fove_Headset_getEyeTorsion'' (fove_Headset_getEyeTorsion headset eye out)"

definition Headset_getEyeShape ::
    "(Headset \<Rightarrow> Fove_Eye \<Rightarrow> 'a Fove_EyeShape \<Rightarrow> 'w \<Rightarrow> (Fove_ErrorCode \<times> 'a Fove_EyeShape) \<times> 'w) \<Rightarrow>
     Headset \<Rightarrow> Fove_Eye \<Rightarrow> 'a Fove_EyeShape \<Rightarrow> 'w env \<Rightarrow> (Fove_ErrorCode \<times> 'a Fove_EyeShape) \<times> 'w env" where
  "Headset_getEyeShape fove_Headset_getEyeShape headset eye out =
     invoke ''fove_Headset_getEyeShape'' (fove_Headset_getEyeShape headset eye out)"

definition Headset_getPupilShape ::
    "(Headset \<Rightarrow> Fove_Eye \<Rightarrow> 'a Fove_PupilShape \<Rightarrow> 'w \<Rightarrow> (Fove_ErrorCode \<times> 'a Fove_PupilShape) \<times> 'w) \<Rightarrow>
     Headset \<Rightarrow> Fove_Eye \<Rightarrow> 'a Fove_PupilShape \<Rightarrow> 'w env \<Rightarrow> (Fove_ErrorCode \<times> 'a Fove_PupilShape) \<times> 'w env" where
  "Headset_getPupilShape fove_Headset_getPupilShape headset eye out =
     invoke ''fove_Headset_getPupilShape'' (fove_Headset_getPupilShape headset eye out)"

definition Headset_startHmdAdjustmentProcess ::
    "(Headset \<Rightarrow> bool \<Rightarrow> 'w \<Rightarrow> Fove_ErrorCode \<times> 'w) \<Rightarrow>
     Headset \<Rightarrow> bool \<Rightarrow> 'w env \<Rightarrow> Fove_ErrorCode \<times> 'w env" where
  "Headset_startHmdAdjustmentProcess fove_Headset_startHmdAdjustmentProcess headset lazy =
     invoke ''fove_Headset_startHmdAdjustmentProcess'' (fove_Headset_startHmdAdjustmentProcess headset lazy)"

definition Headset_tickHmdAdjustmentProcess ::
    "(Headset \<Rightarrow> 'a \<Rightarrow> bool \<Rightarrow> 'a Fove_HmdAdjustmentData \<Rightarrow> 'w \<Rightarrow> (Fove_ErrorCode \<times> 'a Fove_HmdAdjustmentData) \<times> 'w) \<Rightarrow>
     Headset \<Rightarrow> 'a \<Rightarrow> bool \<Rightarrow> 'a Fove_HmdAdjustmentData \<Rightarrow> 'w env \<Rightarrow> (Fove_ErrorCode \<times> 'a Fove_HmdAdjustmentData) \<times> 'w env" where
  "Headset_tickHmdAdjustmentProcess fove_Headset_tickHmdAdjustmentProcess headset deltaTime isVisible data =
     invoke ''fove_Headset_tickHmdAdjustmentProcess'' (fove_Headset_tickHmdAdjustmentProcess headset deltaTime isVisible data)"

definition Headset_startEyeTrackingCalibration ::
    "(Headset \<Rightarrow> Fove_CalibrationOptions \<Rightarrow> 'w \<Rightarrow> Fove_ErrorCode \<times> 'w) \<Rightarrow>
     Headset \<Rightarrow> Fove_CalibrationOptions \<Rightarrow> 'w env \<Rightarrow> Fove_ErrorCode \<times> 'w env" where
  "Headset_startEyeTrackingCalibration fove_Headset_startEyeTrackingCalibration headset options =
     invoke ''fove_Headset_startEyeTrackingCalibration'' (fove_Headset_startEyeTrackingCalibration headset options)"

definition Headset_stopEyeTrackingCalibration ::
    "(Headset \<Rightarrow> 'w \<Rightarrow> Fove_ErrorCode \<times> 'w) \<Rightarrow>
     Headset \<Rightarrow> 'w env \<Rightarrow> Fove_ErrorCode \<times> 'w env" where
  "Headset_stopEyeTrackingCalibration fove_Headset_stopEyeTrackingCalibration headset =
     invoke ''fove_Headset_stopEyeTrackingCalibration'' (fove_Headset_stopEyeTrackingCalibration headset)"

definition Headset_getEyeTrackingCalibrationState ::
    "(Headset \<Rightarrow> Fove_CalibrationState \<Rightarrow> 'w \<Rightarrow> (Fove_ErrorCode \<times> Fove_CalibrationState) \<times> 'w) \<Rightarrow>
     Headset \<Rightarrow> Fove_CalibrationState \<Rightarrow> 'w env \<Rightarrow> (Fove_ErrorCode \<times> Fove_CalibrationState) \<times> 'w env" where
  "Headset_getEyeTrackingCalibrationState fove_Headset_getEyeTrackingCalibrationState headset state =
     invoke ''fove_Headset_getEyeTrackingCalibrationState'' (fove_Headset_getEyeTrackingCalibrationState headset state)"

definition Headset_getGazedObjectId ::
    "(Headset \<Rightarrow> 32 word \<Rightarrow> 'w \<Rightarrow> (Fove_ErrorCode \<times> 32 word) \<times> 'w) \<Rightarrow>
     Headset \<Rightarrow> 32 word \<Rightarrow> 'w env \<Rightarrow> (Fove_ErrorCode \<times> 32 word) \<times> 'w env" where
  "Headset_getGazedObjectId fove_Headset_getGazedObjectId headset ident =
     invoke ''fove_Headset_getGazedObjectId'' (fove_Headset_getGazedObjectId headset ident)"

definition Headset_registerGazableObject ::
    "(Headset \<Rightarrow> 'a Fove_GazableObject \<Rightarrow> 'w \<Rightarrow> Fove_ErrorCode \<times> 'w) \<Rightarrow>
     Headset \<Rightarrow> 'a Fove_GazableObject \<Rightarrow> 'w env \<Rightarrow> Fove_ErrorCode \<times> 'w env" where
  "Headset_registerGazableObject fove_Headset_registerGazableObject headset gazableObj =
     invoke ''fove_Headset_registerGazableObject'' (fove_Headset_registerGazableObject headset gazableObj)"

definition Headset_updateGazableObject ::
    "(Headset \<Rightarrow> 32 word \<Rightarrow> 'a Fove_ObjectPose \<Rightarrow> 'w \<Rightarrow> Fove_ErrorCode \<times> 'w) \<Rightarrow>
     Headset \<Rightarrow> 32 word \<Rightarrow> 'a Fove_ObjectPose \<Rightarrow> 'w env \<Rightarrow> Fove_ErrorCode \<times> 'w env" where
  "Headset_updateGazableObject fove_Headset_updateGazableObject headset ident pose =
     invoke ''fove_Headset_updateGazableObject'' (fove_Headset_updateGazableObject headset ident pose)"

definition Headset_removeGazableObject ::
    "(Headset \<Rightarrow> 32 word \<Rightarrow> 'w \<Rightarrow> Fove_ErrorCode \<times> 'w) \<Rightarrow>
     Headset \<Rightarrow> 32 word \<Rightarrow> 'w env \<Rightarrow> Fove_ErrorCode \<times> 'w env" where
  "Headset_removeGazableObject fove_Headset_removeGazableObject headset ident =
     invoke ''fove_Headset_removeGazableObject'' (fove_Headset_removeGazableObject headset ident)"

definition Headset_registerCameraObject ::
    "(Headset \<Rightarrow> 'a Fove_CameraObject \<Rightarrow> 'w \<Rightarrow> Fove_ErrorCode \<times> 'w) \<Rightarrow>
     Headset \<Rightarrow> 'a Fove_CameraObject \<Rightarrow> 'w env \<Rightarrow> Fove_ErrorCode \<times> 'w env" where
  "Headset_registerCameraObject fove_Headset_registerCameraObject headset cameraObj =
     invoke ''fove_Headset_registerCameraObject'' (fove_Headset_registerCameraObject headset cameraObj)"

definition Headset_updateCameraObject ::
    "(Headset \<Rightarrow> 32 word \<Rightarrow> 'a Fove_ObjectPose \<Rightarrow> 'w \<Rightarrow> Fove_ErrorCode \<times> 'w) \<Rightarrow>
     Headset \<Rightarrow> 32 word \<Rightarrow> 'a Fove_ObjectPose \<Rightarrow> 'w env \<Rightarrow> Fove_ErrorCode \<times> 'w env" where
  "Headset_updateCameraObject fove_Headset_updateCameraObject headset ident pose =
     invoke ''fove_Headset_updateCameraObject'' (fove_Headset_updateCameraObject headset ident pose)"

definition Headset_removeCameraObject ::
    "(Headset \<Rightarrow> 32 word \<Rightarrow> 'w \<Rightarrow> Fove_ErrorCode \<times> 'w) \<Rightarrow>
     Headset \<Rightarrow> 32 word \<Rightarrow> 'w env \<Rightarrow> Fove_ErrorCode \<times> 'w env" where
  "Headset_removeCameraObject fove_Headset_removeCameraObject headset ident =
     invoke ''fove_Headset_removeCameraObject'' (fove_Headset_removeCameraObject headset ident)"

definition Headset_tareOrientationSensor ::
    "(Headset \<Rightarrow> 'w \<Rightarrow> Fove_ErrorCode \<times> 'w) \<Rightarrow>
     Headset \<Rightarrow> 'w env \<Rightarrow> Fove_ErrorCode \<times> 'w env" where
  "Headset_tareOrientationSensor fove_Headset_tareOrientationSensor headset =
     invoke ''fove_Headset_tareOrientationSensor'' (fove_Headset_tareOrientationSensor headset)"

definition Headset_isPositionReady ::
    "(Headset \<Rightarrow> bool \<Rightarrow> 'w \<Rightarrow> (Fove_ErrorCode \<times> bool) \<times> 'w) \<Rightarrow>
     Headset \<Rightarrow> bool \<Rightarrow> 'w env \<Rightarrow> (Fove_ErrorCode \<times> bool) \<times> 'w env" where
  "Headset_isPositionReady fove_Headset_isPositionReady headset outPositionReady =
     invoke ''fove_Headset_isPositionReady'' (fove_Headset_isPositionReady headset outPositionReady)"

definition Headset_tarePositionSensors ::
    "(Headset \<Rightarrow> 'w \<Rightarrow> Fove_ErrorCode \<times> 'w) \<Rightarrow>
     Headset \<Rightarrow> 'w env \<Rightarrow> Fove_ErrorCode \<times> 'w env" where
  "Headset_tarePositionSensors fove_Headset_tarePositionSensors headset =
     invoke ''fove_Headset_tarePositionSensors'' (fove_Headset_tarePositionSensors headset)"

definition Headset_fetchPoseData ::
    "(Headset \<Rightarrow> Fove_FrameTimestamp option \<Rightarrow> 'w \<Rightarrow> (Fove_ErrorCode \<times> (Fove_FrameTimestamp option)) \<times> 'w) \<Rightarrow>
     Headset \<Rightarrow> Fove_FrameTimestamp option \<Rightarrow> 'w env \<Rightarrow> (Fove_ErrorCode \<times> (Fove_FrameTimestamp option)) \<times> 'w env" where
  "Headset_fetchPoseData fove_Headset_fetchPoseData headset out =
     invoke ''fove_Headset_fetchPoseData'' (fove_Headset_fetchPoseData headset out)"

definition Headset_fetchPositionImage ::
    "(Headset \<Rightarrow> Fove_FrameTimestamp option \<Rightarrow> 'w \<Rightarrow> (Fove_ErrorCode \<times> (Fove_FrameTimestamp option)) \<times> 'w) \<Rightarrow>
     Headset \<Rightarrow> Fove_FrameTimestamp option \<Rightarrow> 'w env \<Rightarrow> (Fove_ErrorCode \<times> (Fove_FrameTimestamp option)) \<times> 'w env" where
  "Headset_fetchPositionImage fove_Headset_fetchPositionImage headset out =
     invoke ''fove_Headset_fetchPositionImage'' (fove_Headset_fetchPositionImage headset out)"

definition Headset_getPoseDataTimestamp ::
    "(Headset \<Rightarrow> Fove_FrameTimestamp option \<Rightarrow> 'w \<Rightarrow> (Fove_ErrorCode \<times> (Fove_FrameTimestamp option)) \<times> 'w) \<Rightarrow>
     Headset \<Rightarrow> Fove_FrameTimestamp option \<Rightarrow> 'w env \<Rightarrow> (Fove_ErrorCode \<times> (Fove_FrameTimestamp option)) \<times> 'w env" where
  "Headset_getPoseDataTimestamp fove_Headset_getPoseDataTimestamp headset out =
     invoke ''fove_Headset_getPoseDataTimestamp'' (fove_Headset_getPoseDataTimestamp headset out)"

definition Headset_getPositionImageTimestamp ::
    "(Headset \<Rightarrow> Fove_FrameTimestamp option \<Rightarrow> 'w \<Rightarrow> (Fove_ErrorCode \<times> (Fove_FrameTimestamp option)) \<times> 'w) \<Rightarrow>
     Headset \<Rightarrow> Fove_FrameTimestamp option \<Rightarrow> 'w env \<Rightarrow> (Fove_ErrorCode \<times> (Fove_FrameTimestamp option)) \<times> 'w env" where
  "Headset_getPositionImageTimestamp fove_Headset_getPositionImageTimestamp headset out =
     invoke ''fove_Headset_getPositionImageTimestamp'' (fove_Headset_getPositionImageTimestamp headset out)"

definition Headset_getPose ::
    "(Headset \<Rightarrow> 'a Fove_Pose \<Rightarrow> 'w \<Rightarrow> (Fove_ErrorCode \<times> 'a Fove_Pose) \<times> 'w) \<Rightarrow>
     Headset \<Rightarrow> 'a Fove_Pose \<Rightarrow> 'w env \<Rightarrow> (Fove_ErrorCode \<times> 'a Fove_Pose) \<times> 'w env" where
  "Headset_getPose fove_Headset_getPose headset outPose =
     invoke ''fove_Headset_getPose'' (fove_Headset_getPose headset outPose)"

definition Headset_getPositionImage ::
    "(Headset \<Rightarrow> Fove_BitmapImage \<Rightarrow> 'w \<Rightarrow> (Fove_ErrorCode \<times> Fove_BitmapImage) \<times> 'w) \<Rightarrow>
     Headset \<Rightarrow> Fove_BitmapImage \<Rightarrow> 'w env \<Rightarrow> (Fove_ErrorCode \<times> Fove_BitmapImage) \<times> 'w env" where
  "Headset_getPositionImage fove_Headset_getPositionImage headset outImage =
     invoke ''fove_Headset_getPositionImage'' (fove_Headset_getPositionImage headset outImage)"

definition Headset_getProjectionMatricesLH ::
    "(Headset \<Rightarrow> 'a \<Rightarrow> 'a \<Rightarrow> 'a Fove_Matrix44 \<Rightarrow> 'a Fove_Matrix44 \<Rightarrow> 'w \<Rightarrow> (Fove_ErrorCode \<times> 'a Fove_Matrix44 \<times> 'a Fove_Matrix44) \<times> 'w) \<Rightarrow>
     Headset \<Rightarrow> 'a \<Rightarrow> 'a \<Rightarrow> 'a Fove_Matrix44 \<Rightarrow> 'a Fove_Matrix44 \<Rightarrow> 'w env \<Rightarrow> (Fove_ErrorCode \<times> 'a Fove_Matrix44 \<times> 'a Fove_Matrix44) \<times> 'w env" where
  "Headset_getProjectionMatricesLH fove_Headset_getProjectionMatricesLH headset zNear zFar outLeftMat outRightMat =
     invoke ''fove_Headset_getProjectionMatricesLH'' (fove_Headset_getProjectionMatricesLH headset zNear zFar outLeftMat outRightMat)"

definition Headset_getProjectionMatricesRH ::
    "(Headset \<Rightarrow> 'a \<Rightarrow> 'a \<Rightarrow> 'a Fove_Matrix44 \<Rightarrow> 'a Fove_Matrix44 \<Rightarrow> 'w \<Rightarrow> (Fove_ErrorCode \<times> 'a Fove_Matrix44 \<times> 'a Fove_Matrix44) \<times> 'w) \<Rightarrow>
     Headset \<Rightarrow> 'a \<Rightarrow> 'a \<Rightarrow> 'a Fove_Matrix44 \<Rightarrow> 'a Fove_Matrix44 \<Rightarrow> 'w env \<Rightarrow> (Fove_ErrorCode \<times> 'a Fove_Matrix44 \<times> 'a Fove_Matrix44) \<times> 'w env" where
  "Headset_getProjectionMatricesRH fove_Headset_getProjectionMatricesRH headset zNear zFar outLeftMat outRightMat =
     invoke ''fove_Headset_getProjectionMatricesRH'' (fove_Headset_getProjectionMatricesRH headset zNear zFar outLeftMat outRightMat)"

definition Headset_getRawProjectionValues ::
    "(Headset \<Rightarrow> 'a Fove_ProjectionParams \<Rightarrow> 'a Fove_ProjectionParams \<Rightarrow> 'w \<Rightarrow> (Fove_ErrorCode \<times> 'a Fove_ProjectionParams \<times> 'a Fove_ProjectionParams) \<times> 'w) \<Rightarrow>
     Headset \<Rightarrow> 'a Fove_ProjectionParams \<Rightarrow> 'a Fove_ProjectionParams \<Rightarrow> 'w env \<Rightarrow> (Fove_ErrorCode \<times> 'a Fove_ProjectionParams \<times> 'a Fove_ProjectionParams) \<times> 'w env" where
  "Headset_getRawProjectionValues fove_Headset_getRawProjectionValues headset outLeft outRight =
     invoke ''fove_Headset_getRawProjectionValues'' (fove_Headset_getRawProjectionValues headset outLeft outRight)"

definition Headset_getEyeToHeadMatrices ::
    "(Headset \<Rightarrow> 'a Fove_Matrix44 \<Rightarrow> 'a Fove_Matrix44 \<Rightarrow> 'w \<Rightarrow> (Fove_ErrorCode \<times> 'a Fove_Matrix44 \<times> 'a Fove_Matrix44) \<times> 'w) \<Rightarrow>
     Headset \<Rightarrow> 'a Fove_Matrix44 \<Rightarrow> 'a Fove_Matrix44 \<Rightarrow> 'w env \<Rightarrow> (Fove_ErrorCode \<times> 'a Fove_Matrix44 \<times> 'a Fove_Matrix44) \<times> 'w env" where
  "Headset_getEyeToHeadMatrices fove_Headset_getEyeToHeadMatrices headset outLeft outRight =
     invoke ''fove_Headset_getEyeToHeadMatrices'' (fove_Headset_getEyeToHeadMatrices headset outLeft outRight)"

definition Headset_getRenderIOD ::
    "(Headset \<Rightarrow> 'a \<Rightarrow> 'w \<Rightarrow> (Fove_ErrorCode \<times> 'a) \<times> 'w) \<Rightarrow>
     Headset \<Rightarrow> 'a \<Rightarrow> 'w env \<Rightarrow> (Fove_ErrorCode \<times> 'a) \<times> 'w env" where
  "Headset_getRenderIOD fove_Headset_getRenderIOD headset outIOD =
     invoke ''fove_Headset_getRenderIOD'' (fove_Headset_getRenderIOD headset outIOD)"

definition Headset_createProfile ::
    "(Headset \<Rightarrow> string \<Rightarrow> 'w \<Rightarrow> Fove_ErrorCode \<times> 'w) \<Rightarrow>
     Headset \<Rightarrow> string \<Rightarrow> 'w env \<Rightarrow> Fove_ErrorCode \<times> 'w env" where
  "Headset_createProfile fove_Headset_createProfile headset profileName =
     invoke ''fove_Headset_createProfile'' (fove_Headset_createProfile headset profileName)"

definition Headset_renameProfile ::
    "(Headset \<Rightarrow> string \<Rightarrow> string \<Rightarrow> 'w \<Rightarrow> Fove_ErrorCode \<times> 'w) \<Rightarrow>
     Headset \<Rightarrow> string \<Rightarrow> string \<Rightarrow> 'w env \<Rightarrow> Fove_ErrorCode \<times> 'w env" where
  "Headset_renameProfile fove_Headset_renameProfile headset oldName newName =
     invoke ''fove_Headset_renameProfile'' (fove_Headset_renameProfile headset oldName newName)"

definition Headset_deleteProfile ::
    "(Headset \<Rightarrow> string \<Rightarrow> 'w \<Rightarrow> Fove_ErrorCode \<times> 'w) \<Rightarrow>
     Headset \<Rightarrow> string \<Rightarrow> 'w env \<Rightarrow> Fove_ErrorCode \<times> 'w env" where
  "Headset_deleteProfile fove_Headset_deleteProfile headset profileName =
     invoke ''fove_Headset_deleteProfile'' (fove_Headset_deleteProfile headset profileName)"

definition Headset_setCurrentProfile ::
    "(Headset \<Rightarrow> string \<Rightarrow> 'w \<Rightarrow> Fove_ErrorCode \<times> 'w) \<Rightarrow>
     Headset \<Rightarrow> string \<Rightarrow> 'w env \<Rightarrow> Fove_ErrorCode \<times> 'w env" where
  "Headset_setCurrentProfile fove_Headset_setCurrentProfile headset profileName =
     invoke ''fove_Headset_setCurrentProfile'' (fove_Headset_setCurrentProfile headset profileName)"

definition Headset_hasAccessToFeature ::
    "(Headset \<Rightarrow> string \<Rightarrow> bool \<Rightarrow> 'w \<Rightarrow> (Fove_ErrorCode \<times> bool) \<times> 'w) \<Rightarrow>
     Headset \<Rightarrow> string \<Rightarrow> bool \<Rightarrow> 'w env \<Rightarrow> (Fove_ErrorCode \<times> bool) \<times> 'w env" where
  "Headset_hasAccessToFeature fove_Headset_hasAccessToFeature headset featureName hasAccess =
     invoke ''fove_Headset_hasAccessToFeature'' (fove_Headset_hasAccessToFeature headset featureName hasAccess)"

definition Headset_activateLicense ::
    "(Headset \<Rightarrow> string \<Rightarrow> 'w \<Rightarrow> Fove_ErrorCode \<times> 'w) \<Rightarrow>
     Headset \<Rightarrow> string \<Rightarrow> 'w env \<Rightarrow> Fove_ErrorCode \<times> 'w env" where
  "Headset_activateLicense fove_Headset_activateLicense headset licenseKey =
     invoke ''fove_Headset_activateLicense'' (fove_Headset_activateLicense headset licenseKey)"

definition Headset_deactivateLicense ::
    "(Headset \<Rightarrow> string \<Rightarrow> 'w \<Rightarrow> Fove_ErrorCode \<times> 'w) \<Rightarrow>
     Headset \<Rightarrow> string \<Rightarrow> 'w env \<Rightarrow> Fove_ErrorCode \<times> 'w env" where
  "Headset_deactivateLicense fove_Headset_deactivateLicense headset licenseData =
     invoke ''fove_Headset_deactivateLicense'' (fove_Headset_deactivateLicense headset licenseData)"

definition Headset_createCompositor ::
    "(Headset \<Rightarrow> Compositor \<Rightarrow> 'w \<Rightarrow> (Fove_ErrorCode \<times> Compositor) \<times> 'w) \<Rightarrow>
     Headset \<Rightarrow> Compositor \<Rightarrow> 'w env \<Rightarrow> (Fove_ErrorCode \<times> Compositor) \<times> 'w env" where
  "Headset_createCompositor fove_Headset_createCompositor headset outCompositor =
     invoke ''fove_Headset_createCompositor'' (fove_Headset_createCompositor headset outCompositor)"

definition Compositor_destroy ::
    "(Compositor \<Rightarrow> 'w \<Rightarrow> Fove_ErrorCode \<times> 'w) \<Rightarrow>
     Compositor \<Rightarrow> 'w env \<Rightarrow> Fove_ErrorCode \<times> 'w env" where
  "Compositor_destroy fove_Compositor_destroy compositor =
     invoke ''fove_Compositor_destroy'' (fove_Compositor_destroy compositor)"

definition Compositor_createLayer ::
    "(Compositor \<Rightarrow> Fove_CompositorLayerCreateInfo \<Rightarrow> Fove_CompositorLayer \<Rightarrow> 'w \<Rightarrow> (Fove_ErrorCode \<times> Fove_CompositorLayer) \<times> 'w) \<Rightarrow>
     Compositor \<Rightarrow> Fove_CompositorLayerCreateInfo \<Rightarrow> Fove_CompositorLayer \<Rightarrow> 'w env \<Rightarrow> (Fove_ErrorCode \<times> Fove_CompositorLayer) \<times> 'w env" where
  "Compositor_createLayer fove_Compositor_createLayer compositor layerInfo outLayer =
     invoke ''fove_Compositor_createLayer'' (fove_Compositor_createLayer compositor layerInfo outLayer)"

definition Compositor_submit ::
    "(Compositor \<Rightarrow> 'a Fove_CompositorLayerSubmitInfo \<Rightarrow> nat \<Rightarrow> 'w \<Rightarrow> Fove_ErrorCode \<times> 'w) \<Rightarrow>
     Compositor \<Rightarrow> 'a Fove_CompositorLayerSubmitInfo \<Rightarrow> nat \<Rightarrow> 'w env \<Rightarrow> Fove_ErrorCode \<times> 'w env" where
  "Compositor_submit fove_Compositor_submit compositor submitInfo layerCount =
     invoke ''fove_Compositor_submit'' (fove_Compositor_submit compositor submitInfo layerCount)"

definition Compositor_waitForRenderPose ::
    "(Compositor \<Rightarrow> 'a Fove_Pose \<Rightarrow> 'w \<Rightarrow> (Fove_ErrorCode \<times> 'a Fove_Pose) \<times> 'w) \<Rightarrow>
     Compositor \<Rightarrow> 'a Fove_Pose \<Rightarrow> 'w env \<Rightarrow> (Fove_ErrorCode \<times> 'a Fove_Pose) \<times> 'w env" where
  "Compositor_waitForRenderPose fove_Compositor_waitForRenderPose compositor outPose =
     invoke ''fove_Compositor_waitForRenderPose'' (fove_Compositor_waitForRenderPose compositor outPose)"

definition Compositor_getLastRenderPose ::
    "(Compositor \<Rightarrow> 'a Fove_Pose \<Rightarrow> 'w \<Rightarrow> (Fove_ErrorCode \<times> 'a Fove_Pose) \<times> 'w) \<Rightarrow>
     Compositor \<Rightarrow> 'a Fove_Pose \<Rightarrow> 'w env \<Rightarrow> (Fove_ErrorCode \<times> 'a Fove_Pose) \<times> 'w env" where
  "Compositor_getLastRenderPose fove_Compositor_getLastRenderPose compositor outPose =
     invoke ''fove_Compositor_getLastRenderPose'' (fove_Compositor_getLastRenderPose compositor outPose)"

definition Compositor_isReady ::
    "(Compositor \<Rightarrow> bool \<Rightarrow> 'w \<Rightarrow> (Fove_ErrorCode \<times> bool) \<times> 'w) \<Rightarrow>
     Compositor \<Rightarrow> bool \<Rightarrow> 'w env \<Rightarrow> (Fove_ErrorCode \<times> bool) \<times> 'w env" where
  "Compositor_isReady fove_Compositor_isReady compositor outIsReady =
     invoke ''fove_Compositor_isReady'' (fove_Compositor_isReady compositor outIsReady)"

definition Compositor_queryAdapterId ::
    "(Compositor \<Rightarrow> Fove_AdapterId \<Rightarrow> 'w \<Rightarrow> (Fove_ErrorCode \<times> Fove_AdapterId) \<times> 'w) \<Rightarrow>
     Compositor \<Rightarrow> Fove_AdapterId \<Rightarrow> 'w env \<Rightarrow> (Fove_ErrorCode \<times> Fove_AdapterId) \<times> 'w env" where
  "Compositor_queryAdapterId fove_Compositor_queryAdapterId compositor outAdapterId =
     invoke ''fove_Compositor_queryAdapterId'' (fove_Compositor_queryAdapterId compositor outAdapterId)"

definition Config_getValue_bool ::
    "(string \<Rightarrow> bool \<Rightarrow> 'w \<Rightarrow> (Fove_ErrorCode \<times> bool) \<times> 'w) \<Rightarrow>
     string \<Rightarrow> bool \<Rightarrow> 'w env \<Rightarrow> (Fove_ErrorCode \<times> bool) \<times> 'w env" where
  "Config_getValue_bool fove_Config_getValue_bool key outValue =
     invoke ''fove_Config_getValue_bool'' (fove_Config_getValue_bool key outValue)"

definition Config_getValue_int ::
    "(string \<Rightarrow> 32 word \<Rightarrow> 'w \<Rightarrow> (Fove_ErrorCode \<times> 32 word) \<times> 'w) \<Rightarrow>
     string \<Rightarrow> 32 word \<Rightarrow> 'w env \<Rightarrow> (Fove_ErrorCode \<times> 32 word) \<times> 'w env" where
  "Config_getValue_int fove_Config_getValue_int key outValue =
     invoke ''fove_Config_getValue_int'' (fove_Config_getValue_int key outValue)"

definition Config_getValue_float ::
    "(string \<Rightarrow> 'a \<Rightarrow> 'w \<Rightarrow> (Fove_ErrorCode \<times> 'a) \<times> 'w) \<Rightarrow>
     string \<Rightarrow> 'a \<Rightarrow> 'w env \<Rightarrow> (Fove_ErrorCode \<times> 'a) \<times> 'w env" where
  "Config_getValue_float fove_Config_getValue_float key outValue =
     invoke ''fove_Config_getValue_float'' (fove_Config_getValue_float key outValue)"

definition Config_setValue_bool ::
    "(string \<Rightarrow> bool \<Rightarrow> 'w \<Rightarrow> Fove_ErrorCode \<times> 'w) \<Rightarrow>
     string \<Rightarrow> bool \<Rightarrow> 'w env \<Rightarrow> Fove_ErrorCode \<times> 'w env" where
  "Config_setValue_bool fove_Config_setValue_bool key val =
     invoke ''fove_Config_setValue_bool'' (fove_Config_setValue_bool key val)"

definition Config_setValue_int ::
    "(string \<Rightarrow> 32 word \<Rightarrow> 'w \<Rightarrow> Fove_ErrorCode \<times> 'w) \<Rightarrow>
     string \<Rightarrow> 32 word \<Rightarrow> 'w env \<Rightarrow> Fove_ErrorCode \<times> 'w env" where
  "Config_setValue_int fove_Config_setValue_int key val =
     invoke ''fove_Config_setValue_int'' (fove_Config_setValue_int key val)"

definition Config_setValue_float ::
    "(string \<Rightarrow> 'a \<Rightarrow> 'w \<Rightarrow> Fove_ErrorCode \<times> 'w) \<Rightarrow>
     string \<Rightarrow> 'a \<Rightarrow> 'w env \<Rightarrow> Fove_ErrorCode \<times> 'w env" where
  "Config_setValue_float fove_Config_setValue_float key val =
     invoke ''fove_Config_setValue_float'' (fove_Config_setValue_float key val)"

definition Config_setValue_string ::
    "(string \<Rightarrow> string \<Rightarrow> 'w \<Rightarrow> Fove_ErrorCode \<times> 'w) \<Rightarrow>
     string \<Rightarrow> string \<Rightarrow> 'w env \<Rightarrow> Fove_ErrorCode \<times> 'w env" where
  "Config_setValue_string fove_Config_setValue_string key val =
     invoke ''fove_Config_setValue_string'' (fove_Config_setValue_string key val)"
text \<open>
  \<open>Headset_querySoftwareVersions\<close> lets the entry point fill a local \<open>Fove_Versions\<close>
  and assigns its fields to \<open>outVersions\<close> one by one.
\<close>

definition Headset_querySoftwareVersions ::
    "(Headset \<Rightarrow> 'w \<Rightarrow> (Fove_ErrorCode \<times> Fove_Versions) \<times> 'w) \<Rightarrow>
     Headset \<Rightarrow> Python_Versions \<Rightarrow> 'w env \<Rightarrow> (Fove_ErrorCode \<times> Python_Versions) \<times> 'w env" where
  "Headset_querySoftwareVersions fove_Headset_querySoftwareVersions headset outVersions s =
     (case invoke ''fove_Headset_querySoftwareVersions''
             (fove_Headset_querySoftwareVersions headset) s of
        ((ret, versions), s') \<Rightarrow>
          ((ret, outVersions
                   \<lparr>Versions_clientMajor := native_clientMajor versions,
                    Versions_clientMinor := native_clientMinor versions,
                    Versions_clientBuild := native_clientBuild versions,
                    Versions_clientProtocol := native_clientProtocol versions,
                    Versions_clientHash := std_string (native_clientHash versions),
                    Versions_runtimeMajor := native_runtimeMajor versions,
                    Versions_runtimeMinor := native_runtimeMinor versions,
                    Versions_runtimeBuild := native_runtimeBuild versions,
                    Versions_runtimeHash := std_string (native_runtimeHash versions),
                    Versions_firmware := native_firmware versions,
                    Versions_maxFirmware := native_maxFirmware versions,
                    Versions_minFirmware := native_minFirmware versions,
                    Versions_tooOldHeadsetConnected :=
                      native_tooOldHeadsetConnected versions\<rparr>), s'))"

text \<open>
  The calibration wrappers hand the entry point a callback that overwrites \<open>data\<close> with
  \<open>CalibrationData::FromNative(nativeData)\<close>; the entry point's result lists the native
  structs it passes to the callback, in order.
\<close>

definition FromNative :: "'a Fove_CalibrationData \<Rightarrow> 'a CalibrationData" where
  "FromNative nativeData =
     \<lparr>CalibrationData_method = native_method nativeData,
      CalibrationData_state = native_state nativeData,
      CalibrationData_stateInfo = std_string (native_stateInfo nativeData),
      CalibrationData_targetL = native_targetL nativeData,
      CalibrationData_targetR = native_targetR nativeData\<rparr>"



definition Headset_getEyeTrackingCalibrationStateDetails ::
    "(Headset \<Rightarrow> 'w \<Rightarrow> (Fove_ErrorCode \<times> 'a Fove_CalibrationData list) \<times> 'w) \<Rightarrow>
     Headset \<Rightarrow> 'a CalibrationData \<Rightarrow> 'w env \<Rightarrow>
     (Fove_ErrorCode \<times> 'a CalibrationData) \<times> 'w env" where
  "Headset_getEyeTrackingCalibrationStateDetails
       fove_Headset_getEyeTrackingCalibrationStateDetails headset data s =
     (case invoke ''fove_Headset_getEyeTrackingCalibrationStateDetails''
             (fove_Headset_getEyeTrackingCalibrationStateDetails headset) s of
        ((ret, calls_back), s') \<Rightarrow>
          ((ret, foldl (\<lambda>userData nativeData. FromNative nativeData) data calls_back), s'))"

definition Headset_tickEyeTrackingCalibration ::
    "(Headset \<Rightarrow> 'a \<Rightarrow> bool \<Rightarrow> 'w \<Rightarrow> (Fove_ErrorCode \<times> 'a Fove_CalibrationData list) \<times> 'w) \<Rightarrow>
     Headset \<Rightarrow> 'a \<Rightarrow> bool \<Rightarrow> 'a CalibrationData \<Rightarrow> 'w env \<Rightarrow>
     (Fove_ErrorCode \<times> 'a CalibrationData) \<times> 'w env" where
  "Headset_tickEyeTrackingCalibration fove_Headset_tickEyeTrackingCalibration headset
       deltaTime isVisible data s =
     (case invoke ''fove_Headset_tickEyeTrackingCalibration''
             (fove_Headset_tickEyeTrackingCalibration headset deltaTime isVisible) s of
        ((ret, calls_back), s') \<Rightarrow>
          ((ret, foldl (\<lambda>userData nativeData. FromNative nativeData) data calls_back), s'))"

text \<open>
  The profile queries use the string callback of \<open>Config_getValue_string\<close>: every
  invocation overwrites the string.
\<close>

definition Headset_queryCurrentProfile ::
    "(Headset \<Rightarrow> 'w \<Rightarrow> (Fove_ErrorCode \<times> char_array list) \<times> 'w) \<Rightarrow>
     Headset \<Rightarrow> string \<Rightarrow> 'w env \<Rightarrow> (Fove_ErrorCode \<times> string) \<times> 'w env" where
  "Headset_queryCurrentProfile fove_Headset_queryCurrentProfile headset profileName s =
     (case invoke ''fove_Headset_queryCurrentProfile''
             (fove_Headset_queryCurrentProfile headset) s of
        ((ret, vals), s') \<Rightarrow>
          ((ret, foldl (\<lambda>valuePtr val. std_string val) profileName vals), s'))"

definition Headset_queryProfileDataPath ::
    "(Headset \<Rightarrow> string \<Rightarrow> 'w \<Rightarrow> (Fove_ErrorCode \<times> char_array list) \<times> 'w) \<Rightarrow>
     Headset \<Rightarrow> string \<Rightarrow> string \<Rightarrow> 'w env \<Rightarrow> (Fove_ErrorCode \<times> string) \<times> 'w env" where
  "Headset_queryProfileDataPath fove_Headset_queryProfileDataPath headset profileName
       dataPath s =
     (case invoke ''fove_Headset_queryProfileDataPath''
             (fove_Headset_queryProfileDataPath headset profileName) s of
        ((ret, vals), s') \<Rightarrow>
          ((ret, foldl (\<lambda>valuePtr val. std_string val) dataPath vals), s'))"






subsection \<open>What the module registers\<close>

text \<open>
  A \<open>py::module\<close> is the list of what has been registered with it: classes and enums
  with the C++ type they bind, functions with the entry point their body calls. A C++
  type is declared by \<open>FoveAPI.h\<close> (\<open>SDK\<close>), declared in \<open>bindings.cpp\<close> (\<open>Local\<close>), built
  in, a pointer, or an instance of the binding's wrapper template \<open>Obj<T>\<close>. Each
  \<open>defenum_*\<close> and \<open>defstruct_*\<close> function appends its registrations, and the module
  initialiser of \<open>Fove_CAPI_pybind11.cpp\<close> runs them in order.
\<close>

datatype cpp_type =
    SDK string
  | Local string
  | Builtin string
  | Pointer cpp_type
  | Obj cpp_type

datatype py_binding =
    py_class string cpp_type
  | py_enum string cpp_type
  | py_def string string

type_synonym py_module = "py_binding list"

definition defenum_ClientCapabilities :: "py_module \<Rightarrow> py_module" where
  "defenum_ClientCapabilities m =
     m @
       [py_enum ''ClientCapabilities'' (SDK ''Fove_ClientCapabilities'')]"

definition defenum_ErrorCode :: "py_module \<Rightarrow> py_module" where
  "defenum_ErrorCode m =
     m @
       [py_enum ''ErrorCode'' (SDK ''Fove_ErrorCode'')]"

definition defenum_CompositorLayerType :: "py_module \<Rightarrow> py_module" where
  "defenum_CompositorLayerType m =
     m @
       [py_enum ''CompositorLayerType'' (SDK ''Fove_CompositorLayerType'')]"

definition defenum_ObjectGroup :: "py_module \<Rightarrow> py_module" where
  "defenum_ObjectGroup m =
     m @
       [py_enum ''ObjectGroup'' (SDK ''Fove_ObjectGroup'')]"

definition defstruct_Versions :: "py_module \<Rightarrow> py_module" where
  "defstruct_Versions m =
     m @
       [py_class ''Versions'' (Local ''Python_Versions'')]"

definition defstruct_LicenseInfo :: "py_module \<Rightarrow> py_module" where
  "defstruct_LicenseInfo m =
     m @
       [py_class ''LicenseInfo'' (Local ''Python_LicenseInfo'')]"

definition defstruct_HeadsetHardwareInfo :: "py_module \<Rightarrow> py_module" where
  "defstruct_HeadsetHardwareInfo m =
     m @
       [py_class ''HeadsetHardwareInfo'' (Local ''Python_HeadsetHardwareInfo'')]"

definition defstruct_Quaternion :: "py_module \<Rightarrow> py_module" where
  "defstruct_Quaternion m =
     m @
       [py_class ''Quaternion'' (SDK ''Fove_Quaternion'')]"

definition defstruct_Vec3 :: "py_module \<Rightarrow> py_module" where
  "defstruct_Vec3 m =
     m @
       [py_class ''Vec3'' (SDK ''Fove_Vec3'')]"

definition defstruct_Vec2 :: "py_module \<Rightarrow> py_module" where
  "defstruct_Vec2 m =
     m @
       [py_class ''Vec2'' (SDK ''Fove_Vec2'')]"

definition defstruct_Vec2i :: "py_module \<Rightarrow> py_module" where
  "defstruct_Vec2i m =
     m @
       [py_class ''Vec2i'' (SDK ''Fove_Vec2i'')]"

definition defstruct_Ray :: "py_module \<Rightarrow> py_module" where
  "defstruct_Ray m =
     m @
       [py_class ''Ray'' (SDK ''Fove_Ray'')]"

definition defstruct_FrameTimestamp :: "py_module \<Rightarrow> py_module" where
  "defstruct_FrameTimestamp m =
     m @
       [py_class ''FrameTimestamp'' (SDK ''Fove_FrameTimestamp'')]"

definition defstruct_Pose :: "py_module \<Rightarrow> py_module" where
  "defstruct_Pose m =
     m @
       [py_class ''Pose'' (SDK ''Fove_Pose'')]"

definition defenum_LogLevel :: "py_module \<Rightarrow> py_module" where
  "defenum_LogLevel m =
     m @
       [py_enum ''LogLevel'' (SDK ''Fove_LogLevel'')]"

definition defenum_Eye :: "py_module \<Rightarrow> py_module" where
  "defenum_Eye m =
     m @
       [py_enum ''Eye'' (SDK ''Fove_Eye'')]"

definition defenum_EyeState :: "py_module \<Rightarrow> py_module" where
  "defenum_EyeState m =
     m @
       [py_enum ''EyeState'' (SDK ''Fove_EyeState'')]"

definition defstruct_Matrix44 :: "py_module \<Rightarrow> py_module" where
  "defstruct_Matrix44 m =
     m @
       [py_class ''Matrix44'' (Obj (SDK ''Fove_Matrix44''))]"

definition defstruct_ProjectionParams :: "py_module \<Rightarrow> py_module" where
  "defstruct_ProjectionParams m =
     m @
       [py_class ''ProjectionParams'' (SDK ''Fove_ProjectionParams'')]"

definition defstruct_BoundingBox :: "py_module \<Rightarrow> py_module" where
  "defstruct_BoundingBox m =
     m @
       [py_class ''BoundingBox'' (SDK ''Fove_BoundingBox'')]"

definition defstruct_ObjectPose :: "py_module \<Rightarrow> py_module" where
  "defstruct_ObjectPose m =
     m @
       [py_class ''ObjectPose'' (SDK ''Fove_ObjectPose'')]"

definition defenum_ColliderType :: "py_module \<Rightarrow> py_module" where
  "defenum_ColliderType m =
     m @
       [py_enum ''ColliderType'' (SDK ''Fove_ColliderType'')]"

definition defstruct_ColliderCube :: "py_module \<Rightarrow> py_module" where
  "defstruct_ColliderCube m =
     m @
       [py_class ''ColliderCube'' (SDK ''Fove_ColliderCube'')]"

definition defstruct_ColliderSphere :: "py_module \<Rightarrow> py_module" where
  "defstruct_ColliderSphere m =
     m @
       [py_class ''ColliderSphere'' (SDK ''Fove_ColliderSphere'')]"

definition defstruct_VertexBuffer :: "py_module \<Rightarrow> py_module" where
  "defstruct_VertexBuffer m =
     m @
       [py_class ''VertexBuffer'' (Local ''VertexBuffer'')]"

definition defstruct_IndexBuffer :: "py_module \<Rightarrow> py_module" where
  "defstruct_IndexBuffer m =
     m @
       [py_class ''IndexBuffer'' (Local ''IndexBuffer'')]"

definition defstruct_ColliderMesh :: "py_module \<Rightarrow> py_module" where
  "defstruct_ColliderMesh m =
     defstruct_IndexBuffer (defstruct_VertexBuffer m) @
       [py_class ''ColliderMesh'' (SDK ''Fove_ColliderMesh'')]"

definition defstruct_ObjectCollider :: "py_module \<Rightarrow> py_module" where
  "defstruct_ObjectCollider m =
     m @
       [py_class ''ObjectCollider'' (SDK ''Fove_ObjectCollider'')]"

definition defstruct_ColliderArray :: "py_module \<Rightarrow> py_module" where
  "defstruct_ColliderArray m =
     m @
       [py_class ''ColliderArray'' (Local ''ColliderArray'')]"

definition defstruct_GazableObject :: "py_module \<Rightarrow> py_module" where
  "defstruct_GazableObject m =
     defstruct_ColliderArray m @
       [py_class ''GazableObject'' (SDK ''Fove_GazableObject'')]"

definition defstruct_CameraObject :: "py_module \<Rightarrow> py_module" where
  "defstruct_CameraObject m =
     m @
       [py_class ''CameraObject'' (SDK ''Fove_CameraObject'')]"

definition defenum_GraphicsAPI :: "py_module \<Rightarrow> py_module" where
  "defenum_GraphicsAPI m =
     m @
       [py_enum ''GraphicsAPI'' (SDK ''Fove_GraphicsAPI'')]"

definition defenum_AlphaMode :: "py_module \<Rightarrow> py_module" where
  "defenum_AlphaMode m =
     m @
       [py_enum ''AlphaMode'' (SDK ''Fove_AlphaMode'')]"

definition defstruct_CompositorLayerCreateInfo :: "py_module \<Rightarrow> py_module" where
  "defstruct_CompositorLayerCreateInfo m =
     m @
       [py_class ''CompositorLayerCreateInfo'' (SDK ''Fove_CompositorLayerCreateInfo'')]"

definition defstruct_CompositorLayer :: "py_module \<Rightarrow> py_module" where
  "defstruct_CompositorLayer m =
     m @
       [py_class ''CompositorLayer'' (SDK ''Fove_CompositorLayer'')]"

definition defstruct_CompositorTexture :: "py_module \<Rightarrow> py_module" where
  "defstruct_CompositorTexture m =
     m @
       [py_class ''CompositorTexture'' (SDK ''Fove_CompositorTexture'')]"

definition defstruct_DX11Texture :: "py_module \<Rightarrow> py_module" where
  "defstruct_DX11Texture m =
     m @
       [py_class ''DX11Texture'' (SDK ''Fove_DX11Texture'')]"

definition defstruct_GLTexture :: "py_module \<Rightarrow> py_module" where
  "defstruct_GLTexture m =
     m @
       [py_class ''GLTexture'' (SDK ''Fove_GLTexture'')]"

definition defstruct_MetalTexture :: "py_module \<Rightarrow> py_module" where
  "defstruct_MetalTexture m =
     m @
       [py_class ''MetalTexture'' (SDK ''Fove_MetalTexture'')]"

definition defstruct_TextureBounds :: "py_module \<Rightarrow> py_module" where
  "defstruct_TextureBounds m =
     m @
       [py_class ''TextureBounds'' (SDK ''Fove_TextureBounds'')]"

definition defstruct_CompositorLayerEyeSubmitInfo :: "py_module \<Rightarrow> py_module" where
  "defstruct_CompositorLayerEyeSubmitInfo m =
     m @
       [py_class ''CompositorLayerEyeSubmitInfo'' (SDK ''Fove_CompositorLayerEyeSubmitInfo'')]"

definition defstruct_CompositorLayerSubmitInfo :: "py_module \<Rightarrow> py_module" where
  "defstruct_CompositorLayerSubmitInfo m =
     m @
       [py_class ''CompositorLayerSubmitInfo'' (SDK ''Fove_CompositorLayerSubmitInfo'')]"

definition defstruct_AdapterId :: "py_module \<Rightarrow> py_module" where
  "defstruct_AdapterId m =
     m @
       [py_class ''AdapterId'' (SDK ''Fove_AdapterId'')]"

definition defstruct_Buffer :: "py_module \<Rightarrow> py_module" where
  "defstruct_Buffer m =
     m @
       [py_class ''Buffer'' (SDK ''Fove_Buffer'')]"

definition defstruct_EyeShape :: "py_module \<Rightarrow> py_module" where
  "defstruct_EyeShape m =
     m @
       [py_class ''EyeShape'' (Obj (SDK ''Fove_EyeShape''))]"

definition defstruct_PupilShape :: "py_module \<Rightarrow> py_module" where
  "defstruct_PupilShape m =
     m @
       [py_class ''PupilShape'' (SDK ''Fove_PupilShape'')]"

definition defstruct_BitmapImage :: "py_module \<Rightarrow> py_module" where
  "defstruct_BitmapImage m =
     m @
       [py_class ''BitmapImage'' (SDK ''Fove_BitmapImage'')]"

definition defstruct_CalibrationTarget :: "py_module \<Rightarrow> py_module" where
  "defstruct_CalibrationTarget m =
     m @
       [py_class ''CalibrationTarget'' (SDK ''Fove_CalibrationTarget'')]"

definition defenum_CalibrationState :: "py_module \<Rightarrow> py_module" where
  "defenum_CalibrationState m =
     m @
       [py_enum ''CalibrationState'' (SDK ''Fove_CalibrationState'')]"

definition defenum_CalibrationMethod :: "py_module \<Rightarrow> py_module" where
  "defenum_CalibrationMethod m =
     m @
       [py_enum ''CalibrationMethod'' (SDK ''Fove_CalibrationMethod'')]"

definition defenum_EyeByEyeCalibration :: "py_module \<Rightarrow> py_module" where
  "defenum_EyeByEyeCalibration m =
     m @
       [py_enum ''EyeByEyeCalibration'' (SDK ''Fove_EyeByEyeCalibration'')]"

definition defenum_EyeTorsionCalibration :: "py_module \<Rightarrow> py_module" where
  "defenum_EyeTorsionCalibration m =
     m @
       [py_enum ''EyeTorsionCalibration'' (SDK ''Fove_EyeTorsionCalibration'')]"

definition defstruct_CalibrationData :: "py_module \<Rightarrow> py_module" where
  "defstruct_CalibrationData m =
     m @
       [py_class ''CalibrationData'' (Local ''CalibrationData'')]"

definition defstruct_HmdAdjustmentData :: "py_module \<Rightarrow> py_module" where
  "defstruct_HmdAdjustmentData m =
     m @
       [py_class ''HmdAdjustmentData'' (SDK ''Fove_HmdAdjustmentData'')]"

definition defstruct_CalibrationOptions :: "py_module \<Rightarrow> py_module" where
  "defstruct_CalibrationOptions m =
     m @
       [py_class ''CalibrationOptions'' (SDK ''Fove_CalibrationOptions'')]"

definition defstruct_Headsets :: "py_module \<Rightarrow> py_module" where
  "defstruct_Headsets m =
     m @
       [py_class ''Fove_Headset'' (Obj (Pointer (SDK ''Fove_Headset'')))]"

definition defstruct_Compositor :: "py_module \<Rightarrow> py_module" where
  "defstruct_Compositor m =
     m @
       [py_class ''Fove_Compositor'' (Obj (Pointer (SDK ''Fove_Compositor'')))]"

definition defstruct_Wrappers :: "py_module \<Rightarrow> py_module" where
  "defstruct_Wrappers m =
     m @
       [py_class ''Bool'' (Obj (Builtin ''bool'')),
        py_class ''Int'' (Obj (Builtin ''int'')),
        py_class ''Float'' (Obj (Builtin ''float'')),
        py_class ''String'' (Obj (Builtin ''std::string'')),
        py_class ''EyeStateObj'' (Obj (SDK ''Fove_EyeState'')),
        py_class ''CalibrationStateObj'' (Obj (SDK ''Fove_CalibrationState''))]"

definition bind_CAPIs :: "py_module \<Rightarrow> py_module" where
  "bind_CAPIs m = m @
     [py_def ''logText'' ''fove_logText'',
      py_def ''createHeadset'' ''fove_createHeadset'',
      py_def ''Headset_destroy'' ''fove_Headset_destroy'',
      py_def ''Headset_isHardwareConnected'' ''fove_Headset_isHardwareConnected'',
      py_def ''Headset_isMotionReady'' ''fove_Headset_isMotionReady'',
      py_def ''Headset_checkSoftwareVersions'' ''fove_Headset_checkSoftwareVersions'',
      py_def ''Headset_querySoftwareVersions'' ''fove_Headset_querySoftwareVersions'',
      py_def ''Headset_queryLicenses'' ''fove_Headset_queryLicenses'',
      py_def ''Headset_queryHardwareInfo'' ''fove_Headset_queryHardwareInfo'',
      py_def ''Headset_registerCapabilities'' ''fove_Headset_registerCapabilities'',
      py_def ''Headset_registerPassiveCapabilities'' ''fove_Headset_registerPassiveCapabilities'',
      py_def ''Headset_unregisterCapabilities'' ''fove_Headset_unregisterCapabilities'',
      py_def ''Headset_unregisterPassiveCapabilities'' ''fove_Headset_unregisterPassiveCapabilities'',
      py_def ''Headset_waitForProcessedEyeFrame'' ''fove_Headset_waitForProcessedEyeFrame'',
      py_def ''Headset_fetchEyeTrackingData'' ''fove_Headset_fetchEyeTrackingData'',
      py_def ''Headset_fetchEyesImage'' ''fove_Headset_fetchEyesImage'',
      py_def ''Headset_getEyeTrackingDataTimestamp'' ''fove_Headset_getEyeTrackingDataTimestamp'',
      py_def ''Headset_getEyesImageTimestamp'' ''fove_Headset_getEyesImageTimestamp'',
      py_def ''Headset_getGazeVector'' ''fove_Headset_getGazeVector'',
      py_def ''Headset_getGazeVectorRaw'' ''fove_Headset_getGazeVectorRaw'',
      py_def ''Headset_getGazeScreenPosition'' ''fove_Headset_getGazeScreenPosition'',
      py_def ''Headset_getGazeScreenPositionCombined'' ''fove_Headset_getGazeScreenPositionCombined'',
      py_def ''Headset_getCombinedGazeRay'' ''fove_Headset_getCombinedGazeRay'',
      py_def ''Headset_getCombinedGazeDepth'' ''fove_Headset_getCombinedGazeDepth'',
      py_def ''Headset_isUserShiftingAttention'' ''fove_Headset_isUserShiftingAttention'',
      py_def ''Headset_getEyeState'' ''fove_Headset_getEyeState'',
      py_def ''Headset_isEyeBlinking'' ''fove_Headset_isEyeBlinking'',
      py_def ''Headset_getEyeBlinkCount'' ''fove_Headset_getEyeBlinkCount'',
      py_def ''Headset_isEyeTrackingEnabled'' ''fove_Headset_isEyeTrackingEnabled'',
      py_def ''Headset_isEyeTrackingCalibrated'' ''fove_Headset_isEyeTrackingCalibrated'',
      py_def ''Headset_isEyeTrackingCalibrating'' ''fove_Headset_isEyeTrackingCalibrating'',
      py_def ''Headset_isEyeTrackingCalibratedForGlasses'' ''fove_Headset_isEyeTrackingCalibratedForGlasses'',
      py_def ''Headset_isHmdAdjustmentGuiVisible'' ''fove_Headset_isHmdAdjustmentGuiVisible'',
      py_def ''Headset_hasHmdAdjustmentGuiTimeout'' ''fove_Headset_hasHmdAdjustmentGuiTimeout'',
      py_def ''Headset_isEyeTrackingReady'' ''fove_Headset_isEyeTrackingReady'',
      py_def ''Headset_isUserPresent'' ''fove_Headset_isUserPresent'',
      py_def ''Headset_getEyesImage'' ''fove_Headset_getEyesImage'',
      py_def ''Headset_getUserIPD'' ''fove_Headset_getUserIPD'',
      py_def ''Headset_getUserIOD'' ''fove_Headset_getUserIOD'',
      py_def ''Headset_getPupilRadius'' ''fove_Headset_getPupilRadius'',
      py_def ''Headset_getIrisRadius'' ''fove_Headset_getIrisRadius'',
      py_def ''Headset_getEyeballRadius'' ''fove_Headset_getEyeballRadius'',
      py_def ''Headset_getEyeTorsion'' ''fove_Headset_getEyeTorsion'',
      py_def ''Headset_getEyeShape'' ''fove_Headset_getEyeShape'',
      py_def ''Headset_getPupilShape'' ''fove_Headset_getPupilShape'',
      py_def ''Headset_startHmdAdjustmentProcess'' ''fove_Headset_startHmdAdjustmentProcess'',
      py_def ''Headset_tickHmdAdjustmentProcess'' ''fove_Headset_tickHmdAdjustmentProcess'',
      py_def ''Headset_startEyeTrackingCalibration'' ''fove_Headset_startEyeTrackingCalibration'',
      py_def ''Headset_stopEyeTrackingCalibration'' ''fove_Headset_stopEyeTrackingCalibration'',
      py_def ''Headset_getEyeTrackingCalibrationState'' ''fove_Headset_getEyeTrackingCalibrationState'',
      py_def ''Headset_getEyeTrackingCalibrationStateDetails'' ''fove_Headset_getEyeTrackingCalibrationStateDetails'',
      py_def ''Headset_tickEyeTrackingCalibration'' ''fove_Headset_tickEyeTrackingCalibration'',
      py_def ''Headset_getGazedObjectId'' ''fove_Headset_getGazedObjectId'',
      py_def ''Headset_registerGazableObject'' ''fove_Headset_registerGazableObject'',
      py_def ''Headset_updateGazableObject'' ''fove_Headset_updateGazableObject'',
      py_def ''Headset_removeGazableObject'' ''fove_Headset_removeGazableObject'',
      py_def ''Headset_registerCameraObject'' ''fove_Headset_registerCameraObject'',
      py_def ''Headset_updateCameraObject'' ''fove_Headset_updateCameraObject'',
      py_def ''Headset_removeCameraObject'' ''fove_Headset_removeCameraObject'',
      py_def ''Headset_tareOrientationSensor'' ''fove_Headset_tareOrientationSensor'',
      py_def ''Headset_isPositionReady'' ''fove_Headset_isPositionReady'',
      py_def ''Headset_tarePositionSensors'' ''fove_Headset_tarePositionSensors'',
      py_def ''Headset_fetchPoseData'' ''fove_Headset_fetchPoseData'',
      py_def ''Headset_fetchPositionImage'' ''fove_Headset_fetchPositionImage'',
      py_def ''Headset_getPoseDataTimestamp'' ''fove_Headset_getPoseDataTimestamp'',
      py_def ''Headset_getPositionImageTimestamp'' ''fove_Headset_getPositionImageTimestamp'',
      py_def ''Headset_getPose'' ''fove_Headset_getPose'',
      py_def ''Headset_getPositionImage'' ''fove_Headset_getPositionImage'',
      py_def ''Headset_getProjectionMatricesLH'' ''fove_Headset_getProjectionMatricesLH'',
      py_def ''Headset_getProjectionMatricesRH'' ''fove_Headset_getProjectionMatricesRH'',
      py_def ''Headset_getRawProjectionValues'' ''fove_Headset_getRawProjectionValues'',
      py_def ''Headset_getEyeToHeadMatrices'' ''fove_Headset_getEyeToHeadMatrices'',
      py_def ''Headset_getRenderIOD'' ''fove_Headset_getRenderIOD'',
      py_def ''Headset_createProfile'' ''fove_Headset_createProfile'',
      py_def ''Headset_renameProfile'' ''fove_Headset_renameProfile'',
      py_def ''Headset_deleteProfile'' ''fove_Headset_deleteProfile'',
      py_def ''Headset_listProfiles'' ''fove_Headset_listProfiles'',
      py_def ''Headset_setCurrentProfile'' ''fove_Headset_setCurrentProfile'',
      py_def ''Headset_queryCurrentProfile'' ''fove_Headset_queryCurrentProfile'',
      py_def ''Headset_queryProfileDataPath'' ''fove_Headset_queryProfileDataPath'',
      py_def ''Headset_hasAccessToFeature'' ''fove_Headset_hasAccessToFeature'',
      py_def ''Headset_activateLicense'' ''fove_Headset_activateLicense'',
      py_def ''Headset_deactivateLicense'' ''fove_Headset_deactivateLicense'',
      py_def ''Headset_createCompositor'' ''fove_Headset_createCompositor'',
      py_def ''Compositor_destroy'' ''fove_Compositor_destroy'',
      py_def ''Compositor_createLayer'' ''fove_Compositor_createLayer'',
      py_def ''Compositor_submit'' ''fove_Compositor_submit'',
      py_def ''Compositor_waitForRenderPose'' ''fove_Compositor_waitForRenderPose'',
      py_def ''Compositor_getLastRenderPose'' ''fove_Compositor_getLastRenderPose'',
      py_def ''Compositor_isReady'' ''fove_Compositor_isReady'',
      py_def ''Compositor_queryAdapterId'' ''fove_Compositor_queryAdapterId'',
      py_def ''Config_getValue_bool'' ''fove_Config_getValue_bool'',
      py_def ''Config_getValue_int'' ''fove_Config_getValue_int'',
      py_def ''Config_getValue_float'' ''fove_Config_getValue_float'',
      py_def ''Config_getValue_string'' ''fove_Config_getValue_string'',
      py_def ''Config_setValue_bool'' ''fove_Config_setValue_bool'',
      py_def ''Config_setValue_int'' ''fove_Config_setValue_int'',
      py_def ''Config_setValue_float'' ''fove_Config_setValue_float'',
      py_def ''Config_setValue_string'' ''fove_Config_setValue_string'',
      py_def ''Config_clearValue'' ''fove_Config_clearValue'']"

definition capi :: py_module where
  "capi =
     foldl (\<lambda>m register. register m) []
      [defstruct_Headsets,
       defstruct_Compositor,
       defenum_ClientCapabilities,
       defenum_ErrorCode,
       defenum_CompositorLayerType,
       defenum_ObjectGroup,
       defstruct_Versions,
       defstruct_LicenseInfo,
       defstruct_HeadsetHardwareInfo,
       defstruct_Quaternion,
       defstruct_Vec3,
       defstruct_Vec2,
       defstruct_Vec2i,
       defstruct_Ray,
       defstruct_FrameTimestamp,
       defstruct_Pose,
       defenum_LogLevel,
       defenum_Eye,
       defenum_EyeState,
       defstruct_Matrix44,
       defstruct_ProjectionParams,
       defstruct_BoundingBox,
       defstruct_ObjectPose,
       defenum_ColliderType,
       defstruct_ColliderCube,
       defstruct_ColliderSphere,
       defstruct_ColliderMesh,
       defstruct_ObjectCollider,
       defstruct_GazableObject,
       defstruct_CameraObject,
       defenum_GraphicsAPI,
       defenum_AlphaMode,
       defstruct_CompositorLayerCreateInfo,
       defstruct_CompositorLayer,
       defstruct_CompositorTexture,
       defstruct_DX11Texture,
       defstruct_GLTexture,
       defstruct_MetalTexture,
       defstruct_TextureBounds,
       defstruct_CompositorLayerEyeSubmitInfo,
       defstruct_CompositorLayerSubmitInfo,
       defstruct_AdapterId,
       defstruct_Buffer,
       defstruct_EyeShape,
       defstruct_PupilShape,
       defstruct_BitmapImage,
       defstruct_CalibrationTarget,
       defenum_CalibrationState,
       defenum_CalibrationMethod,
       defenum_EyeByEyeCalibration,
       defenum_EyeTorsionCalibration,
       defstruct_CalibrationData,
       defstruct_CalibrationOptions,
       defstruct_HmdAdjustmentData,
       defstruct_Wrappers,
       bind_CAPIs]"

text \<open>
  A registration is a one-to-one binding of the SDK when the class or enum binds a type
  of \<open>FoveAPI.h\<close> itself, or the function calls the entry point that carries its name.
\<close>

fun binds_SDK :: "py_binding \<Rightarrow> bool" where
  "binds_SDK (py_class name (SDK t)) = True"
| "binds_SDK (py_class name t) = False"
| "binds_SDK (py_enum name (SDK t)) = True"
| "binds_SDK (py_enum name t) = False"
| "binds_SDK (py_def name entry_point) = (entry_point = ''fove_'' @ name)"

fun entry_points :: "py_module \<Rightarrow> string list" where
  "entry_points [] = []"
| "entry_points (py_def name entry_point # m) = entry_point # entry_points m"
| "entry_points (b # m) = entry_points m"

section \<open>Verified properties\<close>

subsection \<open>The capability flag algebra\<close>

lemmas ClientCapabilities_defs =
  ClientCapabilities_None_def ClientCapabilities_operator_or_def
  ClientCapabilities_operator_and_def ClientCapabilities_operator_not_def
  ClientCapabilities_and_def ClientCapabilities_or_def ClientCapabilities_add_def
  ClientCapabilities_sub_def ClientCapabilities_contains_def

lemma word_and_not_and_self: "(a AND NOT b) AND b = (0 :: 32 word)"
  by (simp add: bit_eq_iff bit_and_iff bit_not_iff)

lemma word_or_and_right: "(a OR b) AND b = (b :: 32 word)"
  by (auto simp add: bit_eq_iff bit_and_iff bit_or_iff)

text \<open>
  Claim C10. For all capability values \<open>a\<close> and \<open>b\<close>: \<open>a.__sub__(b)\<close> is \<open>a & ~b\<close>
  and has no bit in common with \<open>b\<close>; \<open>a.__add__(b)\<close> is \<open>a.__or__(b)\<close> and contains
  \<open>b\<close>; and \<open>a.__contains__(b)\<close> is true exactly when \<open>(a & b) == b\<close>.
\<close>

theorem ClientCapabilities_set_algebra:
  "ClientCapabilities_sub a b = a AND NOT b
   \<and> ClientCapabilities_and (ClientCapabilities_sub a b) b = ClientCapabilities_None
   \<and> ClientCapabilities_add a b = ClientCapabilities_or a b
   \<and> ClientCapabilities_contains (ClientCapabilities_add a b) b
   \<and> (ClientCapabilities_contains a b \<longleftrightarrow> (a AND b) = b)"
proof -
  have sub: "ClientCapabilities_sub a b = a AND NOT b"
    by (simp add: ClientCapabilities_defs)
  have disjoint: "ClientCapabilities_and (ClientCapabilities_sub a b) b = ClientCapabilities_None"
    unfolding sub by (simp add: ClientCapabilities_defs word_and_not_and_self)
  have add: "ClientCapabilities_add a b = ClientCapabilities_or a b"
    by (simp add: ClientCapabilities_defs)
  have "ClientCapabilities_operator_and (a OR b) b = b"
    by (simp add: ClientCapabilities_defs word_or_and_right)
  then have member: "ClientCapabilities_contains (ClientCapabilities_add a b) b"
    by (simp add: ClientCapabilities_defs)
  have contains: "ClientCapabilities_contains a b \<longleftrightarrow> (a AND b) = b"
    by (simp add: ClientCapabilities_defs)
  from sub disjoint add member contains show ?thesis
    by blast
qed

subsection \<open>Default arguments\<close>

lemma replicate_4: "replicate 4 x = [x, x, x, x]"
  by (simp add: numeral_eq_Suc)

lemmas init_defs =
  arg_def nullptr_def Quaternion_init_def default_Quaternion_def Vec3_init_def default_Vec3_def
  Vec2_init_def default_Vec2_def Vec2i_init_def default_Vec2i_def Ray_init_def
  BoundingBox_init_def ObjectPose_init_def default_ObjectPose_def Pose_init_def
  default_Pose_def ProjectionParams_init_def TextureBounds_init_def default_TextureBounds_def
  CalibrationTarget_init_def default_CalibrationTarget_def ColliderCube_init_def
  ColliderSphere_init_def Headset_init_def Compositor_init_def Versions_init_def
  LicenseInfo_init_def HeadsetHardwareInfo_init_def FrameTimestamp_init_def Matrix44_init_def
  ColliderMesh_init_def ObjectCollider_init_def ColliderArray_init_def GazableObject_init_def
  CameraObject_init_def CompositorLayerCreateInfo_init_def CompositorLayer_init_def
  CompositorTexture_init_def DX11Texture_init_def GLTexture_init_def MetalTexture_init_def
  default_CompositorLayerEyeSubmitInfo_def CompositorLayerEyeSubmitInfo_init_def
  CompositorLayerSubmitInfo_init_def default_Buffer_def Buffer_init_def EyeShape_init_def
  PupilShape_init_def BitmapImage_init_def CalibrationData_init_def HmdAdjustmentData_init_def
  CalibrationOptions_init_def Bool_init_def Int_init_def Float_init_def String_init_def
  EyeStateObj_init_def CalibrationStateObj_init_def AdapterId_new_def VertexBuffer_new_def
  IndexBuffer_new_def

text \<open>
  Claim C7 says that every constructible struct has default values, so that constructing
  it with no arguments yields one fixed value. \<open>VertexBuffer\<close> and \<open>IndexBuffer\<close> are
  constructible, from a buffer (three floats in one row make a vertex buffer of three
  components, three indices one triangle), but their only constructor has a required
  argument: called with no arguments they raise \<open>TypeError\<close> and yield no value.
\<close>

theorem mesh_buffers_have_no_default:
  "VertexBuffer_new None = TypeError
   \<and> IndexBuffer_new None = TypeError
   \<and> VertexBuffer_new
        (Some \<lparr>ptr = 4096, itemsize = 4, format = ''f'', ndim = 2, shape = [1, 3],
               strides = [12, 4]\<rparr>)
     = Returned (Inr \<lparr>VertexBuffer_vertices = 4096, VertexBuffer_vertexCount = 3\<rparr>)
   \<and> IndexBuffer_new
        (Some \<lparr>ptr = 8192, itemsize = 4, format = ''I'', ndim = 1, shape = [3],
               strides = [4]\<rparr>)
     = Returned (Inr \<lparr>IndexBuffer_indices = 8192, IndexBuffer_triangleCount = 1\<rparr>)"
  by (simp add: VertexBuffer_new_def IndexBuffer_new_def VertexBuffer_init_def
      IndexBuffer_init_def sizeof_float_def sizeof_unsigned_int_def format_float_def)

text \<open>
  Claim C7, amended. Every class of the module except \<open>VertexBuffer\<close>, \<open>IndexBuffer\<close> and
  \<open>AdapterId\<close> can be constructed with no arguments, and the value is the fixed one
  listed here, class by class. In particular a default
  \<open>Quaternion\<close> is \<open>(x, y, z, w) = (0, 0, 0, 1)\<close>, a default \<open>Ray\<close> has direction
  \<open>(0, 0, 1)\<close>, a default \<open>ObjectPose\<close> has scale \<open>(1, 1, 1)\<close>, a default
  \<open>ColliderCube\<close> has size \<open>(1, 1, 1)\<close> and a default \<open>ColliderSphere\<close> has radius
  \<open>0.5\<close>; \<open>Versions\<close> has \<open>-1\<close> in its numbers, \<open>CameraObject\<close> the group mask
  \<open>0xffffffff\<close>, \<open>CalibrationData\<close> the method \<open>Spiral\<close>. The defaults written in the
  constructors agree with the \<open>default_*\<close> helpers. What only \<open>FoveAPI.h\<close> fixes
  (\<open>fove_ObjectIdInvalid\<close>, the value of \<open>Fove_ObjectGroup::Group0\<close>, the
  value-initialised tag and union of \<open>ObjectCollider\<close>) is a parameter of the
  constructor. \<open>AdapterId\<close> has a constructor, with defaults \<open>(0, 0)\<close>, only
  when the module is compiled for Windows; elsewhere, and for \<open>VertexBuffer\<close> and
  \<open>IndexBuffer\<close> everywhere, a call with no arguments raises \<open>TypeError\<close>.
\<close>

theorem default_constructors:
  "Quaternion_init None None None None =
     (\<lparr>Quaternion_x = 0, Quaternion_y = 0, Quaternion_z = 0, Quaternion_w = 1\<rparr>
        :: ('a::{zero,one,uminus}) Fove_Quaternion)
   \<and> Quaternion_init None None None None = (default_Quaternion :: 'a Fove_Quaternion)
   \<and> Vec3_init None None None = (\<lparr>Vec3_x = 0, Vec3_y = 0, Vec3_z = 0\<rparr> :: 'a Fove_Vec3)
   \<and> Vec3_init None None None = (default_Vec3 :: 'a Fove_Vec3)
   \<and> Vec2_init None None = (\<lparr>Vec2_x = 0, Vec2_y = 0\<rparr> :: 'a Fove_Vec2)
   \<and> Vec2_init None None = (default_Vec2 :: 'a Fove_Vec2)
   \<and> Vec2i_init None None = \<lparr>Vec2i_x = 0, Vec2i_y = 0\<rparr>
   \<and> Vec2i_init None None = default_Vec2i
   \<and> Ray_init None None =
       (\<lparr>Ray_origin = \<lparr>Vec3_x = 0, Vec3_y = 0, Vec3_z = 0\<rparr>,
         Ray_direction = \<lparr>Vec3_x = 0, Vec3_y = 0, Vec3_z = 1\<rparr>\<rparr> :: 'a Fove_Ray)
   \<and> Ray_direction (Ray_init None None) =
       (\<lparr>Vec3_x = 0, Vec3_y = 0, Vec3_z = 1\<rparr> :: 'a Fove_Vec3)
   \<and> FrameTimestamp_init None None =
       \<lparr>FrameTimestamp_id = 0, FrameTimestamp_timestamp = 0\<rparr>
   \<and> Pose_init None None None None None None None None None =
       (\<lparr>Pose_id = 0, Pose_timestamp = 0,
         Pose_orientation =
           \<lparr>Quaternion_x = 0, Quaternion_y = 0, Quaternion_z = 0, Quaternion_w = 1\<rparr>,
         Pose_angularVelocity = \<lparr>Vec3_x = 0, Vec3_y = 0, Vec3_z = 0\<rparr>,
         Pose_angularAcceleration = \<lparr>Vec3_x = 0, Vec3_y = 0, Vec3_z = 0\<rparr>,
         Pose_position = \<lparr>Vec3_x = 0, Vec3_y = 0, Vec3_z = 0\<rparr>,
         Pose_standingPosition = \<lparr>Vec3_x = 0, Vec3_y = 0, Vec3_z = 0\<rparr>,
         Pose_velocity = \<lparr>Vec3_x = 0, Vec3_y = 0, Vec3_z = 0\<rparr>,
         Pose_acceleration = \<lparr>Vec3_x = 0, Vec3_y = 0, Vec3_z = 0\<rparr>\<rparr> :: 'a Fove_Pose)
   \<and> Pose_init None None None None None None None None None = (default_Pose :: 'a Fove_Pose)
   \<and> ProjectionParams_init None None None None =
       (\<lparr>ProjectionParams_left = - 1, ProjectionParams_right = 1,
         ProjectionParams_top = 1, ProjectionParams_bottom = - 1\<rparr>
          :: 'a Fove_ProjectionParams)
   \<and> BoundingBox_init None None =
       (\<lparr>BoundingBox_center = \<lparr>Vec3_x = 0, Vec3_y = 0, Vec3_z = 0\<rparr>,
         BoundingBox_extend = \<lparr>Vec3_x = 0, Vec3_y = 0, Vec3_z = 0\<rparr>\<rparr>
          :: 'a Fove_BoundingBox)
   \<and> ObjectPose_init None None None None =
       (\<lparr>ObjectPose_scale = \<lparr>Vec3_x = 1, Vec3_y = 1, Vec3_z = 1\<rparr>,
         ObjectPose_rotation =
           \<lparr>Quaternion_x = 0, Quaternion_y = 0, Quaternion_z = 0, Quaternion_w = 1\<rparr>,
         ObjectPose_position = \<lparr>Vec3_x = 0, Vec3_y = 0, Vec3_z = 0\<rparr>,
         ObjectPose_velocity = \<lparr>Vec3_x = 0, Vec3_y = 0, Vec3_z = 0\<rparr>\<rparr>
          :: 'a Fove_ObjectPose)
   \<and> ObjectPose_scale (ObjectPose_init None None None None) =
       (\<lparr>Vec3_x = 1, Vec3_y = 1, Vec3_z = 1\<rparr> :: 'a Fove_Vec3)
   \<and> ObjectPose_init None None None None = (default_ObjectPose :: 'a Fove_ObjectPose)
   \<and> ColliderCube_init None =
       (\<lparr>ColliderCube_size = \<lparr>Vec3_x = 1, Vec3_y = 1, Vec3_z = 1\<rparr>\<rparr> :: 'a Fove_ColliderCube)
   \<and> ColliderCube_size (ColliderCube_init None) =
       (\<lparr>Vec3_x = 1, Vec3_y = 1, Vec3_z = 1\<rparr> :: 'a Fove_Vec3)
   \<and> ColliderSphere_init None = \<lparr>ColliderSphere_radius = 0.5\<rparr>
   \<and> ColliderSphere_radius (ColliderSphere_init None) = 0.5
   \<and> TextureBounds_init None None None None =
       (\<lparr>TextureBounds_left = 0, TextureBounds_top = 0,
         TextureBounds_right = 0, TextureBounds_bottom = 0\<rparr> :: 'a Fove_TextureBounds)
   \<and> TextureBounds_init None None None None = (default_TextureBounds :: 'a Fove_TextureBounds)
   \<and> CalibrationTarget_init None None =
       (\<lparr>CalibrationTarget_position = \<lparr>Vec3_x = 0, Vec3_y = 0, Vec3_z = 0\<rparr>,
         CalibrationTarget_recommendedSize = 0\<rparr> :: 'a Fove_CalibrationTarget)
   \<and> CalibrationTarget_init None None =
       (default_CalibrationTarget :: 'a Fove_CalibrationTarget)
   \<and> Headset_init = 0
   \<and> Compositor_init = 0
   \<and> Versions_init None None None None None None None None None None None None None =
       \<lparr>Versions_clientMajor = - 1, Versions_clientMinor = - 1, Versions_clientBuild = - 1,
        Versions_clientProtocol = - 1, Versions_clientHash = [],
        Versions_runtimeMajor = - 1, Versions_runtimeMinor = - 1, Versions_runtimeBuild = - 1,
        Versions_runtimeHash = [], Versions_firmware = - 1, Versions_maxFirmware = - 1,
        Versions_minFirmware = - 1, Versions_tooOldHeadsetConnected = False\<rparr>
   \<and> LicenseInfo_init =
       \<lparr>uuid = [], expirationYear = 0, expirationMonth = 0, expirationDay = 0,
        licenseType = [], licensee = []\<rparr>
   \<and> HeadsetHardwareInfo_init = \<lparr>serialNumber = [], manufacturer = [], modelName = []\<rparr>
   \<and> (Matrix44_init :: 'a Fove_Matrix44) =
       \<lparr>Matrix44_mat = [[0, 0, 0, 0], [0, 0, 0, 0], [0, 0, 0, 0], [0, 0, 0, 0]]\<rparr>
   \<and> (ColliderMesh_init :: 'a Fove_ColliderMesh) =
       \<lparr>ColliderMesh_vertices = 0, ColliderMesh_vertexCount = 0,
        ColliderMesh_indices = 0, ColliderMesh_triangleCount = 0,
        ColliderMesh_boundingBox =
          \<lparr>BoundingBox_center = \<lparr>Vec3_x = 0, Vec3_y = 0, Vec3_z = 0\<rparr>,
           BoundingBox_extend = \<lparr>Vec3_x = 0, Vec3_y = 0, Vec3_z = 0\<rparr>\<rparr>\<rparr>
   \<and> ObjectCollider_init zero_shapeType zero_shapeDefinition None =
       (\<lparr>ObjectCollider_center = \<lparr>Vec3_x = 0, Vec3_y = 0, Vec3_z = 0\<rparr>,
         ObjectCollider_shapeType = zero_shapeType,
         ObjectCollider_shapeDefinition = zero_shapeDefinition\<rparr> :: 'a Fove_ObjectCollider)
   \<and> (ColliderArray_init :: 'a ColliderArray) = \<lparr>ColliderArray_colliders = []\<rparr>
   \<and> GazableObject_init fove_ObjectIdInvalid ObjectGroup_Group0 None None None =
       (\<lparr>GazableObject_id = fove_ObjectIdInvalid,
         GazableObject_pose = default_ObjectPose,
         GazableObject_group = ObjectGroup_Group0,
         GazableObject_colliderCount = 0,
         GazableObject_colliders = 0\<rparr> :: 'a Fove_GazableObject)
   \<and> CameraObject_init fove_ObjectIdInvalid None None None =
       (\<lparr>CameraObject_id = fove_ObjectIdInvalid,
         CameraObject_pose = default_ObjectPose,
         CameraObject_groupMask = 0xffffffff\<rparr> :: 'a Fove_CameraObject)
   \<and> CompositorLayerCreateInfo_init None None None None None =
       \<lparr>CompositorLayerCreateInfo_type = CompositorLayerType_Base,
        CompositorLayerCreateInfo_disableTimeWarp = False,
        CompositorLayerCreateInfo_alphaMode = AlphaMode_Auto,
        CompositorLayerCreateInfo_disableFading = False,
        CompositorLayerCreateInfo_disableDistortion = False\<rparr>
   \<and> CompositorLayer_init None None =
       \<lparr>CompositorLayer_layerId = 0,
        CompositorLayer_idealResolutionPerEye = \<lparr>Vec2i_x = 0, Vec2i_y = 0\<rparr>\<rparr>
   \<and> CompositorTexture_init None = \<lparr>CompositorTexture_graphicsAPI = GraphicsAPI_DirectX\<rparr>
   \<and> DX11Texture_init =
       \<lparr>DX11Texture_parent = \<lparr>CompositorTexture_graphicsAPI = GraphicsAPI_DirectX\<rparr>,
        DX11Texture_texture = 0\<rparr>
   \<and> GLTexture_init =
       \<lparr>GLTexture_parent = \<lparr>CompositorTexture_graphicsAPI = GraphicsAPI_OpenGL\<rparr>,
        GLTexture_textureId = 0, GLTexture_context = 0\<rparr>
   \<and> MetalTexture_init =
       \<lparr>MetalTexture_parent = \<lparr>CompositorTexture_graphicsAPI = GraphicsAPI_Metal\<rparr>,
        MetalTexture_texture = 0\<rparr>
   \<and> CompositorLayerEyeSubmitInfo_init None None =
       (\<lparr>CompositorLayerEyeSubmitInfo_texInfo = 0,
         CompositorLayerEyeSubmitInfo_bounds = default_TextureBounds\<rparr>
          :: 'a Fove_CompositorLayerEyeSubmitInfo)
   \<and> CompositorLayerEyeSubmitInfo_init None None =
       (default_CompositorLayerEyeSubmitInfo :: 'a Fove_CompositorLayerEyeSubmitInfo)
   \<and> CompositorLayerSubmitInfo_init None None None None =
       (\<lparr>CompositorLayerSubmitInfo_layerId = 0,
         CompositorLayerSubmitInfo_pose = default_Pose,
         CompositorLayerSubmitInfo_left = default_CompositorLayerEyeSubmitInfo,
         CompositorLayerSubmitInfo_right = default_CompositorLayerEyeSubmitInfo\<rparr>
          :: 'a Fove_CompositorLayerSubmitInfo)
   \<and> Buffer_init None None = \<lparr>Buffer_data = 0, Buffer_length = 0\<rparr>
   \<and> Buffer_init None None = default_Buffer
   \<and> (EyeShape_init :: 'a Fove_EyeShape) =
       \<lparr>EyeShape_outline = replicate 12 \<lparr>Vec2_x = 0, Vec2_y = 0\<rparr>\<rparr>
   \<and> PupilShape_init None None None =
       (\<lparr>PupilShape_center = \<lparr>Vec2_x = 0, Vec2_y = 0\<rparr>,
         PupilShape_size = \<lparr>Vec2_x = 0, Vec2_y = 0\<rparr>,
         PupilShape_angle = 0\<rparr> :: 'a Fove_PupilShape)
   \<and> BitmapImage_init None None =
       \<lparr>BitmapImage_timestamp = 0,
        BitmapImage_image = \<lparr>Buffer_data = 0, Buffer_length = 0\<rparr>\<rparr>
   \<and> CalibrationData_init None None None None None =
       (\<lparr>CalibrationData_method = CalibrationMethod_Spiral,
         CalibrationData_state = CalibrationState_NotStarted,
         CalibrationData_stateInfo = [],
         CalibrationData_targetL = default_CalibrationTarget,
         CalibrationData_targetR = default_CalibrationTarget\<rparr> :: 'a CalibrationData)
   \<and> HmdAdjustmentData_init None None None None None None None None None None =
       (\<lparr>HmdAdjustmentData_translation = \<lparr>Vec2_x = 0, Vec2_y = 0\<rparr>,
         HmdAdjustmentData_rotation = 0,
         HmdAdjustmentData_adjustmentNeeded = False,
         HmdAdjustmentData_hasTimeout = False,
         HmdAdjustmentData_idealPositionL = \<lparr>Vec2_x = 0, Vec2_y = 0\<rparr>,
         HmdAdjustmentData_idealPositionR = \<lparr>Vec2_x = 0, Vec2_y = 0\<rparr>,
         HmdAdjustmentData_idealPositionSpanL = 0,
         HmdAdjustmentData_idealPositionSpanR = 0,
         HmdAdjustmentData_estimatedPositionL = \<lparr>Vec2_x = 0, Vec2_y = 0\<rparr>,
         HmdAdjustmentData_estimatedPositionR = \<lparr>Vec2_x = 0, Vec2_y = 0\<rparr>\<rparr>
          :: 'a Fove_HmdAdjustmentData)
   \<and> CalibrationOptions_init None None None None None =
       \<lparr>CalibrationOptions_lazy = False,
        CalibrationOptions_restart = False,
        CalibrationOptions_eyeByEye = EyeByEyeCalibration_Default,
        CalibrationOptions_method = CalibrationMethod_Default,
        CalibrationOptions_eyeTorsion = EyeTorsionCalibration_Default\<rparr>
   \<and> Bool_init None = False
   \<and> Int_init None = 0
   \<and> Float_init None = (0 :: 'a)
   \<and> String_init None = []
   \<and> EyeStateObj_init None = EyeState_NotDetected
   \<and> CalibrationStateObj_init None = CalibrationState_NotStarted
   \<and> AdapterId_new True None None =
       Returned \<lparr>AdapterId_lowPart = 0, AdapterId_highPart = 0\<rparr>
   \<and> AdapterId_new False lowPart highPart = TypeError
   \<and> VertexBuffer_new None = TypeError
   \<and> IndexBuffer_new None = TypeError"
  by (simp add: init_defs replicate_4)

subsection \<open>The collider's tagged union\<close>

text \<open>
  Claim C8. Assigning \<open>cubeDefinition\<close>, \<open>sphereDefinition\<close> or \<open>meshDefinition\<close> sets
  \<open>shapeType\<close> to \<open>Cube\<close>, \<open>Sphere\<close> or \<open>Mesh\<close> and stores the assigned shape, which the
  matching getter then returns; and a getter returns (rather than throws) exactly when
  \<open>shapeType\<close> is its own collider type.
\<close>

theorem ObjectCollider_tagged_union:
  "ObjectCollider_shapeType (set_cubeDefinition c vc) = Cube
   \<and> ObjectCollider_shapeDefinition (set_cubeDefinition c vc) = cube_member vc
   \<and> get_cubeDefinition (set_cubeDefinition c vc) = Inr (Some vc)
   \<and> ObjectCollider_shapeType (set_sphereDefinition c vs) = Sphere
   \<and> ObjectCollider_shapeDefinition (set_sphereDefinition c vs) = sphere_member vs
   \<and> get_sphereDefinition (set_sphereDefinition c vs) = Inr (Some vs)
   \<and> ObjectCollider_shapeType (set_meshDefinition c vm) = Mesh
   \<and> ObjectCollider_shapeDefinition (set_meshDefinition c vm) = mesh_member vm
   \<and> get_meshDefinition (set_meshDefinition c vm) = Inr (Some vm)
   \<and> ((\<exists>r. get_cubeDefinition c = Inr r) \<longleftrightarrow> ObjectCollider_shapeType c = Cube)
   \<and> ((\<exists>e. get_cubeDefinition c = Inl e) \<longleftrightarrow> ObjectCollider_shapeType c \<noteq> Cube)
   \<and> ((\<exists>r. get_sphereDefinition c = Inr r) \<longleftrightarrow> ObjectCollider_shapeType c = Sphere)
   \<and> ((\<exists>e. get_sphereDefinition c = Inl e) \<longleftrightarrow> ObjectCollider_shapeType c \<noteq> Sphere)
   \<and> ((\<exists>r. get_meshDefinition c = Inr r) \<longleftrightarrow> ObjectCollider_shapeType c = Mesh)
   \<and> ((\<exists>e. get_meshDefinition c = Inl e) \<longleftrightarrow> ObjectCollider_shapeType c \<noteq> Mesh)"
  by (simp add: get_cubeDefinition_def set_cubeDefinition_def get_sphereDefinition_def
      set_sphereDefinition_def get_meshDefinition_def set_meshDefinition_def)

subsection \<open>Buffer descriptors of native arrays\<close>

lemma map_upt_shift: "map f [m ..< m + n] = map (\<lambda>j. f (m + j)) [0 ..< n]"
  by (induction n) simp_all

lemma concat_rows:
  "concat (map (\<lambda>i. map (\<lambda>j. f (i * cols + j)) [0 ..< cols]) [0 ..< rows])
     = map f [0 ..< rows * cols]"
proof (induction rows)
  case 0
  show ?case by simp
next
  case (Suc r)
  have split: "[0 ..< Suc r * cols] = [0 ..< r * cols] @ [r * cols ..< r * cols + cols]"
    by (metis add.commute mult_Suc upt_add_eq_append zero_le)
  have "concat (map (\<lambda>i. map (\<lambda>j. f (i * cols + j)) [0 ..< cols]) [0 ..< Suc r])
      = map f [0 ..< r * cols] @ map (\<lambda>j. f (r * cols + j)) [0 ..< cols]"
    using Suc by simp
  also have "\<dots> = map f [0 ..< Suc r * cols]"
    unfolding split by (simp add: map_upt_shift)
  finally show ?case .
qed

lemma offsets_1D_native:
  "offsets_1D (define_1D_buffer_protocol sz fmt n p) = native_layout sz n"
  by (simp add: offsets_1D_def define_1D_buffer_protocol_def buffer_offset_def
      native_layout_def)

lemma offsets_2D_native:
  "offsets_2D (define_2D_buffer_protocol sz fmt rows cols p) = native_layout sz (rows * cols)"
proof -
  have "offsets_2D (define_2D_buffer_protocol sz fmt rows cols p)
      = concat (map (\<lambda>i. map (\<lambda>j. int ((i * cols + j) * sz)) [0 ..< cols]) [0 ..< rows])"
    by (simp add: offsets_2D_def define_2D_buffer_protocol_def buffer_offset_def
        algebra_simps)
  also have "\<dots> = map (\<lambda>k. int (k * sz)) [0 ..< rows * cols]"
    by (rule concat_rows)
  finally show ?thesis by (simp add: native_layout_def)
qed

lemma native_layout_distinct: "0 < sz \<Longrightarrow> distinct (native_layout sz n)"
  by (simp add: native_layout_def distinct_map inj_on_def)

lemma native_layout_sorted: "sorted (native_layout sz n)"
  unfolding native_layout_def
  by (simp add: sorted_iff_nth_mono mult_right_mono)

text \<open>
  Claim C5. For every element type, extent and array address, \<open>define_1D_buffer_protocol\<close>
  describes the array itself: the buffer starts at the address of the first element and
  carries the format of the element type, it is 1-dimensional with item size
  \<open>sizeof(Elem)\<close>, dimension \<open>Size\<close> and stride \<open>sizeof(Elem)\<close>; and
  \<open>define_2D_buffer_protocol\<close> likewise describes a 2-dimensional buffer with
  dimensions \<open>{Rows, Cols}\<close> and strides \<open>{sizeof(Elem) * Cols, sizeof(Elem)}\<close>. Walking
  the indices in order visits the byte offsets of the native array one after the other:
  every element once, in layout order. (\<open>sizeof\<close> is never zero.)
\<close>

theorem buffer_protocol_exact:
  assumes "0 < sizeof_Elem"
  shows "ptr (define_1D_buffer_protocol sizeof_Elem fmt Size p) = p
   \<and> format (define_1D_buffer_protocol sizeof_Elem fmt Size p) = fmt
   \<and> itemsize (define_1D_buffer_protocol sizeof_Elem fmt Size p) = int sizeof_Elem
   \<and> ndim (define_1D_buffer_protocol sizeof_Elem fmt Size p) = 1
   \<and> shape (define_1D_buffer_protocol sizeof_Elem fmt Size p) = [int Size]
   \<and> strides (define_1D_buffer_protocol sizeof_Elem fmt Size p) = [int sizeof_Elem]
   \<and> offsets_1D (define_1D_buffer_protocol sizeof_Elem fmt Size p)
       = native_layout sizeof_Elem Size
   \<and> ptr (define_2D_buffer_protocol sizeof_Elem fmt Rows Cols p) = p
   \<and> format (define_2D_buffer_protocol sizeof_Elem fmt Rows Cols p) = fmt
   \<and> itemsize (define_2D_buffer_protocol sizeof_Elem fmt Rows Cols p) = int sizeof_Elem
   \<and> ndim (define_2D_buffer_protocol sizeof_Elem fmt Rows Cols p) = 2
   \<and> shape (define_2D_buffer_protocol sizeof_Elem fmt Rows Cols p) = [int Rows, int Cols]
   \<and> strides (define_2D_buffer_protocol sizeof_Elem fmt Rows Cols p)
       = [int sizeof_Elem * int Cols, int sizeof_Elem]
   \<and> offsets_2D (define_2D_buffer_protocol sizeof_Elem fmt Rows Cols p)
       = native_layout sizeof_Elem (Rows * Cols)
   \<and> distinct (offsets_1D (define_1D_buffer_protocol sizeof_Elem fmt Size p))
   \<and> sorted (offsets_1D (define_1D_buffer_protocol sizeof_Elem fmt Size p))
   \<and> distinct (offsets_2D (define_2D_buffer_protocol sizeof_Elem fmt Rows Cols p))
   \<and> sorted (offsets_2D (define_2D_buffer_protocol sizeof_Elem fmt Rows Cols p))"
  using assms
  by (simp add: offsets_1D_native offsets_2D_native native_layout_distinct
        native_layout_sorted)
     (simp add: define_1D_buffer_protocol_def define_2D_buffer_protocol_def)

text \<open>
  The theorem at \<open>float[3]\<close> (a \<open>Vec3\<close>) and \<open>float[4][4]\<close> (a \<open>Matrix44\<close>) stored at
  address 4096.
\<close>

theorem buffer_protocol_exact_witness:
  "(0::nat) < 4
   \<and> ptr (define_2D_buffer_protocol 4 ''f'' 4 4 4096) = 4096
   \<and> format (define_2D_buffer_protocol 4 ''f'' 4 4 4096) = ''f''
   \<and> strides (define_2D_buffer_protocol 4 ''f'' 4 4 4096) = [16, 4]
   \<and> shape (define_2D_buffer_protocol 4 ''f'' 4 4 4096) = [4, 4]
   \<and> offsets_2D (define_2D_buffer_protocol 4 ''f'' 4 4 4096)
       = [0, 4, 8, 12, 16, 20, 24, 28, 32, 36, 40, 44, 48, 52, 56, 60]
   \<and> ptr (define_1D_buffer_protocol 4 ''f'' 3 4096) = 4096
   \<and> format (define_1D_buffer_protocol 4 ''f'' 3 4096) = ''f''
   \<and> offsets_1D (define_1D_buffer_protocol 4 ''f'' 3 4096) = [0, 4, 8]"
  using buffer_protocol_exact [of 4 "''f''" 3 4096 4 4]
  by (simp add: native_layout_def upt_rec numeral_eq_Suc)

subsection \<open>Validation of mesh buffers\<close>

lemmas mesh_consts =
  sizeof_float_def sizeof_unsigned_int_def format_float_def format_unsigned_int_def

lemma VertexBuffer_init_succeeds_iff:
  "(\<exists>v. VertexBuffer_init info = Inr v) \<longleftrightarrow>
     (format info = format_float \<and> ndim info = 2 \<and> shape info ! 1 = 3
      \<and> strides info ! 0 = 3 * sizeof_float \<and> strides info ! 1 = sizeof_float)"
  by (simp add: VertexBuffer_init_def)

lemma IndexBuffer_init_succeeds_iff:
  "(\<exists>v. IndexBuffer_init info = Inr v) \<longleftrightarrow>
     (ndim info = 1 \<and> strides info ! 0 = sizeof_unsigned_int \<and> shape info ! 0 mod 3 = 0)"
  by (simp add: IndexBuffer_init_def)

text \<open>
  Claim C9 says that an \<open>IndexBuffer\<close> is built exactly from contiguous 1-dimensional
  \<open>unsigned int\<close> arrays with a multiple of 3 elements, every other input raising an
  exception. The constructor never looks at the element format, so its result is the
  same for every format: a contiguous 1-dimensional array of three \<open>float\<close>s is
  accepted and becomes one triangle, while \<open>VertexBuffer\<close> does reject a buffer of the
  wrong element type.
\<close>

theorem IndexBuffer_accepts_float_buffer:
  "IndexBuffer_init
     \<lparr>ptr = p, itemsize = 4, format = ''f'', ndim = 1, shape = [3], strides = [4]\<rparr>
     = Inr \<lparr>IndexBuffer_indices = p, IndexBuffer_triangleCount = 1\<rparr>
   \<and> ''f'' \<noteq> format_unsigned_int
   \<and> IndexBuffer_init (info\<lparr>format := fmt\<rparr>) = IndexBuffer_init info
   \<and> VertexBuffer_init
     \<lparr>ptr = p, itemsize = 4, format = ''I'', ndim = 2, shape = [1, 3], strides = [12, 4]\<rparr>
     = Inl (runtime_error ''Incompatible format: expected a float array! received:I'')"
proof -
  have accepted: "IndexBuffer_init
     \<lparr>ptr = p, itemsize = 4, format = ''f'', ndim = 1, shape = [3], strides = [4]\<rparr>
     = Inr \<lparr>IndexBuffer_indices = p, IndexBuffer_triangleCount = 1\<rparr>"
    by (simp add: IndexBuffer_init_def mesh_consts)
  have not_unsigned: "''f'' \<noteq> format_unsigned_int"
    by (simp add: mesh_consts)
  have any_format: "IndexBuffer_init (info\<lparr>format := fmt\<rparr>) = IndexBuffer_init info"
    by (simp add: IndexBuffer_init_def)
  have sibling: "VertexBuffer_init
     \<lparr>ptr = p, itemsize = 4, format = ''I'', ndim = 2, shape = [1, 3], strides = [12, 4]\<rparr>
     = Inl (runtime_error ''Incompatible format: expected a float array! received:I'')"
    by (simp add: VertexBuffer_init_def mesh_consts)
  from accepted not_unsigned any_format sibling show ?thesis
    by blast
qed

subsection \<open>Wrappers of the native entry points\<close>

lemma invoke_eq:
  "invoke name f s =
     (fst (f (world s)), \<lparr>world = snd (f (world s)), calls = calls s @ [name]\<rparr>)"
  by (simp add: invoke_def split: prod.split)




lemma Headset_queryLicenses_unfold:
  "Headset_queryLicenses ql h e s =
     (let r1 = ql h None 0 (world s);
          error1 = fst (fst r1);
          numLicenses = snd (snd (fst r1));
          s1 = \<lparr>world = snd r1, calls = calls s @ [''fove_Headset_queryLicenses'']\<rparr>;
          r2 = ql h (Some (replicate numLicenses zero_LicenseInfo)) numLicenses (snd r1);
          error2 = fst (fst r2);
          s2 = \<lparr>world = snd r2,
                calls = calls s @
                  [''fove_Headset_queryLicenses'', ''fove_Headset_queryLicenses'']\<rparr>
      in if error1 \<noteq> ErrorCode_None then ((Some [], error1), s1)
         else if 0 < numLicenses then
           (if error2 \<noteq> ErrorCode_None then ((Some [], error2), s2)
            else ((license_loop (fst (snd (fst r2))) (snd (snd (fst r2))), error2), s2))
         else ((Some [], error1), s1))"
  by (simp add: Headset_queryLicenses_def invoke_eq Let_def split: prod.split)

lemmas forward_defs =
  logText_def createHeadset_def Headset_destroy_def Headset_isHardwareConnected_def
  Headset_isMotionReady_def Headset_checkSoftwareVersions_def
  Headset_registerCapabilities_def Headset_registerPassiveCapabilities_def
  Headset_unregisterCapabilities_def Headset_unregisterPassiveCapabilities_def
  Headset_waitForProcessedEyeFrame_def Headset_fetchEyeTrackingData_def
  Headset_fetchEyesImage_def Headset_getEyeTrackingDataTimestamp_def
  Headset_getEyesImageTimestamp_def Headset_getGazeVector_def Headset_getGazeVectorRaw_def
  Headset_getGazeScreenPosition_def Headset_getGazeScreenPositionCombined_def
  Headset_getCombinedGazeRay_def Headset_getCombinedGazeDepth_def
  Headset_isUserShiftingAttention_def Headset_getEyeState_def Headset_isEyeBlinking_def
  Headset_getEyeBlinkCount_def Headset_isEyeTrackingEnabled_def
  Headset_isEyeTrackingCalibrated_def Headset_isEyeTrackingCalibrating_def
  Headset_isEyeTrackingCalibratedForGlasses_def Headset_isHmdAdjustmentGuiVisible_def
  Headset_hasHmdAdjustmentGuiTimeout_def Headset_isEyeTrackingReady_def
  Headset_isUserPresent_def Headset_getEyesImage_def Headset_getUserIPD_def
  Headset_getUserIOD_def Headset_getPupilRadius_def Headset_getIrisRadius_def
  Headset_getEyeballRadius_def Headset_getEyeTorsion_def Headset_getEyeShape_def
  Headset_getPupilShape_def Headset_startHmdAdjustmentProcess_def
  Headset_tickHmdAdjustmentProcess_def Headset_startEyeTrackingCalibration_def
  Headset_stopEyeTrackingCalibration_def Headset_getEyeTrackingCalibrationState_def
  Headset_getGazedObjectId_def Headset_registerGazableObject_def
  Headset_updateGazableObject_def Headset_removeGazableObject_def
  Headset_registerCameraObject_def Headset_updateCameraObject_def
  Headset_removeCameraObject_def Headset_tareOrientationSensor_def
  Headset_isPositionReady_def Headset_tarePositionSensors_def Headset_fetchPoseData_def
  Headset_fetchPositionImage_def Headset_getPoseDataTimestamp_def
  Headset_getPositionImageTimestamp_def Headset_getPose_def Headset_getPositionImage_def
  Headset_getProjectionMatricesLH_def Headset_getProjectionMatricesRH_def
  Headset_getRawProjectionValues_def Headset_getEyeToHeadMatrices_def
  Headset_getRenderIOD_def Headset_createProfile_def Headset_renameProfile_def
  Headset_deleteProfile_def Headset_setCurrentProfile_def Headset_hasAccessToFeature_def
  Headset_activateLicense_def Headset_deactivateLicense_def Headset_createCompositor_def
  Compositor_destroy_def Compositor_createLayer_def Compositor_submit_def
  Compositor_waitForRenderPose_def Compositor_getLastRenderPose_def Compositor_isReady_def
  Compositor_queryAdapterId_def Config_getValue_bool_def Config_getValue_int_def
  Config_getValue_float_def Config_setValue_bool_def Config_setValue_int_def
  Config_setValue_float_def Config_setValue_string_def Config_clearValue_def

lemmas special_defs =
  Headset_querySoftwareVersions_def Headset_queryHardwareInfo_def
  Headset_getEyeTrackingCalibrationStateDetails_def Headset_tickEyeTrackingCalibration_def
  Headset_queryCurrentProfile_def Headset_queryProfileDataPath_def Config_getValue_string_def
  Headset_listProfiles_def



text \<open>
  Claim C3. The error code a function of \<open>bind_CAPIs\<close> delivers is the one its entry
  point produced. \<open>Headset_queryLicenses\<close> stores in \<open>error\<close> the code of the last call it
  made to \<open>fove_Headset_queryLicenses\<close>, and whenever that code is not \<open>None\<close> the list it
  returns is empty. \<open>Headset_queryHardwareInfo\<close> returns the code of its entry point
  and copies the three output strings. Each of the other 98 functions delivers the code
  of its one invocation: as its return value, or, for \<open>Headset_listProfiles\<close>, in the
  out-parameter.
\<close>

theorem error_codes_forwarded:
  "(\<forall>f headset error s.
      snd (fst (Headset_queryLicenses f headset error s)) =
        (let r1 = f headset None 0 (world s);
             numLicenses = snd (snd (fst r1));
             r2 = f headset (Some (replicate numLicenses zero_LicenseInfo)) numLicenses (snd r1)
         in if fst (fst r1) = ErrorCode_None \<and> 0 < numLicenses
            then fst (fst r2) else fst (fst r1)))
   \<and> (\<forall>f headset error s.
      snd (fst (Headset_queryLicenses f headset error s)) = ErrorCode_None
      \<or> fst (fst (Headset_queryLicenses f headset error s)) = Some [])
   \<and> (\<forall>f headset outHardwareInfo s.
      snd (fst (Headset_queryHardwareInfo f headset outHardwareInfo s)) =
        \<lparr>serialNumber = std_string (native_serialNumber (snd (fst (f headset (world s))))),
         manufacturer = std_string (native_manufacturer (snd (fst (f headset (world s))))),
         modelName = std_string (native_modelName (snd (fst (f headset (world s)))))\<rparr>)
   \<and> (\<forall>f headset outVersions s.
      fst (fst (Headset_querySoftwareVersions f headset outVersions s)) = fst (fst (f headset (world s))))
   \<and> (\<forall>f headset outHardwareInfo s.
      fst (fst (Headset_queryHardwareInfo f headset outHardwareInfo s)) = fst (fst (f headset (world s))))
   \<and> (\<forall>f headset data s.
      fst (fst (Headset_getEyeTrackingCalibrationStateDetails f headset data s)) = fst (fst (f headset (world s))))
   \<and> (\<forall>f headset deltaTime isVisible data s.
      fst (fst (Headset_tickEyeTrackingCalibration f headset deltaTime isVisible data s)) = fst (fst (f headset deltaTime isVisible (world s))))
   \<and> (\<forall>f headset profileName s.
      fst (fst (Headset_queryCurrentProfile f headset profileName s)) = fst (fst (f headset (world s))))
   \<and> (\<forall>f headset profileName dataPath s.
      fst (fst (Headset_queryProfileDataPath f headset profileName dataPath s)) = fst (fst (f headset profileName (world s))))
   \<and> (\<forall>f key outValue s.
      fst (fst (Config_getValue_string f key outValue s)) = fst (fst (f key (world s))))
   \<and> (\<forall>f headset err s.
      snd (fst (Headset_listProfiles f headset err s)) = fst (fst (f headset (world s))))
   \<and> (\<forall>f level utf8Text s.
      fst (logText f level utf8Text s) = fst (f level utf8Text (world s)))
   \<and> (\<forall>f capabilities outHeadset s.
      fst (fst (createHeadset f capabilities outHeadset s)) = fst (fst (f capabilities outHeadset (world s))))
   \<and> (\<forall>f headset s.
      fst (Headset_destroy f headset s) = fst (f headset (world s)))
   \<and> (\<forall>f headset outConnected s.
      fst (fst (Headset_isHardwareConnected f headset outConnected s)) = fst (fst (f headset outConnected (world s))))
   \<and> (\<forall>f headset outMotionReady s.
      fst (fst (Headset_isMotionReady f headset outMotionReady s)) = fst (fst (f headset outMotionReady (world s))))
   \<and> (\<forall>f headset s.
      fst (Headset_checkSoftwareVersions f headset s) = fst (f headset (world s)))
   \<and> (\<forall>f headset caps s.
      fst (Headset_registerCapabilities f headset caps s) = fst (f headset caps (world s)))
   \<and> (\<forall>f headset caps s.
      fst (Headset_registerPassiveCapabilities f headset caps s) = fst (f headset caps (world s)))
   \<and> (\<forall>f headset caps s.
      fst (Headset_unregisterCapabilities f headset caps s) = fst (f headset caps (world s)))
   \<and> (\<forall>f headset caps s.
      fst (Headset_unregisterPassiveCapabilities f headset caps s) = fst (f headset caps (world s)))
   \<and> (\<forall>f headset s.
      fst (Headset_waitForProcessedEyeFrame f headset s) = fst (f headset (world s)))
   \<and> (\<forall>f headset out s.
      fst (fst (Headset_fetchEyeTrackingData f headset out s)) = fst (fst (f headset out (world s))))
   \<and> (\<forall>f headset out s.
      fst (fst (Headset_fetchEyesImage f headset out s)) = fst (fst (f headset out (world s))))
   \<and> (\<forall>f headset out s.
      fst (fst (Headset_getEyeTrackingDataTimestamp f headset out s)) = fst (fst (f headset out (world s))))
   \<and> (\<forall>f headset out s.
      fst (fst (Headset_getEyesImageTimestamp f headset out s)) = fst (fst (f headset out (world s))))
   \<and> (\<forall>f headset eye out s.
      fst (fst (Headset_getGazeVector f headset eye out s)) = fst (fst (f headset eye out (world s))))
   \<and> (\<forall>f headset eye out s.
      fst (fst (Headset_getGazeVectorRaw f headset eye out s)) = fst (fst (f headset eye out (world s))))
   \<and> (\<forall>f headset eye out s.
      fst (fst (Headset_getGazeScreenPosition f headset eye out s)) = fst (fst (f headset eye out (world s))))
   \<and> (\<forall>f headset out s.
      fst (fst (Headset_getGazeScreenPositionCombined f headset out s)) = fst (fst (f headset out (world s))))
   \<and> (\<forall>f headset out s.
      fst (fst (Headset_getCombinedGazeRay f headset out s)) = fst (fst (f headset out (world s))))
   \<and> (\<forall>f headset out s.
      fst (fst (Headset_getCombinedGazeDepth f headset out s)) = fst (fst (f headset out (world s))))
   \<and> (\<forall>f headset out s.
      fst (fst (Headset_isUserShiftingAttention f headset out s)) = fst (fst (f headset out (world s))))
   \<and> (\<forall>f headset eye out s.
      fst (fst (Headset_getEyeState f headset eye out s)) = fst (fst (f headset eye out (world s))))
   \<and> (\<forall>f headset eye out s.
      fst (fst (Headset_isEyeBlinking f headset eye out s)) = fst (fst (f headset eye out (world s))))
   \<and> (\<forall>f headset eye out s.
      fst (fst (Headset_getEyeBlinkCount f headset eye out s)) = fst (fst (f headset eye out (world s))))
   \<and> (\<forall>f headset outEyeTrackingEnabled s.
      fst (fst (Headset_isEyeTrackingEnabled f headset outEyeTrackingEnabled s)) = fst (fst (f headset outEyeTrackingEnabled (world s))))
   \<and> (\<forall>f headset outEyeTrackingCalibrated s.
      fst (fst (Headset_isEyeTrackingCalibrated f headset outEyeTrackingCalibrated s)) = fst (fst (f headset outEyeTrackingCalibrated (world s))))
   \<and> (\<forall>f headset outEyeTrackingCalibrating s.
      fst (fst (Headset_isEyeTrackingCalibrating f headset outEyeTrackingCalibrating s)) = fst (fst (f headset outEyeTrackingCalibrating (world s))))
   \<and> (\<forall>f headset out s.
      fst (fst (Headset_isEyeTrackingCalibratedForGlasses f headset out s)) = fst (fst (f headset out (world s))))
   \<and> (\<forall>f headset outVisible s.
      fst (fst (Headset_isHmdAdjustmentGuiVisible f headset outVisible s)) = fst (fst (f headset outVisible (world s))))
   \<and> (\<forall>f headset out s.
      fst (fst (Headset_hasHmdAdjustmentGuiTimeout f headset out s)) = fst (fst (f headset out (world s))))
   \<and> (\<forall>f headset outEyeTrackingReady s.
      fst (fst (Headset_isEyeTrackingReady f headset outEyeTrackingReady s)) = fst (fst (f headset outEyeTrackingReady (world s))))
   \<and> (\<forall>f headset out s.
      fst (fst (Headset_isUserPresent f headset out s)) = fst (fst (f headset out (world s))))
   \<and> (\<forall>f headset outImage s.
      fst (fst (Headset_getEyesImage f headset outImage s)) = fst (fst (f headset outImage (world s))))
   \<and> (\<forall>f headset out s.
      fst (fst (Headset_getUserIPD f headset out s)) = fst (fst (f headset out (world s))))
   \<and> (\<forall>f headset out s.
      fst (fst (Headset_getUserIOD f headset out s)) = fst (fst (f headset out (world s))))
   \<and> (\<forall>f headset eye out s.
      fst (fst (Headset_getPupilRadius f headset eye out s)) = fst (fst (f headset eye out (world s))))
   \<and> (\<forall>f headset eye out s.
      fst (fst (Headset_getIrisRadius f headset eye out s)) = fst (fst (f headset eye out (world s))))
   \<and> (\<forall>f headset eye out s.
      fst (fst (Headset_getEyeballRadius f headset eye out s)) = fst (fst (f headset eye out (world s))))
   \<and> (\<forall>f headset eye out s.
      fst (fst (Headset_getEyeTorsion f headset eye out s)) = fst (fst (f headset eye out (world s))))
   \<and> (\<forall>f headset eye out s.
      fst (fst (Headset_getEyeShape f headset eye out s)) = fst (fst (f headset eye out (world s))))
   \<and> (\<forall>f headset eye out s.
      fst (fst (Headset_getPupilShape f headset eye out s)) = fst (fst (f headset eye out (world s))))
   \<and> (\<forall>f headset lazy s.
      fst (Headset_startHmdAdjustmentProcess f headset lazy s) = fst (f headset lazy (world s)))
   \<and> (\<forall>f headset deltaTime isVisible data s.
      fst (fst (Headset_tickHmdAdjustmentProcess f headset deltaTime isVisible data s)) = fst (fst (f headset deltaTime isVisible data (world s))))
   \<and> (\<forall>f headset options s.
      fst (Headset_startEyeTrackingCalibration f headset options s) = fst (f headset options (world s)))
   \<and> (\<forall>f headset s.
      fst (Headset_stopEyeTrackingCalibration f headset s) = fst (f headset (world s)))
   \<and> (\<forall>f headset state s.
      fst (fst (Headset_getEyeTrackingCalibrationState f headset state s)) = fst (fst (f headset state (world s))))
   \<and> (\<forall>f headset ident s.
      fst (fst (Headset_getGazedObjectId f headset ident s)) = fst (fst (f headset ident (world s))))
   \<and> (\<forall>f headset gazableObj s.
      fst (Headset_registerGazableObject f headset gazableObj s) = fst (f headset gazableObj (world s)))
   \<and> (\<forall>f headset ident pose s.
      fst (Headset_updateGazableObject f headset ident pose s) = fst (f headset ident pose (world s)))
   \<and> (\<forall>f headset ident s.
      fst (Headset_removeGazableObject f headset ident s) = fst (f headset ident (world s)))
   \<and> (\<forall>f headset cameraObj s.
      fst (Headset_registerCameraObject f headset cameraObj s) = fst (f headset cameraObj (world s)))
   \<and> (\<forall>f headset ident pose s.
      fst (Headset_updateCameraObject f headset ident pose s) = fst (f headset ident pose (world s)))
   \<and> (\<forall>f headset ident s.
      fst (Headset_removeCameraObject f headset ident s) = fst (f headset ident (world s)))
   \<and> (\<forall>f headset s.
      fst (Headset_tareOrientationSensor f headset s) = fst (f headset (world s)))
   \<and> (\<forall>f headset outPositionReady s.
      fst (fst (Headset_isPositionReady f headset outPositionReady s)) = fst (fst (f headset outPositionReady (world s))))
   \<and> (\<forall>f headset s.
      fst (Headset_tarePositionSensors f headset s) = fst (f headset (world s)))
   \<and> (\<forall>f headset out s.
      fst (fst (Headset_fetchPoseData f headset out s)) = fst (fst (f headset out (world s))))
   \<and> (\<forall>f headset out s.
      fst (fst (Headset_fetchPositionImage f headset out s)) = fst (fst (f headset out (world s))))
   \<and> (\<forall>f headset out s.
      fst (fst (Headset_getPoseDataTimestamp f headset out s)) = fst (fst (f headset out (world s))))
   \<and> (\<forall>f headset out s.
      fst (fst (Headset_getPositionImageTimestamp f headset out s)) = fst (fst (f headset out (world s))))
   \<and> (\<forall>f headset outPose s.
      fst (fst (Headset_getPose f headset outPose s)) = fst (fst (f headset outPose (world s))))
   \<and> (\<forall>f headset outImage s.
      fst (fst (Headset_getPositionImage f headset outImage s)) = fst (fst (f headset outImage (world s))))
   \<and> (\<forall>f headset zNear zFar outLeftMat outRightMat s.
      fst (fst (Headset_getProjectionMatricesLH f headset zNear zFar outLeftMat outRightMat s)) = fst (fst (f headset zNear zFar outLeftMat outRightMat (world s))))
   \<and> (\<forall>f headset zNear zFar outLeftMat outRightMat s.
      fst (fst (Headset_getProjectionMatricesRH f headset zNear zFar outLeftMat outRightMat s)) = fst (fst (f headset zNear zFar outLeftMat outRightMat (world s))))
   \<and> (\<forall>f headset outLeft outRight s.
      fst (fst (Headset_getRawProjectionValues f headset outLeft outRight s)) = fst (fst (f headset outLeft outRight (world s))))
   \<and> (\<forall>f headset outLeft outRight s.
      fst (fst (Headset_getEyeToHeadMatrices f headset outLeft outRight s)) = fst (fst (f headset outLeft outRight (world s))))
   \<and> (\<forall>f headset outIOD s.
      fst (fst (Headset_getRenderIOD f headset outIOD s)) = fst (fst (f headset outIOD (world s))))
   \<and> (\<forall>f headset profileName s.
      fst (Headset_createProfile f headset profileName s) = fst (f headset profileName (world s)))
   \<and> (\<forall>f headset oldName newName s.
      fst (Headset_renameProfile f headset oldName newName s) = fst (f headset oldName newName (world s)))
   \<and> (\<forall>f headset profileName s.
      fst (Headset_deleteProfile f headset profileName s) = fst (f headset profileName (world s)))
   \<and> (\<forall>f headset profileName s.
      fst (Headset_setCurrentProfile f headset profileName s) = fst (f headset profileName (world s)))
   \<and> (\<forall>f headset featureName hasAccess s.
      fst (fst (Headset_hasAccessToFeature f headset featureName hasAccess s)) = fst (fst (f headset featureName hasAccess (world s))))
   \<and> (\<forall>f headset licenseKey s.
      fst (Headset_activateLicense f headset licenseKey s) = fst (f headset licenseKey (world s)))
   \<and> (\<forall>f headset licenseData s.
      fst (Headset_deactivateLicense f headset licenseData s) = fst (f headset licenseData (world s)))
   \<and> (\<forall>f headset outCompositor s.
      fst (fst (Headset_createCompositor f headset outCompositor s)) = fst (fst (f headset outCompositor (world s))))
   \<and> (\<forall>f compositor s.
      fst (Compositor_destroy f compositor s) = fst (f compositor (world s)))
   \<and> (\<forall>f compositor layerInfo outLayer s.
      fst (fst (Compositor_createLayer f compositor layerInfo outLayer s)) = fst (fst (f compositor layerInfo outLayer (world s))))
   \<and> (\<forall>f compositor submitInfo layerCount s.
      fst (Compositor_submit f compositor submitInfo layerCount s) = fst (f compositor submitInfo layerCount (world s)))
   \<and> (\<forall>f compositor outPose s.
      fst (fst (Compositor_waitForRenderPose f compositor outPose s)) = fst (fst (f compositor outPose (world s))))
   \<and> (\<forall>f compositor outPose s.
      fst (fst (Compositor_getLastRenderPose f compositor outPose s)) = fst (fst (f compositor outPose (world s))))
   \<and> (\<forall>f compositor outIsReady s.
      fst (fst (Compositor_isReady f compositor outIsReady s)) = fst (fst (f compositor outIsReady (world s))))
   \<and> (\<forall>f compositor outAdapterId s.
      fst (fst (Compositor_queryAdapterId f compositor outAdapterId s)) = fst (fst (f compositor outAdapterId (world s))))
   \<and> (\<forall>f key outValue s.
      fst (fst (Config_getValue_bool f key outValue s)) = fst (fst (f key outValue (world s))))
   \<and> (\<forall>f key outValue s.
      fst (fst (Config_getValue_int f key outValue s)) = fst (fst (f key outValue (world s))))
   \<and> (\<forall>f key outValue s.
      fst (fst (Config_getValue_float f key outValue s)) = fst (fst (f key outValue (world s))))
   \<and> (\<forall>f key val s.
      fst (Config_setValue_bool f key val s) = fst (f key val (world s)))
   \<and> (\<forall>f key val s.
      fst (Config_setValue_int f key val s) = fst (f key val (world s)))
   \<and> (\<forall>f key val s.
      fst (Config_setValue_float f key val s) = fst (f key val (world s)))
   \<and> (\<forall>f key val s.
      fst (Config_setValue_string f key val s) = fst (f key val (world s)))
   \<and> (\<forall>f key s.
      fst (Config_clearValue f key s) = fst (f key (world s)))"
  by (simp add: forward_defs special_defs invoke_eq Headset_queryLicenses_unfold Let_def
      split: prod.split)

text \<open>
  The theorem at a native library whose second call fails: the failure code reaches the
  caller and the list is empty.
\<close>

theorem error_codes_forwarded_witness:
  "snd (fst (Headset_queryLicenses native_failing_fetch 1 ErrorCode_None
               \<lparr>world = (), calls = []\<rparr>)) = ErrorCode_UnknownError
   \<and> ErrorCode_UnknownError \<noteq> ErrorCode_None
   \<and> fst (fst (Headset_queryLicenses native_failing_fetch 1 ErrorCode_None
               \<lparr>world = (), calls = []\<rparr>)) = Some []"
proof -
  let ?r = "Headset_queryLicenses native_failing_fetch 1 ErrorCode_None
              \<lparr>world = (), calls = []\<rparr>"
  note code_eq = error_codes_forwarded [THEN conjunct1, THEN spec, THEN spec, THEN spec,
      THEN spec, of native_failing_fetch 1 ErrorCode_None "\<lparr>world = (), calls = []\<rparr>"]
  note empty = error_codes_forwarded [THEN conjunct2, THEN conjunct1, THEN spec, THEN spec,
      THEN spec, THEN spec, of native_failing_fetch 1 ErrorCode_None
      "\<lparr>world = (), calls = []\<rparr>"]
  have code: "snd (fst ?r) = ErrorCode_UnknownError"
    using code_eq
    by (simp add: native_failing_fetch_def ErrorCode_None_def ErrorCode_UnknownError_def)
  have ne: "ErrorCode_UnknownError \<noteq> ErrorCode_None"
    by (simp add: ErrorCode_None_def ErrorCode_UnknownError_def)
  have "snd (fst ?r) = ErrorCode_None \<or> fst (fst ?r) = Some []"
    using empty .
  with code ne have "fst (fst ?r) = Some []" by simp
  with code ne show ?thesis by simp
qed

subsection \<open>Where numeric results are computed\<close>




subsection \<open>Provenance of the exposed types\<close>

lemmas registry_defs =
  defenum_ClientCapabilities_def defenum_ErrorCode_def defenum_CompositorLayerType_def
  defenum_ObjectGroup_def defstruct_Versions_def defstruct_LicenseInfo_def
  defstruct_HeadsetHardwareInfo_def defstruct_Quaternion_def defstruct_Vec3_def
  defstruct_Vec2_def defstruct_Vec2i_def defstruct_Ray_def defstruct_FrameTimestamp_def
  defstruct_Pose_def defenum_LogLevel_def defenum_Eye_def defenum_EyeState_def
  defstruct_Matrix44_def defstruct_ProjectionParams_def defstruct_BoundingBox_def
  defstruct_ObjectPose_def defenum_ColliderType_def defstruct_ColliderCube_def
  defstruct_ColliderSphere_def defstruct_VertexBuffer_def defstruct_IndexBuffer_def
  defstruct_ColliderMesh_def defstruct_ObjectCollider_def defstruct_ColliderArray_def
  defstruct_GazableObject_def defstruct_CameraObject_def defenum_GraphicsAPI_def
  defenum_AlphaMode_def defstruct_CompositorLayerCreateInfo_def defstruct_CompositorLayer_def
  defstruct_CompositorTexture_def defstruct_DX11Texture_def defstruct_GLTexture_def
  defstruct_MetalTexture_def defstruct_TextureBounds_def
  defstruct_CompositorLayerEyeSubmitInfo_def defstruct_CompositorLayerSubmitInfo_def
  defstruct_AdapterId_def defstruct_Buffer_def defstruct_EyeShape_def defstruct_PupilShape_def
  defstruct_BitmapImage_def defstruct_CalibrationTarget_def defenum_CalibrationState_def
  defenum_CalibrationMethod_def defenum_EyeByEyeCalibration_def
  defenum_EyeTorsionCalibration_def defstruct_CalibrationData_def
  defstruct_HmdAdjustmentData_def defstruct_CalibrationOptions_def defstruct_Headsets_def
  defstruct_Compositor_def defstruct_Wrappers_def

lemma capi_own_types:
  "filter (\<lambda>b. \<not> binds_SDK b) capi =
     [py_class ''Fove_Headset'' (Obj (Pointer (SDK ''Fove_Headset''))),
      py_class ''Fove_Compositor'' (Obj (Pointer (SDK ''Fove_Compositor''))),
      py_class ''Versions'' (Local ''Python_Versions''),
      py_class ''LicenseInfo'' (Local ''Python_LicenseInfo''),
      py_class ''HeadsetHardwareInfo'' (Local ''Python_HeadsetHardwareInfo''),
      py_class ''Matrix44'' (Obj (SDK ''Fove_Matrix44'')),
      py_class ''VertexBuffer'' (Local ''VertexBuffer''),
      py_class ''IndexBuffer'' (Local ''IndexBuffer''),
      py_class ''ColliderArray'' (Local ''ColliderArray''),
      py_class ''EyeShape'' (Obj (SDK ''Fove_EyeShape'')),
      py_class ''CalibrationData'' (Local ''CalibrationData''),
      py_class ''Bool'' (Obj (Builtin ''bool'')),
      py_class ''Int'' (Obj (Builtin ''int'')),
      py_class ''Float'' (Obj (Builtin ''float'')),
      py_class ''String'' (Obj (Builtin ''std::string'')),
      py_class ''EyeStateObj'' (Obj (SDK ''Fove_EyeState'')),
      py_class ''CalibrationStateObj'' (Obj (SDK ''Fove_CalibrationState''))]"
  by (simp add: capi_def registry_defs bind_CAPIs_def)

lemma capi_entry_points:
  "distinct (entry_points capi) \<and> length (entry_points capi) = 100"
  by (simp add: capi_def registry_defs bind_CAPIs_def)

text \<open>
  Claim C6 says that every struct the module exposes binds a type of the native SDK,
  with no original type added on the binding side. \<open>VertexBuffer\<close>, \<open>ColliderArray\<close> and
  \<open>CalibrationData\<close> are registered classes whose C++ types \<open>bindings.cpp\<close> declares
  itself.
\<close>

theorem capi_registers_own_types:
  "py_class ''VertexBuffer'' (Local ''VertexBuffer'') \<in> set capi
   \<and> py_class ''ColliderArray'' (Local ''ColliderArray'') \<in> set capi
   \<and> py_class ''CalibrationData'' (Local ''CalibrationData'') \<in> set capi
   \<and> \<not> binds_SDK (py_class ''VertexBuffer'' (Local ''VertexBuffer''))
   \<and> \<not> binds_SDK (py_class ''ColliderArray'' (Local ''ColliderArray''))
   \<and> \<not> binds_SDK (py_class ''CalibrationData'' (Local ''CalibrationData''))"
proof -
  have "set (filter (\<lambda>b. \<not> binds_SDK b) capi) \<subseteq> set capi"
    by simp
  then show ?thesis
    unfolding capi_own_types by simp
qed

text \<open>
  Claim C6, amended. Every enum and every function the module exposes is a one-to-one
  binding of an enum or an entry point of the native SDK (the 100 functions call 100
  different entry points, each the one that carries the function's name), and so is
  every class except seventeen that the binding adds: the structs \<open>Versions\<close>,
  \<open>LicenseInfo\<close>, \<open>HeadsetHardwareInfo\<close>, \<open>VertexBuffer\<close>, \<open>IndexBuffer\<close>,
  \<open>ColliderArray\<close> and \<open>CalibrationData\<close> declared in \<open>bindings.cpp\<close>, and the
  \<open>Obj<T>\<close> wrappers \<open>Fove_Headset\<close>, \<open>Fove_Compositor\<close>, \<open>Matrix44\<close>, \<open>EyeShape\<close>,
  \<open>Bool\<close>, \<open>Int\<close>, \<open>Float\<close>, \<open>String\<close>, \<open>EyeStateObj\<close> and \<open>CalibrationStateObj\<close>.
\<close>

theorem capi_bindings:
  "filter (\<lambda>b. \<not> binds_SDK b) capi =
     [py_class ''Fove_Headset'' (Obj (Pointer (SDK ''Fove_Headset''))),
      py_class ''Fove_Compositor'' (Obj (Pointer (SDK ''Fove_Compositor''))),
      py_class ''Versions'' (Local ''Python_Versions''),
      py_class ''LicenseInfo'' (Local ''Python_LicenseInfo''),
      py_class ''HeadsetHardwareInfo'' (Local ''Python_HeadsetHardwareInfo''),
      py_class ''Matrix44'' (Obj (SDK ''Fove_Matrix44'')),
      py_class ''VertexBuffer'' (Local ''VertexBuffer''),
      py_class ''IndexBuffer'' (Local ''IndexBuffer''),
      py_class ''ColliderArray'' (Local ''ColliderArray''),
      py_class ''EyeShape'' (Obj (SDK ''Fove_EyeShape'')),
      py_class ''CalibrationData'' (Local ''CalibrationData''),
      py_class ''Bool'' (Obj (Builtin ''bool'')),
      py_class ''Int'' (Obj (Builtin ''int'')),
      py_class ''Float'' (Obj (Builtin ''float'')),
      py_class ''String'' (Obj (Builtin ''std::string'')),
      py_class ''EyeStateObj'' (Obj (SDK ''Fove_EyeState'')),
      py_class ''CalibrationStateObj'' (Obj (SDK ''Fove_CalibrationState''))]
   \<and> distinct (entry_points capi)
   \<and> length (entry_points capi) = 100"
  using capi_own_types capi_entry_points by simp

end
